theory Spec2Isabelle
  imports Complex_Main "HOL-Library.Word" "HOL-Library.Signed_Division"
begin

unbundle bit_operations_syntax

section \<open>The CoastWatch format library (cwflib.c, cwproj.c) as HOL functions\<close>

text \<open>
  Conventions of the embedding.
  \<^item> C \<^verbatim>\<open>short\<close> and \<^verbatim>\<open>unsigned short\<close> are \<open>16 word\<close> (read with \<open>sint\<close>,
    respectively \<open>uint\<close>), \<^verbatim>\<open>unsigned char\<close> is \<open>8 word\<close>, \<^verbatim>\<open>size_t\<close> is \<open>32 word\<close>
    (the binding layer CWF.c passes \<^verbatim>\<open>int\<close> arrays as \<^verbatim>\<open>size_t *\<close>).
  \<^item> An expression that C evaluates in \<^verbatim>\<open>int\<close> after the integer promotions is written
    over HOL's \<open>int\<close> where its operands are promoted 16-bit or 8-bit values (no overflow
    of a 32-bit \<^verbatim>\<open>int\<close> is possible there); the conversion back on assignment is
    \<open>word_of_int\<close>.
  \<^item> C \<^verbatim>\<open>float\<close> and \<^verbatim>\<open>double\<close> are idealised as \<open>real\<close>: every constant has its
    decimal value and every operation is exact. The NaN of \<^verbatim>\<open>0/0\<close> is \<open>None\<close>.
  \<^item> A conversion from a floating value to an integer type whose result does not fit is
    undefined in C; it is \<open>None\<close> here.
  \<^item> A function that returns a status and fills a buffer returns \<open>Inl\<close> of the error or
    \<open>Inr\<close> of the filled buffer.
\<close>

type_synonym short = "16 word"
type_synonym ushort = "16 word"
type_synonym uchar = "8 word"
type_synonym size_t = "32 word"

subsection \<open>Constants of cwflib.h and cwflib.c\<close>

datatype cw_status =
    CW_NOERR | CW_ERR_CREATE | CW_ERR_CREATE_MODE | CW_ERR_ACCESS | CW_ERR_ACCESS_MODE
  | CW_ERR_NOT_DEFINE_MODE | CW_ERR_DATASET_ID | CW_ERR_ENDDEF_FAILED
  | CW_ERR_VAR_ID | CW_ERR_VAR_INDEX | CW_ERR_VAR_VALUE | CW_ERR_DEFINE_MODE
  | CW_ERR_NOMEM | CW_ERR_MAX_FILES | CW_ERR_CREATE_EXISTS | CW_ERR_CREATE_HEADER
  | CW_ERR_MAGIC | CW_ERR_MAGIC_READ | CW_ERR_READ_ATT | CW_ERR_READ_DATA
  | CW_ERR_WRITE_DATA | CW_ERR_DIM_UNDEFINED | CW_ERR_VAR_UNDEFINED
  | CW_ERR_UNSUP_DATA_ID | CW_ERR_UNSUP_CHANNEL_NUMBER | CW_ERR_UNSUP_PIXEL_SIZE
  | CW_ERR_UNSUP_CALIBRATION_TYPE | CW_ERR_CFILE | CW_ERR_UFILE
  | CW_ERR_UNSUP_COMPRESSION_TYPE | CW_ERR_COM_BYTE0 | CW_ERR_WRITE_SHIFT

definition CW_BADVAL :: real where "CW_BADVAL = - 999"
definition ZEROC :: real where "ZEROC = 273.15"
definition KTOC :: "real \<Rightarrow> real" where "KTOC a = a - ZEROC"

definition CW_CALIBRATION_TYPE_RAW :: short where "CW_CALIBRATION_TYPE_RAW = 0"
definition CW_CALIBRATION_TYPE_ALBEDO_TEMPERATURE :: short where
  "CW_CALIBRATION_TYPE_ALBEDO_TEMPERATURE = 2"

definition CW_COMPRESSION_TYPE_NONE :: short where "CW_COMPRESSION_TYPE_NONE = 0"
definition CW_COMPRESSION_TYPE_FLAT :: short where "CW_COMPRESSION_TYPE_FLAT = 1"
definition CW_COMPRESSION_TYPE_1B :: short where "CW_COMPRESSION_TYPE_1B = 2"

definition CW_DATA_ID_VISIBLE :: short where "CW_DATA_ID_VISIBLE = 0"
definition CW_DATA_ID_IR :: short where "CW_DATA_ID_IR = 1"
definition CW_DATA_ID_ANCILLARY :: short where "CW_DATA_ID_ANCILLARY = 2"
definition CW_DATA_ID_CLOUD :: short where "CW_DATA_ID_CLOUD = 3"

definition CW_CHANNEL_NUMBER_AVHRR5 :: short where "CW_CHANNEL_NUMBER_AVHRR5 = 5"
definition CW_CHANNEL_NUMBER_SCAN_ANGLE :: short where "CW_CHANNEL_NUMBER_SCAN_ANGLE = 101"
definition CW_CHANNEL_NUMBER_SAT_ZENITH :: short where "CW_CHANNEL_NUMBER_SAT_ZENITH = 102"
definition CW_CHANNEL_NUMBER_SOL_ZENITH :: short where "CW_CHANNEL_NUMBER_SOL_ZENITH = 103"
definition CW_CHANNEL_NUMBER_REL_AZIMUTH :: short where "CW_CHANNEL_NUMBER_REL_AZIMUTH = 104"
definition CW_CHANNEL_NUMBER_SCAN_TIME :: short where "CW_CHANNEL_NUMBER_SCAN_TIME = 105"

subsection \<open>Floating-point helpers\<close>

text \<open>\<^verbatim>\<open>roundf\<close> (cwflib.c line 918): \<^verbatim>\<open>f > 0 ? floor (f+0.5) : ceil (f-0.5)\<close>.\<close>

definition roundf :: "real \<Rightarrow> real" where
  "roundf f = (if f > 0 then of_int \<lfloor>f + 1/2\<rfloor> else of_int \<lceil>f - 1/2\<rceil>)"

text \<open>Conversion of a floating value to an integer type truncates towards zero.\<close>

definition c_trunc :: "real \<Rightarrow> int" where
  "c_trunc x = (if 0 \<le> x then \<lfloor>x\<rfloor> else \<lceil>x\<rceil>)"

definition short_of_float :: "real \<Rightarrow> short option" where
  "short_of_float x =
     (if - 32768 \<le> c_trunc x \<and> c_trunc x \<le> 32767 then Some (word_of_int (c_trunc x)) else None)"

definition ushort_of_float :: "real \<Rightarrow> ushort option" where
  "ushort_of_float x =
     (if 0 \<le> c_trunc x \<and> c_trunc x \<le> 65535 then Some (word_of_int (c_trunc x)) else None)"

subsection \<open>Calibration: raw counts to physical values (cwflib.c lines 1017-1139)\<close>

text \<open>Each C function is a loop over \<open>len\<close> values; the loop body is the \<open>_elem\<close> function.\<close>

definition cw_cal_raw_elem :: "short \<Rightarrow> short \<Rightarrow> real" where
  "cw_cal_raw_elem compression sp =
     (if compression = CW_COMPRESSION_TYPE_FLAT then
        (if sint sp < 0 \<or> sint sp > 1023 then CW_BADVAL else real_of_int (sint sp))
      else
        (if sint sp < 1 \<or> sint sp > 1024 then CW_BADVAL else real_of_int (sint sp) - 1))"

definition cw_cal_raw :: "short list \<Rightarrow> short \<Rightarrow> real list" where
  "cw_cal_raw sp compression = map (cw_cal_raw_elem compression) sp"

definition cw_cal_visible_elem :: "short \<Rightarrow> short \<Rightarrow> real" where
  "cw_cal_visible_elem compression sp =
     (if compression = CW_COMPRESSION_TYPE_FLAT then
        (if sint sp < 0 \<or> sint sp > 10000 then CW_BADVAL else real_of_int (sint sp) / 100)
      else
        (if sint sp < 1 \<or> sint sp > 2047 then CW_BADVAL
         else real_of_int (sint sp - 1) / 20.47))"

definition cw_cal_visible :: "short list \<Rightarrow> short \<Rightarrow> real list" where
  "cw_cal_visible sp compression = map (cw_cal_visible_elem compression) sp"

definition cw_cal_ir_elem :: "short \<Rightarrow> short \<Rightarrow> short \<Rightarrow> real" where
  "cw_cal_ir_elem compression channel sp =
     (if compression = CW_COMPRESSION_TYPE_FLAT then
        (if sint channel \<le> sint CW_CHANNEL_NUMBER_AVHRR5 then
           (if sint sp < 0 \<or> sint sp > 32760 then CW_BADVAL
            else KTOC (real_of_int (sint sp) / 100))
         else
           (if sint sp < - 4000 \<or> sint sp > 4000 then CW_BADVAL
            else real_of_int (sint sp) / 100))
      else
        (if sint sp < 1 \<or> sint sp > 2047 then CW_BADVAL
         else if sint sp = 1 then KTOC 178
         else if sint sp < 921 then real_of_int (sint sp - 1) * 0.1 + KTOC 178
         else if sint sp \<le> 1721 then
           (let f = real_of_int (sint sp - 921) * 0.05 + KTOC 270
            in if \<bar>f - 0\<bar> < 0.01 then 0 else f)
         else real_of_int (sint sp - 1721) * 0.1 + KTOC 310))"

definition cw_cal_ir :: "short list \<Rightarrow> short \<Rightarrow> short \<Rightarrow> real list" where
  "cw_cal_ir sp compression channel = map (cw_cal_ir_elem compression channel) sp"

subsection \<open>Ancillary data (cwflib.c lines 1242-1303 and 2059-2103)\<close>

text \<open>
  The scan-time branch of \<^verbatim>\<open>cw_decode_ancillary\<close>:
  \<^verbatim>\<open>hours = (short) usp[i]/100; minutes = (short) usp[i] - hours;
  fp[i] = hours + (float) minutes/60;\<close>
  The division is C's, truncating towards zero (\<open>sdiv\<close>).
\<close>

definition cw_decode_scan_time_elem :: "ushort \<Rightarrow> real" where
  "cw_decode_scan_time_elem usp =
     (let hours = (word_of_int (sint usp sdiv 100) :: short);
          minutes = (word_of_int (sint usp - sint hours) :: short)
      in real_of_int (sint hours) + real_of_int (sint minutes) / 60)"

definition cw_decode_angle_elem :: "short \<Rightarrow> ushort \<Rightarrow> real" where
  "cw_decode_angle_elem compression usp =
     (if compression = CW_COMPRESSION_TYPE_FLAT then real_of_int (uint usp) / 100
      else if usp = 0 then CW_BADVAL
      else real_of_int (uint usp - 1) / 128)"

definition is_angle_channel :: "short \<Rightarrow> bool" where
  "is_angle_channel channel \<longleftrightarrow>
     channel = CW_CHANNEL_NUMBER_SCAN_ANGLE \<or> channel = CW_CHANNEL_NUMBER_SAT_ZENITH \<or>
     channel = CW_CHANNEL_NUMBER_SOL_ZENITH \<or> channel = CW_CHANNEL_NUMBER_REL_AZIMUTH"

text \<open>\<^verbatim>\<open>cw_decode_ancillary\<close> with a destination \<^verbatim>\<open>fp != NULL\<close>, as its one caller passes.\<close>

definition cw_decode_ancillary :: "ushort list \<Rightarrow> short \<Rightarrow> short \<Rightarrow> cw_status + real list" where
  "cw_decode_ancillary usp channel compression =
     (if is_angle_channel channel then Inr (map (cw_decode_angle_elem compression) usp)
      else if channel = CW_CHANNEL_NUMBER_SCAN_TIME then Inr (map cw_decode_scan_time_elem usp)
      else Inl CW_ERR_UNSUP_CHANNEL_NUMBER)"

text \<open>
  The sentence of the specification on scan time, in its own words: the stored value is a
  packed HHMM integer, decoded to fractional hours.
\<close>

definition spec_hhmm_hours :: "ushort \<Rightarrow> real" where
  "spec_hhmm_hours v = real_of_int (uint v div 100) + real_of_int (uint v mod 100) / 60"

subsection \<open>Uncalibration: physical values to raw counts (cwflib.c lines 1916-1984)\<close>

text \<open>
  The encoders take no compression type: \<^verbatim>\<open>cw_encode_channel\<close> always writes the
  non-flat coding. \<^verbatim>\<open>sp[i] = (short) roundf (...) + 1\<close> converts the rounded value to
  \<^verbatim>\<open>short\<close>, adds in \<^verbatim>\<open>int\<close> and converts back on assignment.
\<close>

definition cw_uncal_raw_elem :: "real \<Rightarrow> short option" where
  "cw_uncal_raw_elem f =
     (if f = CW_BADVAL then Some 0
      else map_option (\<lambda>s. let sp = s + 1 in if sint sp < 1 \<or> sint sp > 1024 then 0 else sp)
             (short_of_float (roundf f)))"

definition cw_uncal_raw :: "real list \<Rightarrow> short list option" where
  "cw_uncal_raw fp = those (map cw_uncal_raw_elem fp)"

definition cw_uncal_visible_elem :: "real \<Rightarrow> short option" where
  "cw_uncal_visible_elem f =
     (if f = CW_BADVAL then Some 0
      else map_option (\<lambda>s. let sp = s + 1 in if sint sp < 1 \<or> sint sp > 2047 then 0 else sp)
             (short_of_float (roundf (f * 20.47))))"

definition cw_uncal_visible :: "real list \<Rightarrow> short list option" where
  "cw_uncal_visible fp = those (map cw_uncal_visible_elem fp)"

definition cw_uncal_ir_elem :: "real \<Rightarrow> short option" where
  "cw_uncal_ir_elem f =
     (if f = CW_BADVAL \<or> f < KTOC 178 then Some 0
      else map_option (\<lambda>sp. if sint sp < 1 \<or> sint sp > 2047 then 0 else sp)
        (if f = KTOC 178 then Some 1
         else if f > KTOC 178 \<and> f < KTOC 270 then
           map_option (\<lambda>s. s + 1) (short_of_float (roundf ((f - KTOC 178) / 0.1)))
         else if f \<ge> KTOC 270 \<and> f \<le> KTOC 310 then
           map_option (\<lambda>s. s + 921) (short_of_float (roundf ((f - KTOC 270) / 0.05)))
         else
           map_option (\<lambda>s. s + 1721) (short_of_float (roundf ((f - KTOC 310) / 0.1)))))"

definition cw_uncal_ir :: "real list \<Rightarrow> short list option" where
  "cw_uncal_ir fp = those (map cw_uncal_ir_elem fp)"

text \<open>
  \<^verbatim>\<open>cw_encode_ancillary\<close>: angles as \<^verbatim>\<open>(unsigned short) roundf (fp[i]*128.0f) + 1\<close>,
  scan time as \<^verbatim>\<open>hours = fp[i]; minutes = (short) roundf ((fp[i] - hours)*60);
  usp[i] = (unsigned short) (hours*100 + minutes)\<close>.
\<close>

definition cw_encode_angle_elem :: "real \<Rightarrow> ushort option" where
  "cw_encode_angle_elem f =
     (if f = CW_BADVAL then Some 0
      else map_option (\<lambda>u. u + 1) (ushort_of_float (roundf (f * 128))))"

definition cw_encode_scan_time_elem :: "real \<Rightarrow> ushort option" where
  "cw_encode_scan_time_elem f =
     (case short_of_float f of None \<Rightarrow> None
      | Some hours \<Rightarrow>
         (case short_of_float (roundf ((f - real_of_int (sint hours)) * 60)) of None \<Rightarrow> None
          | Some minutes \<Rightarrow> Some (word_of_int (sint hours * 100 + sint minutes))))"

text \<open>
  \<^verbatim>\<open>cw_encode_ancillary\<close> with a source \<^verbatim>\<open>fp != NULL\<close>; the outer \<open>option\<close> is the
  undefined conversion of a value that does not fit.
\<close>

definition cw_encode_ancillary :: "real list \<Rightarrow> short \<Rightarrow> (cw_status + ushort list) option" where
  "cw_encode_ancillary fp channel =
     (if is_angle_channel channel then map_option Inr (those (map cw_encode_angle_elem fp))
      else if channel = CW_CHANNEL_NUMBER_SCAN_TIME then
        map_option Inr (those (map cw_encode_scan_time_elem fp))
      else Some (Inl CW_ERR_UNSUP_CHANNEL_NUMBER))"

subsection \<open>C streams and buffers\<close>

text \<open>
  A \<^verbatim>\<open>FILE\<close> is its byte content, its position and the access its open mode gives. The
  device never fills: a write to a writable stream succeeds. Reading at or past the end
  returns fewer items; writing past the end fills the gap with zero bytes.
\<close>

record stream =
  bytes :: "uchar list"
  pos :: nat
  readable :: bool
  writable :: bool

text \<open>\<^verbatim>\<open>fseek\<close> with \<^verbatim>\<open>SEEK_SET\<close> and \<^verbatim>\<open>SEEK_CUR\<close>; \<open>None\<close> is a non-zero return.\<close>

definition fseek_set :: "stream \<Rightarrow> int \<Rightarrow> stream option" where
  "fseek_set fp offset = (if offset < 0 then None else Some (fp\<lparr>pos := nat offset\<rparr>))"

definition fseek_cur :: "stream \<Rightarrow> int \<Rightarrow> stream option" where
  "fseek_cur fp offset =
     (if int (pos fp) + offset < 0 then None else Some (fp\<lparr>pos := nat (int (pos fp) + offset)\<rparr>))"

text \<open>
  \<^verbatim>\<open>fread (ptr, sz, n, fp)\<close>: the number of complete items read, the bytes delivered
  and the stream.
\<close>

definition fread :: "stream \<Rightarrow> nat \<Rightarrow> nat \<Rightarrow> nat \<times> uchar list \<times> stream" where
  "fread fp sz n =
     (if \<not> readable fp \<or> sz = 0 then (0, [], fp)
      else let d = take (sz * n) (drop (pos fp) (bytes fp))
           in (length d div sz, d, fp\<lparr>pos := pos fp + length d\<rparr>))"

text \<open>\<^verbatim>\<open>fwrite (ptr, 1, n, fp)\<close> of the \<open>n\<close> bytes \<open>d\<close>: the number of items written.\<close>

definition fwrite :: "stream \<Rightarrow> uchar list \<Rightarrow> nat \<times> stream" where
  "fwrite fp d =
     (if \<not> writable fp then (0, fp)
      else (length d,
            fp\<lparr>bytes := take (pos fp) (bytes fp) @ replicate (pos fp - length (bytes fp)) 0
                         @ d @ drop (pos fp + length d) (bytes fp),
               pos := pos fp + length d\<rparr>))"

text \<open>
  A store of the bytes \<open>d\<close> at offset \<open>off\<close> of a buffer; outside the buffer it is
  undefined (\<open>None\<close>).
\<close>

definition buf_store :: "uchar list \<Rightarrow> nat \<Rightarrow> uchar list \<Rightarrow> uchar list option" where
  "buf_store buf off d =
     (if d = [] then Some buf
      else if off + length d \<le> length buf then
        Some (take off buf @ d @ drop (off + length d) buf)
      else None)"

text \<open>\<^verbatim>\<open>byte_swap_in\<close> (line 706) over an even number of bytes.\<close>

fun byte_swap_in :: "uchar list \<Rightarrow> uchar list" where
  "byte_swap_in (a # b # r) = b # a # byte_swap_in r"
| "byte_swap_in r = r"

text \<open>
  The view of a byte buffer as an array of \<^verbatim>\<open>unsigned short\<close> and back, in the byte
  order of the host (\<open>le\<close>: little endian).
\<close>

fun ushorts_of_bytes :: "bool \<Rightarrow> uchar list \<Rightarrow> ushort list" where
  "ushorts_of_bytes le (a # b # r) =
     (if le then ucast a OR push_bit 8 (ucast b) else ucast b OR push_bit 8 (ucast a))
     # ushorts_of_bytes le r"
| "ushorts_of_bytes le r = []"

fun bytes_of_ushorts :: "bool \<Rightarrow> ushort list \<Rightarrow> uchar list" where
  "bytes_of_ushorts le [] = []"
| "bytes_of_ushorts le (u # r) =
     (if le then [ucast u, ucast (drop_bit 8 u)] else [ucast (drop_bit 8 u), ucast u])
     @ bytes_of_ushorts le r"

subsection \<open>Packing macros (cwflib.c lines 330-342)\<close>

definition CW_UNC_RVAL :: "ushort \<Rightarrow> short" where
  "CW_UNC_RVAL a =
     word_of_int (uint (drop_bit 4 (a AND 0x7FF0)) * (if a AND 0x8000 \<noteq> 0 then - 1 else 1))"

definition CW_UNC_RGRA :: "ushort \<Rightarrow> uchar" where
  "CW_UNC_RGRA a = ucast (a AND 0x000F)"

definition CW_UNC_W :: "short \<Rightarrow> uchar \<Rightarrow> ushort" where
  "CW_UNC_W a b =
     push_bit 4 (word_of_int \<bar>sint a\<bar>) OR (if sint a < 0 then 0x8000 else 0x0000)
       OR (ucast b AND 0x000F)"

definition CW_COM_ISMVAL :: "uchar \<Rightarrow> bool" where
  "CW_COM_ISMVAL a \<longleftrightarrow> a AND 0x80 \<noteq> 0"

definition CW_COM_RMVAL :: "uchar \<Rightarrow> uchar \<Rightarrow> short" where
  "CW_COM_RMVAL a b =
     word_of_int ((push_bit 8 (uint (a AND 0x0F)) + uint b) * (if a AND 0x08 \<noteq> 0 then - 1 else 1))"

definition CW_COM_RVAL :: "short \<Rightarrow> uchar \<Rightarrow> short" where
  "CW_COM_RVAL l a =
     word_of_int (sint l + uint (a AND 0x3F) * (if a AND 0x40 \<noteq> 0 then - 1 else 1))"

text \<open>The argument of the three write macros is an \<^verbatim>\<open>int\<close> expression.\<close>

definition CW_COM_WVAL_B1 :: "int \<Rightarrow> uchar" where
  "CW_COM_WVAL_B1 a =
     ucast (drop_bit 8 (word_of_int \<bar>a\<bar> :: ushort)) OR (if a < 0 then 0x08 else 0x00) OR 0x80"

definition CW_COM_WVAL_B2 :: "int \<Rightarrow> uchar" where
  "CW_COM_WVAL_B2 a = ucast ((word_of_int \<bar>a\<bar> :: ushort) AND 0x00FF)"

definition CW_COM_WVAL :: "int \<Rightarrow> uchar" where
  "CW_COM_WVAL a = (word_of_int \<bar>a\<bar> OR (if a < 0 then 0x40 else 0x00)) AND 0x7F"

subsection \<open>Channel data and graphics (cwflib.c lines 1143-1165 and 1490-1518)\<close>

text \<open>
  \<^verbatim>\<open>cw_separate_channel\<close> fills \<open>sp\<close> when it is not \<^verbatim>\<open>NULL\<close> and \<open>ucp\<close> when it is not
  \<^verbatim>\<open>NULL\<close>; the two fillings are the two functions below. \<^verbatim>\<open>cw_combine_channel\<close> takes
  the channel data and the graphics, either of which may be \<^verbatim>\<open>NULL\<close> (\<open>None\<close>).
\<close>

definition cw_separate_channel_data :: "ushort list \<Rightarrow> short list" where
  "cw_separate_channel_data usp = map CW_UNC_RVAL usp"

definition cw_separate_channel_graphics :: "ushort list \<Rightarrow> uchar list" where
  "cw_separate_channel_graphics usp = map CW_UNC_RGRA usp"

definition cw_combine_channel ::
  "short list option \<Rightarrow> uchar list option \<Rightarrow> nat \<Rightarrow> ushort list" where
  "cw_combine_channel sp ucp len =
     (case sp of
        None \<Rightarrow> map (\<lambda>i. CW_UNC_W 0 (the ucp ! i)) [0..<len]
      | Some s \<Rightarrow>
         (case ucp of
            None \<Rightarrow> map (\<lambda>i. CW_UNC_W (s ! i) 0) [0..<len]
          | Some u \<Rightarrow> map (\<lambda>i. CW_UNC_W (s ! i) (u ! i)) [0..<len]))"

subsection \<open>Raw pixel input (cw_get_raw, cwflib.c lines 930-1013)\<close>

text \<open>
  One pass of the loop of lines 956-966 over a dimension: \<open>None\<close> is the early
  \<^verbatim>\<open>return (CW_NOERR)\<close>, otherwise \<open>s_ucp[i]\<close>, \<open>s_start[i]\<close> and \<open>s_count[i]\<close>.
\<close>

definition shift_dim ::
  "short \<Rightarrow> size_t \<Rightarrow> size_t \<Rightarrow> short \<Rightarrow> (size_t \<times> size_t \<times> size_t) option" where
  "shift_dim dm start count shift =
     (let tmp_start = (ucast start :: short) - shift;
          tmp_end = tmp_start + (ucast count :: short) - 1
      in if sint tmp_start > sint dm - 1 \<or> sint tmp_end < 0 then None
         else
           let s_ucp = \<bar>min 0 (sint tmp_start)\<bar>;
               tmp_start' = (word_of_int (max 0 (min (sint tmp_start) (sint dm))) :: short);
               tmp_end' = (word_of_int (max 0 (min (sint tmp_end) (sint dm - 1))) :: short)
           in Some (word_of_int s_ucp, scast tmp_start',
                    word_of_int (sint tmp_end' - sint tmp_start' + 1)))"

text \<open>
  The read loop of lines 997-1005; the first argument is the number of rows still to
  read (\<open>rowend - row\<close>), \<open>uoff\<close> is \<open>ucp - raw\<close>. The result \<open>None\<close> is a store outside the
  buffer.
\<close>

fun get_raw_rows ::
  "nat \<Rightarrow> nat \<Rightarrow> nat \<Rightarrow> nat \<Rightarrow> nat \<Rightarrow> int \<Rightarrow> stream \<Rightarrow> uchar list
   \<Rightarrow> (cw_status \<times> uchar list \<times> stream) option" where
  "get_raw_rows 0 sz n uoff ucpstep readstep fp raw = Some (CW_NOERR, raw, fp)"
| "get_raw_rows (Suc k) sz n uoff ucpstep readstep fp raw =
     (case fread fp sz n of
        (got, d, fp1) \<Rightarrow>
          (case buf_store raw uoff d of
             None \<Rightarrow> None
           | Some raw1 \<Rightarrow>
               if got < n then Some (CW_ERR_READ_DATA, raw1, fp1)
               else if k \<noteq> 0 then
                 (case fseek_cur fp1 readstep of
                    None \<Rightarrow> Some (CW_ERR_READ_DATA, raw1, fp1)
                  | Some fp2 \<Rightarrow>
                      get_raw_rows k sz n (uoff + ucpstep) ucpstep readstep fp2 raw1)
               else get_raw_rows k sz n (uoff + ucpstep) ucpstep readstep fp1 raw1))"

text \<open>
  \<^verbatim>\<open>cw_get_raw\<close>. Every caller passes a buffer of exactly \<open>len\<close> bytes, which the
  function first fills with zeros: the buffer is a result. The arithmetic in \<^verbatim>\<open>size_t\<close>
  and \<^verbatim>\<open>long\<close> is 32-bit. The first argument is the global \<^verbatim>\<open>cw_byteswap\<close>.
\<close>

definition cw_get_raw ::
  "int \<Rightarrow> stream \<Rightarrow> short \<Rightarrow> short \<times> short \<Rightarrow> size_t \<times> size_t \<Rightarrow> size_t \<times> size_t
   \<Rightarrow> (short \<times> short) option \<Rightarrow> (cw_status \<times> uchar list \<times> stream) option" where
  "cw_get_raw bswap fp pixel_size dims start count shift =
     (let len = fst count * snd count * scast pixel_size;
          raw = replicate (unat len) (0 :: uchar);
          sh = (case shift of
                  None \<Rightarrow> Some (start, count, 0)
                | Some s \<Rightarrow>
                   (case shift_dim (fst dims) (fst start) (fst count) (fst s) of
                      None \<Rightarrow> None
                    | Some (ucp_r, start_r, count_r) \<Rightarrow>
                       (case shift_dim (snd dims) (snd start) (snd count) (snd s) of
                          None \<Rightarrow> None
                        | Some (ucp_c, start_c, count_c) \<Rightarrow>
                            Some ((start_r, start_c), (count_r, count_c),
                                  (ucp_r * snd count + ucp_c) * scast pixel_size))))
      in case sh of
           None \<Rightarrow> Some (CW_NOERR, raw, fp)
         | Some (s_start, s_count, ucpoffset) \<Rightarrow>
            (let ucpstep = snd count * scast pixel_size;
                 cols = (scast (snd dims) :: size_t);
                 rowstep = cols * scast pixel_size;
                 headlen = rowstep;
                 colstep = (scast pixel_size :: size_t);
                 offset = sint (headlen + fst s_start * rowstep + snd s_start * colstep)
             in case fseek_set fp offset of
                  None \<Rightarrow> Some (CW_ERR_READ_DATA, raw, fp)
                | Some fp1 \<Rightarrow>
                   (let readstep = sint (rowstep - snd s_count * colstep);
                        rowend = fst s_start + fst s_count
                    in case get_raw_rows (unat rowend - unat (fst s_start))
                              (unat (scast pixel_size :: size_t)) (unat (snd s_count))
                              (unat ucpoffset) (unat ucpstep) readstep fp1 raw of
                         None \<Rightarrow> None
                       | Some (ret, raw1, fp2) \<Rightarrow>
                           if ret \<noteq> CW_NOERR then Some (ret, raw1, fp2)
                           else if bswap \<noteq> 0 \<and> pixel_size = 2 then
                             Some (CW_NOERR, byte_swap_in raw1, fp2)
                           else Some (CW_NOERR, raw1, fp2))))"

subsection \<open>1B compression of the channel data (cw_compress, cwflib.c lines 1412-1443)\<close>

text \<open>
  The loop over the columns of row \<open>i\<close> (lines 1428-1441), from column \<open>j\<close> on, over the
  values \<open>data[j], data[j+1], ...\<close> still to write. \<open>lastd\<close> is not initialised before
  the first pass, where it is not read.
\<close>

fun compress_cols ::
  "nat \<Rightarrow> nat \<Rightarrow> short list \<Rightarrow> short \<Rightarrow> stream \<Rightarrow> cw_status \<times> short \<times> stream" where
  "compress_cols i j [] lastd cfp = (CW_NOERR, lastd, cfp)"
| "compress_cols i j (d # ds) lastd cfp =
     (let bs = (if (i = 0 \<and> j = 0) \<or> \<bar>sint d - sint lastd\<bar> > 63
                then [CW_COM_WVAL_B1 (sint d), CW_COM_WVAL_B2 (sint d)]
                else [CW_COM_WVAL (sint d - sint lastd)])
      in case fwrite cfp bs of
           (n, cfp1) \<Rightarrow>
             if n < length bs then (CW_ERR_WRITE_DATA, lastd, cfp1)
             else compress_cols i (Suc j) ds d cfp1)"

text \<open>
  The loop over the rows (lines 1417-1443); the first argument is the number of rows
  still to do. \<open>le\<close> is the byte order of the host. The result \<open>None\<close> is undefined
  behaviour (an access outside a buffer).
\<close>

fun compress_rows ::
  "nat \<Rightarrow> nat \<Rightarrow> int \<Rightarrow> bool \<Rightarrow> short \<times> short \<Rightarrow> size_t \<Rightarrow> short \<Rightarrow> stream \<Rightarrow> stream
   \<Rightarrow> (cw_status \<times> short \<times> stream \<times> stream) option" where
  "compress_rows 0 i bswap le dims columns lastd ufp cfp =
     Some (CW_NOERR, lastd, ufp, cfp)"
| "compress_rows (Suc k) i bswap le dims columns lastd ufp cfp =
     (case cw_get_raw bswap ufp 2 dims (of_nat i, 0) (1, columns) None of
        None \<Rightarrow> None
      | Some (ret, raw, ufp1) \<Rightarrow>
          if ret \<noteq> CW_NOERR then Some (CW_ERR_READ_DATA, lastd, ufp1, cfp)
          else
            let data = cw_separate_channel_data (ushorts_of_bytes le raw)
            in if length data \<noteq> unat columns then None
               else
                 (case compress_cols i 0 data lastd cfp of
                    (ret2, lastd1, cfp1) \<Rightarrow>
                      if ret2 \<noteq> CW_NOERR then Some (ret2, lastd1, ufp1, cfp1)
                      else compress_rows k (Suc i) bswap le dims columns lastd1 ufp1 cfp1))"




text \<open>
  A small uncompressed file for the examples: a grid of 2 rows and 2 columns, so a header
  of 4 bytes, with the channel values 5 and 7 in row 0, -1 and 2047 in row 1; and an empty
  stream opened for writing.
\<close>

definition ex_ufp :: stream where
  "ex_ufp = \<lparr>bytes = [0xd5, 0, 0, 0, 0x00, 0x50, 0x00, 0x70, 0x80, 0x10, 0x7F, 0xF0],
             pos = 0, readable = True, writable = True\<rparr>"


subsection \<open>The process-wide state\<close>

definition CW_MAX_FILES :: int where "CW_MAX_FILES = 100"
definition CW_HEAD_MIN :: nat where "CW_HEAD_MIN = 136"
definition CW_HEAD_COMP :: nat where "CW_HEAD_COMP = 1024"
definition CW_MAGIC_NUM :: uchar where "CW_MAGIC_NUM = 0xd5"
definition CW_FALSE :: short where "CW_FALSE = 0"
definition CW_TRUE :: short where "CW_TRUE = 1"
definition CW_CLOBBER :: int where "CW_CLOBBER = 0"
definition CW_NOCLOBBER :: int where "CW_NOCLOBBER = 1"
definition CW_NOWRITE :: int where "CW_NOWRITE = 0"
definition CW_WRITE :: int where "CW_WRITE = 1"
definition CW_BYTE :: short where "CW_BYTE = 0"
definition CW_FLOAT :: short where "CW_FLOAT = 3"
definition CW_DATA :: int where "CW_DATA = 0"
definition CW_GRAPHICS :: int where "CW_GRAPHICS = 1"

definition CW_O_ROWS :: int where "CW_O_ROWS = 34"
definition CW_O_COLUMNS :: int where "CW_O_COLUMNS = 36"
definition CW_O_CALIBRATION_TYPE :: int where "CW_O_CALIBRATION_TYPE = 44"
definition CW_O_CHANNEL_NUMBER :: int where "CW_O_CHANNEL_NUMBER = 48"
definition CW_O_DATA_ID :: int where "CW_O_DATA_ID = 50"
definition CW_O_CHANNEL_PIXEL_SIZE :: int where "CW_O_CHANNEL_PIXEL_SIZE = 62"
definition CW_O_ANCILLARY_PIXEL_SIZE :: int where "CW_O_ANCILLARY_PIXEL_SIZE = 70"
definition CW_O_COMPRESSION_TYPE :: int where "CW_O_COMPRESSION_TYPE = 78"
definition CW_O_HORIZONTAL_SHIFT :: int where "CW_O_HORIZONTAL_SHIFT = 84"
definition CW_O_VERTICAL_SHIFT :: int where "CW_O_VERTICAL_SHIFT = 86"

text \<open>
  \<^verbatim>\<open>cw_file_type\<close>. The two \<^verbatim>\<open>FILE *\<close> are handles into the table of open streams;
  \<^verbatim>\<open>NULL\<close> is \<open>None\<close>. The array \<^verbatim>\<open>dims[CW_DIM_NUM]\<close> is the pair (rows, columns).
\<close>

record cw_file_type =
  f_fp :: nat
  f_ufp :: "nat option"
  f_path :: string
  f_defmode :: short
  f_wmode :: short
  f_data_id :: short
  f_graphics :: short
  f_dims :: "short \<times> short"
  f_pixel_size :: short

text \<open>
  The globals \<^verbatim>\<open>cw_files\<close> (a list of \<^verbatim>\<open>CW_MAX_FILES\<close> cells) and \<^verbatim>\<open>cw_byteswap\<close>,
  the open streams, the files by path, and what the program cannot decide itself:
  \<^item> \<open>beyond\<close>: for an index outside the table, whether the word that \<^verbatim>\<open>cw_files[ix]\<close>
    then reads is \<^verbatim>\<open>NULL\<close> (such a read is undefined in C; it is modelled as a read of
    memory with arbitrary content);
  \<^item> \<open>host_le\<close>: the byte order of the host;
  \<^item> \<open>malloc_ok n\<close>: whether \<^verbatim>\<open>malloc (n)\<close> succeeds; \<open>tmpfile_ok\<close>: whether
    \<^verbatim>\<open>tmpfile ()\<close> does; \<open>may_open path w\<close>: whether the system lets \<open>path\<close> be opened
    (\<open>w\<close>: for writing).
\<close>

record cw_state =
  cw_files :: "cw_file_type option list"
  cw_byteswap :: int
  streams :: "nat \<Rightarrow> stream option"
  stream_path :: "nat \<Rightarrow> string option"
  next_stream :: nat
  disk :: "string \<Rightarrow> uchar list option"
  beyond :: "int \<Rightarrow> bool"
  host_le :: bool
  malloc_ok :: "nat \<Rightarrow> bool"
  tmpfile_ok :: bool
  may_open :: "string \<Rightarrow> bool \<Rightarrow> bool"

text \<open>The value of the C expression \<^verbatim>\<open>cw_files[ix] == NULL\<close>, for any \<^verbatim>\<open>int\<close> \<open>ix\<close>.\<close>

definition in_table :: "int \<Rightarrow> bool" where
  "in_table ix \<longleftrightarrow> 0 \<le> ix \<and> ix < CW_MAX_FILES"

definition cw_files_null :: "cw_state \<Rightarrow> int \<Rightarrow> bool" where
  "cw_files_null g ix =
     (if in_table ix then cw_files g ! nat ix = None else beyond g ix)"

text \<open>
  The dataset that \<^verbatim>\<open>cw_files[ix]\<close> points to; \<open>None\<close> where the pointer is \<^verbatim>\<open>NULL\<close> or
  was read outside the table (dereferencing it is undefined).
\<close>

definition cw_files_deref :: "cw_state \<Rightarrow> int \<Rightarrow> cw_file_type option" where
  "cw_files_deref g ix = (if in_table ix then cw_files g ! nat ix else None)"

definition cw_files_store :: "cw_state \<Rightarrow> int \<Rightarrow> cw_file_type option \<Rightarrow> cw_state" where
  "cw_files_store g ix f = g\<lparr>cw_files := (cw_files g)[nat ix := f]\<rparr>"

text \<open>\<^verbatim>\<open>byte_order\<close> (line 684) on a host that is little or big endian.\<close>

definition byte_order :: "cw_state \<Rightarrow> int" where
  "byte_order g = (if host_le g then 0 else 1)"

subsection \<open>stdio on the table of streams\<close>

datatype fmode = RB | RPB | WB | WPB

text \<open>
  \<^verbatim>\<open>fopen\<close>: \<^verbatim>\<open>"rb"\<close> and \<^verbatim>\<open>"r+b"\<close> need the file to exist, \<^verbatim>\<open>"wb"\<close> and \<^verbatim>\<open>"w+b"\<close>
  create or truncate it. A stream works on its own copy of the bytes, which \<^verbatim>\<open>fclose\<close>
  writes back to the file if the stream is writable.
\<close>

definition new_stream :: "cw_state \<Rightarrow> stream \<Rightarrow> string option \<Rightarrow> nat \<times> cw_state" where
  "new_stream g st p =
     (next_stream g,
      g\<lparr>streams := (streams g)(next_stream g := Some st),
        stream_path := (stream_path g)(next_stream g := p),
        next_stream := Suc (next_stream g)\<rparr>)"

definition fopen :: "cw_state \<Rightarrow> string \<Rightarrow> fmode \<Rightarrow> nat option \<times> cw_state" where
  "fopen g p m =
     (case m of
        RB \<Rightarrow>
          (case disk g p of
             None \<Rightarrow> (None, g)
           | Some bs \<Rightarrow>
               if \<not> may_open g p False then (None, g)
               else (case new_stream g \<lparr>bytes = bs, pos = 0, readable = True, writable = False\<rparr>
                            (Some p) of (h, g1) \<Rightarrow> (Some h, g1)))
      | RPB \<Rightarrow>
          (case disk g p of
             None \<Rightarrow> (None, g)
           | Some bs \<Rightarrow>
               if \<not> may_open g p True then (None, g)
               else (case new_stream g \<lparr>bytes = bs, pos = 0, readable = True, writable = True\<rparr>
                            (Some p) of (h, g1) \<Rightarrow> (Some h, g1)))
      | WB \<Rightarrow>
          if \<not> may_open g p True then (None, g)
          else (case new_stream (g\<lparr>disk := (disk g)(p := Some [])\<rparr>)
                       \<lparr>bytes = [], pos = 0, readable = False, writable = True\<rparr> (Some p) of
                  (h, g1) \<Rightarrow> (Some h, g1))
      | WPB \<Rightarrow>
          if \<not> may_open g p True then (None, g)
          else (case new_stream (g\<lparr>disk := (disk g)(p := Some [])\<rparr>)
                       \<lparr>bytes = [], pos = 0, readable = True, writable = True\<rparr> (Some p) of
                  (h, g1) \<Rightarrow> (Some h, g1)))"

definition tmpfile :: "cw_state \<Rightarrow> nat option \<times> cw_state" where
  "tmpfile g =
     (if \<not> tmpfile_ok g then (None, g)
      else (case new_stream g \<lparr>bytes = [], pos = 0, readable = True, writable = True\<rparr> None of
              (h, g1) \<Rightarrow> (Some h, g1)))"

text \<open>\<^verbatim>\<open>fclose\<close>: the returned flag is \<^verbatim>\<open>fclose (fp) == 0\<close>.\<close>

definition fclose :: "cw_state \<Rightarrow> nat \<Rightarrow> bool \<times> cw_state" where
  "fclose g h =
     (case streams g h of
        None \<Rightarrow> (False, g)
      | Some st \<Rightarrow>
          (True,
           g\<lparr>streams := (streams g)(h := None),
             disk := (case stream_path g h of
                        Some p \<Rightarrow> if writable st then (disk g)(p := Some (bytes st)) else disk g
                      | None \<Rightarrow> disk g)\<rparr>))"

definition remove_file :: "cw_state \<Rightarrow> string \<Rightarrow> cw_state" where
  "remove_file g p = g\<lparr>disk := (disk g)(p := None)\<rparr>"

definition set_stream :: "cw_state \<Rightarrow> nat \<Rightarrow> stream \<Rightarrow> cw_state" where
  "set_stream g h st = g\<lparr>streams := (streams g)(h := Some st)\<rparr>"

subsection \<open>Header attributes (cw_put_att and cw_get_att, cwflib.c lines 771-813)\<close>

text \<open>
  \<^verbatim>\<open>cw_get_att\<close> on a stream: \<open>None\<close> is a non-zero return. The two bytes read are swapped
  if \<^verbatim>\<open>cw_byteswap\<close> is set and then read as a \<^verbatim>\<open>short\<close> of the host.
\<close>

definition short_of_2bytes :: "int \<Rightarrow> bool \<Rightarrow> uchar list \<Rightarrow> short" where
  "short_of_2bytes bswap le d =
     (case ushorts_of_bytes le (if bswap \<noteq> 0 then byte_swap_in d else d) of
        u # r \<Rightarrow> u | [] \<Rightarrow> 0)"

definition cw_get_att :: "int \<Rightarrow> bool \<Rightarrow> stream \<Rightarrow> int \<Rightarrow> short option \<times> stream" where
  "cw_get_att bswap le fp att_offset =
     (case fseek_set fp att_offset of
        None \<Rightarrow> (None, fp)
      | Some fp1 \<Rightarrow>
          (case fread fp1 2 1 of
             (got, d, fp2) \<Rightarrow>
               if got < 1 then (None, fp2) else (Some (short_of_2bytes bswap le d), fp2)))"

definition cw_put_att :: "int \<Rightarrow> bool \<Rightarrow> stream \<Rightarrow> short \<Rightarrow> int \<Rightarrow> bool \<times> stream" where
  "cw_put_att bswap le fp att_code att_offset =
     (let d = (if bswap \<noteq> 0 then byte_swap_in (bytes_of_ushorts le [att_code])
               else bytes_of_ushorts le [att_code])
      in case fseek_set fp att_offset of
           None \<Rightarrow> (False, fp)
         | Some fp1 \<Rightarrow>
             (case fwrite fp1 d of (n, fp2) \<Rightarrow> (\<not> n div 2 < 1, fp2)))"

subsection \<open>Raw pixel output (cw_put_raw, cwflib.c lines 1522-1580)\<close>

text \<open>
  The write loop of lines 1565-1572; the first argument is the number of rows still to
  write, \<open>nb\<close> the bytes of one row of the window. \<open>None\<close> is a read outside the buffer.
\<close>

fun put_raw_rows ::
  "nat \<Rightarrow> nat \<Rightarrow> nat \<Rightarrow> nat \<Rightarrow> nat \<Rightarrow> nat \<Rightarrow> int \<Rightarrow> stream \<Rightarrow> uchar list
   \<Rightarrow> (cw_status \<times> stream) option" where
  "put_raw_rows 0 sz n uoff ucpstep nb writestep fp ucp = Some (CW_NOERR, fp)"
| "put_raw_rows (Suc k) sz n uoff ucpstep nb writestep fp ucp =
     (if nb \<noteq> 0 \<and> length ucp < uoff + nb then None
      else
        (case fwrite fp (take nb (drop uoff ucp)) of
           (w, fp1) \<Rightarrow>
             if w div sz < n then Some (CW_ERR_WRITE_DATA, fp1)
             else if k \<noteq> 0 then
               (case fseek_cur fp1 writestep of
                  None \<Rightarrow> Some (CW_ERR_WRITE_DATA, fp1)
                | Some fp2 \<Rightarrow>
                    put_raw_rows k sz n (uoff + ucpstep) ucpstep nb writestep fp2 ucp)
             else put_raw_rows k sz n (uoff + ucpstep) ucpstep nb writestep fp1 ucp))"

text \<open>\<^verbatim>\<open>cw_put_raw\<close>; \<open>mok\<close> is \<open>malloc_ok\<close>.\<close>

definition cw_put_raw ::
  "int \<Rightarrow> (nat \<Rightarrow> bool) \<Rightarrow> stream \<Rightarrow> uchar list \<Rightarrow> short \<Rightarrow> short \<times> short
   \<Rightarrow> size_t \<times> size_t \<Rightarrow> size_t \<times> size_t \<Rightarrow> (cw_status \<times> stream) option" where
  "cw_put_raw bswap mok fp raw pixel_size dims start count =
     (let swap = (bswap \<noteq> 0 \<and> pixel_size = 2);
          len = fst count * snd count
      in if swap \<and> \<not> mok (unat (len * scast pixel_size)) then Some (CW_ERR_NOMEM, fp)
         else
           (let ucp = (if swap then byte_swap_in raw else raw);
                ucpstep = snd count * scast pixel_size;
                cols = (scast (snd dims) :: size_t);
                rowstep = cols * scast pixel_size;
                headlen = rowstep;
                colstep = (scast pixel_size :: size_t);
                offset = sint (headlen + fst start * rowstep + snd start * colstep)
            in case fseek_set fp offset of
                 None \<Rightarrow> Some (CW_ERR_WRITE_DATA, fp)
               | Some fp1 \<Rightarrow>
                  (let writestep = sint (rowstep - snd count * colstep);
                       rowend = fst start + fst count
                   in put_raw_rows (unat rowend - unat (fst start))
                        (unat (scast pixel_size :: size_t)) (unat (snd count)) 0 (unat ucpstep)
                        (unat (snd count) * unat (scast pixel_size :: size_t))
                        writestep fp1 ucp)))"

subsection \<open>1B decompression (cw_uncompress, cwflib.c lines 1584-1729)\<close>

text \<open>The body of the loop over the columns (lines 1655-1666): one channel value.\<close>

definition uncompress_value :: "nat \<Rightarrow> nat \<Rightarrow> short \<Rightarrow> stream \<Rightarrow> cw_status \<times> short \<times> stream" where
  "uncompress_value i j lastd cfp =
     (case fread cfp 1 1 of
        (got, d, cfp1) \<Rightarrow>
          if got < 1 then (CW_ERR_READ_DATA, lastd, cfp1)
          else if CW_COM_ISMVAL (hd d) then
            (case fread cfp1 1 1 of
               (got2, d2, cfp2) \<Rightarrow>
                 if got2 < 1 then (CW_ERR_READ_DATA, lastd, cfp2)
                 else (CW_NOERR, CW_COM_RMVAL (hd d) (hd d2), cfp2))
          else if i = 0 \<and> j = 0 then (CW_ERR_COM_BYTE0, lastd, cfp1)
          else (CW_NOERR, CW_COM_RVAL lastd (hd d), cfp1))"

text \<open>The loop over the columns; the first argument is the number of columns still to read.\<close>

fun uncompress_cols ::
  "nat \<Rightarrow> nat \<Rightarrow> nat \<Rightarrow> short \<Rightarrow> stream \<Rightarrow> cw_status \<times> short list \<times> short \<times> stream" where
  "uncompress_cols 0 i j lastd cfp = (CW_NOERR, [], lastd, cfp)"
| "uncompress_cols (Suc n) i j lastd cfp =
     (case uncompress_value i j lastd cfp of
        (ret, v, cfp1) \<Rightarrow>
          if ret \<noteq> CW_NOERR then (ret, [], lastd, cfp1)
          else (case uncompress_cols n i (Suc j) v cfp1 of
                  (ret2, vs, lastd2, cfp2) \<Rightarrow> (ret2, v # vs, lastd2, cfp2)))"

text \<open>The loop over the rows of the channel data (lines 1649-1675).\<close>

fun uncompress_rows ::
  "nat \<Rightarrow> nat \<Rightarrow> int \<Rightarrow> (nat \<Rightarrow> bool) \<Rightarrow> bool \<Rightarrow> short \<times> short \<Rightarrow> size_t \<Rightarrow> short
   \<Rightarrow> stream \<Rightarrow> stream \<Rightarrow> (cw_status \<times> short \<times> stream \<times> stream) option" where
  "uncompress_rows 0 i bswap mok le dims columns lastd cfp ufp =
     Some (CW_NOERR, lastd, cfp, ufp)"
| "uncompress_rows (Suc k) i bswap mok le dims columns lastd cfp ufp =
     (case uncompress_cols (unat columns) i 0 lastd cfp of
        (ret, data, lastd1, cfp1) \<Rightarrow>
          if ret \<noteq> CW_NOERR then Some (ret, lastd1, cfp1, ufp)
          else
            (case cw_put_raw bswap mok ufp
                    (bytes_of_ushorts le (cw_combine_channel (Some data) None (unat columns)))
                    2 dims (of_nat i, 0) (1, columns) of
               None \<Rightarrow> None
             | Some (ret2, ufp1) \<Rightarrow>
                 if ret2 \<noteq> CW_NOERR then Some (CW_ERR_WRITE_DATA, lastd1, cfp1, ufp1)
                 else uncompress_rows k (Suc i) bswap mok le dims columns lastd1 cfp1 ufp1))"

text \<open>
  The run-length reads of one row of graphics (lines 1695-1701), from column \<open>j\<close> on:
  \<open>gr\<close> is \<open>graphics[0..j-1]\<close>, the triple is \<open>bytes[0]\<close>, \<open>bytes[1]\<close> and \<open>k\<close>. A run
  fills \<open>min (bytes[1] + 1) (columns - j)\<close> cells.
\<close>

function graphics_reads ::
  "nat \<Rightarrow> nat \<Rightarrow> uchar list \<Rightarrow> uchar \<times> uchar \<times> nat \<Rightarrow> stream
   \<Rightarrow> cw_status \<times> uchar list \<times> (uchar \<times> uchar \<times> nat) \<times> stream" where
  "graphics_reads columns j gr bk cfp =
     (if j < columns then
        (case fread cfp 1 2 of
           (got, d, cfp1) \<Rightarrow>
             if got < 2 then (CW_ERR_READ_DATA, gr, bk, cfp1)
             else
               (let m = min (unat (d ! 1) + 1) (columns - j)
                in graphics_reads columns (j + m) (gr @ replicate m (d ! 0)) (d ! 0, d ! 1, m) cfp1))
      else (CW_NOERR, gr, bk, cfp))"
  by pat_completeness auto
termination
  by (relation "measure (\<lambda>(columns, j, gr, bk, cfp). columns - j)") auto

text \<open>
  The loop over the rows of graphics (lines 1685-1717). A spill longer than a row stores
  outside \<open>graphics\<close>, and a grid without columns reads \<open>graphics[-1]\<close>: both are \<open>None\<close>.
\<close>

fun uncompress_graphics_rows ::
  "nat \<Rightarrow> nat \<Rightarrow> int \<Rightarrow> (nat \<Rightarrow> bool) \<Rightarrow> bool \<Rightarrow> short \<times> short \<Rightarrow> size_t \<Rightarrow> nat
   \<Rightarrow> uchar \<Rightarrow> uchar \<times> uchar \<times> nat \<Rightarrow> stream \<Rightarrow> stream
   \<Rightarrow> (cw_status \<times> stream \<times> stream) option" where
  "uncompress_graphics_rows 0 i bswap mok le dims columns spill lastg bk cfp ufp =
     Some (CW_NOERR, cfp, ufp)"
| "uncompress_graphics_rows (Suc n) i bswap mok le dims columns spill lastg bk cfp ufp =
     (if unat columns < spill then None
      else
        (case graphics_reads (unat columns) spill (replicate spill lastg) bk cfp of
           (ret, graphics, (b0, b1, k), cfp1) \<Rightarrow>
             if ret \<noteq> CW_NOERR then Some (CW_ERR_READ_DATA, cfp1, ufp)
             else if unat columns = 0 then None
             else
               (let lastg1 = graphics ! (unat columns - 1);
                    spill1 = unat ((ucast b1 :: size_t) - of_nat k + 1)
                in case cw_get_raw bswap ufp 2 dims (of_nat i, 0) (1, columns) None of
                     None \<Rightarrow> None
                   | Some (ret2, raw, ufp1) \<Rightarrow>
                       if ret2 \<noteq> CW_NOERR then Some (CW_ERR_READ_DATA, cfp1, ufp1)
                       else
                         (case cw_put_raw bswap mok ufp1
                                 (bytes_of_ushorts le
                                    (cw_combine_channel
                                       (Some (cw_separate_channel_data (ushorts_of_bytes le raw)))
                                       (Some graphics) (unat columns)))
                                 2 dims (of_nat i, 0) (1, columns) of
                            None \<Rightarrow> None
                          | Some (ret3, ufp2) \<Rightarrow>
                              if ret3 \<noteq> CW_NOERR then Some (CW_ERR_WRITE_DATA, cfp1, ufp2)
                              else uncompress_graphics_rows n (Suc i) bswap mok le dims columns
                                     spill1 lastg1 (b0, b1, k) cfp1 ufp2))))"

text \<open>The loop of lines 1632-1634 writing \<open>difflen\<close> zero bytes one at a time.\<close>

fun write_zeros :: "nat \<Rightarrow> stream \<Rightarrow> bool \<times> stream" where
  "write_zeros 0 fp = (True, fp)"
| "write_zeros (Suc n) fp =
     (case fwrite fp [0] of (w, fp1) \<Rightarrow> if w < 1 then (False, fp1) else write_zeros n fp1)"

text \<open>
  \<^verbatim>\<open>cw_uncompress\<close> from the copy of the header (line 1612) to the end of the graphics
  loop, on the compressed stream \<open>cfp\<close> and the new temporary stream \<open>ufp\<close>. Before the
  first row of graphics \<open>lastg\<close>, \<open>bytes\<close> and \<open>k\<close> hold no value that is read.
\<close>

definition cw_uncompress_streams ::
  "int \<Rightarrow> (nat \<Rightarrow> bool) \<Rightarrow> bool \<Rightarrow> short \<times> short \<Rightarrow> short \<Rightarrow> stream \<Rightarrow> stream
   \<Rightarrow> (cw_status \<times> stream \<times> stream) option" where
  "cw_uncompress_streams bswap mok le dims lastd0 cfp ufp =
     (let rows = (scast (fst dims) :: size_t);
          columns = (scast (snd dims) :: size_t);
          headlen = CW_HEAD_COMP
      in if \<not> mok headlen then Some (CW_ERR_NOMEM, cfp, ufp)
         else
           (case fseek_set cfp 0 of
              None \<Rightarrow> Some (CW_ERR_READ_DATA, cfp, ufp)
            | Some cfp1 \<Rightarrow>
               (case fread cfp1 1 headlen of
                  (got, head, cfp2) \<Rightarrow>
                    if got < headlen then Some (CW_ERR_READ_DATA, cfp2, ufp)
                    else
                      (case fwrite ufp head of
                         (w, ufp1) \<Rightarrow>
                           if w < headlen then Some (CW_ERR_WRITE_DATA, cfp2, ufp1)
                           else
                             (let uheadlen = columns * 2
                              in case (if headlen < unat uheadlen
                                       then write_zeros (unat uheadlen - headlen) ufp1
                                       else (True, ufp1)) of
                                   (ok, ufp2) \<Rightarrow>
                                     if \<not> ok then Some (CW_ERR_WRITE_DATA, cfp2, ufp2)
                                     else if \<not> mok (unat (2 * columns)) then
                                       Some (CW_ERR_NOMEM, cfp2, ufp2)
                                     else
                                       (case uncompress_rows (unat rows) 0 bswap mok le dims
                                               columns lastd0 cfp2 ufp2 of
                                          None \<Rightarrow> None
                                        | Some (ret, lastd, cfp3, ufp3) \<Rightarrow>
                                            if ret \<noteq> CW_NOERR then Some (ret, cfp3, ufp3)
                                            else if \<not> mok (unat columns) then
                                              Some (CW_ERR_NOMEM, cfp3, ufp3)
                                            else uncompress_graphics_rows (unat rows) 0 bswap mok
                                                   le dims columns 0 0 (0, 0, 0) cfp3 ufp3))))))"

text \<open>
  \<^verbatim>\<open>cw_uncompress\<close>. The function assumes a valid \<open>cwid\<close> (its comment says so); with
  another one it is undefined. An error return leaves the temporary file open.
\<close>

definition cw_uncompress :: "cw_state \<Rightarrow> int \<Rightarrow> (cw_status \<times> cw_state) option" where
  "cw_uncompress g cwid =
     (case cw_files_deref g cwid of
        None \<Rightarrow> None
      | Some f \<Rightarrow>
         (case streams g (f_fp f) of
            None \<Rightarrow> None
          | Some cfp \<Rightarrow>
             (case tmpfile g of
                (None, g1) \<Rightarrow> Some (CW_ERR_UFILE, g1)
              | (Some u, g1) \<Rightarrow>
                 (case streams g1 u of
                    None \<Rightarrow> None
                  | Some ufp \<Rightarrow>
                     (case cw_uncompress_streams (cw_byteswap g) (malloc_ok g) (host_le g)
                             (f_dims f) 0 cfp ufp of
                        None \<Rightarrow> None
                      | Some (ret, cfp1, ufp1) \<Rightarrow>
                          (let g2 = set_stream (set_stream g1 (f_fp f) cfp1) u ufp1
                           in if ret \<noteq> CW_NOERR then Some (ret, g2)
                              else
                                (case fclose g2 (f_fp f) of
                                   (ok, g3) \<Rightarrow>
                                     Some (CW_NOERR,
                                           cw_files_store g3 cwid
                                             (Some (f\<lparr>f_fp := u, f_ufp := Some u\<rparr>))))))))))"

text \<open>
  A state for the examples: one registered dataset of 2 rows and 2 columns in slot 0,
  opened on a compressed file whose channel stream starts with the byte 5 (no marker).
\<close>

definition ex_comp_stream :: stream where
  "ex_comp_stream = \<lparr>bytes = replicate 1024 0 @ [5, 6, 7], pos = 0,
                     readable = True, writable = True\<rparr>"

definition ex_file :: cw_file_type where
  "ex_file = \<lparr>f_fp = 0, f_ufp = None, f_path = ''a.cwf'', f_defmode = CW_FALSE,
              f_wmode = 1, f_data_id = CW_DATA_ID_VISIBLE, f_graphics = 1,
              f_dims = (2, 2), f_pixel_size = 2\<rparr>"

definition ex_state :: cw_state where
  "ex_state = \<lparr>cw_files = Some ex_file # replicate 99 None, cw_byteswap = 1,
               streams = (\<lambda>h. if h = 0 then Some ex_comp_stream else None),
               stream_path = (\<lambda>h. if h = 0 then Some ''a.cwf'' else None),
               next_stream = 1,
               disk = (\<lambda>p. if p = ''a.cwf'' then Some (bytes ex_comp_stream) else None),
               beyond = (\<lambda>i. True), host_le = True, malloc_ok = (\<lambda>n. True),
               tmpfile_ok = True, may_open = (\<lambda>p w. True)\<rparr>"

subsection \<open>1B compression, whole (cw_compress, cwflib.c lines 1350-1486)\<close>

text \<open>
  The run-length loop over one row of graphics (lines 1464-1472): \<open>k\<close> counts the cells
  of the current run after its first.
\<close>

fun compress_graphics_cols :: "uchar list \<Rightarrow> nat \<Rightarrow> stream \<Rightarrow> cw_status \<times> stream" where
  "compress_graphics_cols [] k cfp = (CW_NOERR, cfp)"
| "compress_graphics_cols [a] k cfp =
     (case fwrite cfp [a, of_nat k] of
        (w, cfp1) \<Rightarrow> if w < 2 then (CW_ERR_WRITE_DATA, cfp1) else (CW_NOERR, cfp1))"
| "compress_graphics_cols (a # b # r) k cfp =
     (if a = b \<and> k < 255 then compress_graphics_cols (b # r) (Suc k) cfp
      else
        (case fwrite cfp [a, of_nat k] of
           (w, cfp1) \<Rightarrow>
             if w < 2 then (CW_ERR_WRITE_DATA, cfp1)
             else compress_graphics_cols (b # r) 0 cfp1))"

fun compress_graphics_rows ::
  "nat \<Rightarrow> nat \<Rightarrow> int \<Rightarrow> bool \<Rightarrow> short \<times> short \<Rightarrow> size_t \<Rightarrow> stream \<Rightarrow> stream
   \<Rightarrow> (cw_status \<times> stream \<times> stream) option" where
  "compress_graphics_rows 0 i bswap le dims columns ufp cfp = Some (CW_NOERR, ufp, cfp)"
| "compress_graphics_rows (Suc k) i bswap le dims columns ufp cfp =
     (case cw_get_raw bswap ufp 2 dims (of_nat i, 0) (1, columns) None of
        None \<Rightarrow> None
      | Some (ret, raw, ufp1) \<Rightarrow>
          if ret \<noteq> CW_NOERR then Some (CW_ERR_READ_DATA, ufp1, cfp)
          else
            let graphics = cw_separate_channel_graphics (ushorts_of_bytes le raw)
            in if length graphics \<noteq> unat columns then None
               else
                 (case compress_graphics_cols graphics 0 cfp of
                    (ret2, cfp1) \<Rightarrow>
                      if ret2 \<noteq> CW_NOERR then Some (ret2, ufp1, cfp1)
                      else compress_graphics_rows k (Suc i) bswap le dims columns ufp1 cfp1))"

text \<open>
  \<^verbatim>\<open>cw_compress\<close> from the copy of the header (line 1375) to the end of the graphics loop,
  on the uncompressed stream \<open>ufp\<close> and the new compressed stream \<open>cfp\<close>.
\<close>

definition cw_compress_streams ::
  "int \<Rightarrow> (nat \<Rightarrow> bool) \<Rightarrow> bool \<Rightarrow> short \<times> short \<Rightarrow> short \<Rightarrow> stream \<Rightarrow> stream
   \<Rightarrow> (cw_status \<times> stream \<times> stream) option" where
  "cw_compress_streams bswap mok le dims lastd0 ufp cfp =
     (let rows = (scast (fst dims) :: size_t);
          columns = (scast (snd dims) :: size_t);
          headlen = unat (columns * 2);
          cheadlen = CW_HEAD_COMP
      in if \<not> mok headlen then Some (CW_ERR_NOMEM, ufp, cfp)
         else
           (case fseek_set ufp 0 of
              None \<Rightarrow> Some (CW_ERR_READ_DATA, ufp, cfp)
            | Some ufp1 \<Rightarrow>
               (case fread ufp1 1 headlen of
                  (got, head, ufp2) \<Rightarrow>
                    if got < headlen then Some (CW_ERR_READ_DATA, ufp2, cfp)
                    else
                      (case fwrite cfp head of
                         (w, cfp1) \<Rightarrow>
                           if w < headlen then Some (CW_ERR_WRITE_DATA, ufp2, cfp1)
                           else
                             (case (if headlen > cheadlen then
                                      (case fseek_set cfp1 (int cheadlen) of
                                         None \<Rightarrow> (False, cfp1)
                                       | Some c \<Rightarrow> (True, c))
                                    else if headlen < cheadlen then
                                      write_zeros (cheadlen - headlen) cfp1
                                    else (True, cfp1)) of
                                (ok, cfp2) \<Rightarrow>
                                  if \<not> ok then Some (CW_ERR_WRITE_DATA, ufp2, cfp2)
                                  else if \<not> mok (unat (2 * columns)) then
                                    Some (CW_ERR_NOMEM, ufp2, cfp2)
                                  else
                                    (case compress_rows (unat rows) 0 bswap le dims columns
                                            lastd0 ufp2 cfp2 of
                                       None \<Rightarrow> None
                                     | Some (ret, lastd, ufp3, cfp3) \<Rightarrow>
                                         if ret \<noteq> CW_NOERR then Some (ret, ufp3, cfp3)
                                         else if \<not> mok (unat columns) then
                                           Some (CW_ERR_NOMEM, ufp3, cfp3)
                                         else compress_graphics_rows (unat rows) 0 bswap le
                                                dims columns ufp3 cfp3))))))"

text \<open>
  \<^verbatim>\<open>cw_compress\<close>. It assumes a valid \<open>cwid\<close> and an uncompressed working stream
  (its comment says so); otherwise it is undefined.
\<close>

definition cw_compress :: "cw_state \<Rightarrow> int \<Rightarrow> (cw_status \<times> cw_state) option" where
  "cw_compress g cwid =
     (case cw_files_deref g cwid of
        None \<Rightarrow> None
      | Some f \<Rightarrow>
         (case f_ufp f of
            None \<Rightarrow> None
          | Some uh \<Rightarrow>
             (case fopen g (f_path f) WB of
                (None, g1) \<Rightarrow> Some (CW_ERR_CFILE, g1)
              | (Some ch, g1) \<Rightarrow>
                 (case streams g1 uh of
                    None \<Rightarrow> None
                  | Some ufp \<Rightarrow>
                     (case streams g1 ch of
                        None \<Rightarrow> None
                      | Some cfp \<Rightarrow>
                         (case cw_compress_streams (cw_byteswap g) (malloc_ok g) (host_le g)
                                 (f_dims f) 0 ufp cfp of
                            None \<Rightarrow> None
                          | Some (ret, ufp1, cfp1) \<Rightarrow>
                              (let g2 = set_stream (set_stream g1 uh ufp1) ch cfp1
                               in if ret \<noteq> CW_NOERR then Some (ret, g2)
                                  else
                                    (case fclose g2 uh of
                                       (ok, g3) \<Rightarrow>
                                         if \<not> ok then Some (CW_ERR_UFILE, g3)
                                         else Some (CW_NOERR,
                                                cw_files_store g3 cwid
                                                  (Some (f\<lparr>f_fp := ch, f_ufp := None\<rparr>)))))))))))"

subsection \<open>Dataset lifecycle (cw_create, cw_open, cw_enddef, cw_close)\<close>

text \<open>
  The search for a free slot of lines 2391-2393 and 2506-2508,
  \<^verbatim>\<open>while (cw_files[id] != NULL && id < CW_MAX_FILES) id++;\<close>
  from \<open>ix\<close> on. The condition reads \<^verbatim>\<open>cw_files[id]\<close> before it compares \<open>id\<close> with the
  bound. The result is the final \<open>id\<close> and the indices at which the table was read, in
  order.
\<close>

function slot_search :: "cw_state \<Rightarrow> int \<Rightarrow> int \<times> int list" where
  "slot_search g ix =
     (if \<not> cw_files_null g ix \<and> ix < CW_MAX_FILES then
        (case slot_search g (ix + 1) of (r, reads) \<Rightarrow> (r, ix # reads))
      else (ix, [ix]))"
  by pat_completeness auto
termination
  by (relation "measure (\<lambda>(g, ix). nat (CW_MAX_FILES - ix))") auto

text \<open>\<^verbatim>\<open>if (cw_byteswap == -1) cw_byteswap = (byte_order () == 0);\<close>\<close>

definition init_byteswap :: "cw_state \<Rightarrow> cw_state" where
  "init_byteswap g =
     (if cw_byteswap g = - 1 then g\<lparr>cw_byteswap := (if byte_order g = 0 then 1 else 0)\<rparr>
      else g)"

text \<open>The size of \<^verbatim>\<open>cw_file_type\<close> with 32-bit pointers, for the request to \<^verbatim>\<open>malloc\<close>.\<close>

definition sizeof_cw_file_type :: nat where "sizeof_cw_file_type = 28"

text \<open>
  \<^verbatim>\<open>cw_create\<close> (lines 2363-2458), in the steps its comments name. "Create file"
  (lines 2397-2410): the error, or the handle of the new stream.
\<close>

definition create_file :: "cw_state \<Rightarrow> string \<Rightarrow> int \<Rightarrow> (cw_status + nat) \<times> cw_state" where
  "create_file g p cmode =
     (if cmode = CW_CLOBBER then
        (case fopen g p WPB of
           (None, g1) \<Rightarrow> (Inl CW_ERR_CREATE, g1)
         | (Some h, g1) \<Rightarrow> (Inr h, g1))
      else
        (case fopen g p RB of
           (Some h0, g1) \<Rightarrow> (Inl CW_ERR_CREATE_EXISTS, snd (fclose g1 h0))
         | (None, g1) \<Rightarrow>
             (case fopen g1 p WPB of
                (None, g2) \<Rightarrow> (Inl CW_ERR_CREATE, g2)
              | (Some h, g2) \<Rightarrow> (Inr h, g2))))"

text \<open>The \<^verbatim>\<open>cleanup\<close> of \<^verbatim>\<open>cw_create\<close>: the slot is \<^verbatim>\<open>NULL\<close>, the file closed and removed.\<close>

definition create_cleanup :: "cw_state \<Rightarrow> nat \<Rightarrow> string \<Rightarrow> cw_state" where
  "create_cleanup g h p = remove_file (snd (fclose g h)) p"

text \<open>
  "Create file structure", "Fill in structure", "Write header" and "Assign id" (lines
  2412-2447). The slot is filled after the last check that can fail; the C code fills it
  earlier and resets it to \<^verbatim>\<open>NULL\<close> in \<^verbatim>\<open>cleanup\<close>.
\<close>

definition create_dataset ::
  "cw_state \<Rightarrow> string \<Rightarrow> nat \<Rightarrow> int \<Rightarrow> cw_status \<times> cw_state \<times> int option" where
  "create_dataset g p h ix =
     (if \<not> malloc_ok g sizeof_cw_file_type then (CW_ERR_NOMEM, create_cleanup g h p, None)
      else if \<not> malloc_ok g (length p + 1) then (CW_ERR_NOMEM, create_cleanup g h p, None)
      else
        (case streams g h of
           None \<Rightarrow> (CW_ERR_CREATE_HEADER, create_cleanup g h p, None)
         | Some fp \<Rightarrow>
            (case fwrite fp [CW_MAGIC_NUM] of
               (w, fp1) \<Rightarrow>
                 if w < 1 then
                   (CW_ERR_CREATE_HEADER, create_cleanup (set_stream g h fp1) h p, None)
                 else
                   (case write_zeros (CW_HEAD_MIN - 1) fp1 of
                      (ok, fp2) \<Rightarrow>
                        if \<not> ok then
                          (CW_ERR_CREATE_HEADER, create_cleanup (set_stream g h fp2) h p, None)
                        else
                          (CW_NOERR,
                           cw_files_store (set_stream g h fp2) ix
                             (Some \<lparr>f_fp = h, f_ufp = None, f_path = p,
                                     f_defmode = CW_TRUE, f_wmode = 1,
                                     f_data_id = - 1, f_graphics = - 1,
                                     f_dims = (- 1, - 1), f_pixel_size = - 1\<rparr>),
                           Some ix)))))"

text \<open>The third component of the result is the value stored in \<^verbatim>\<open>*cwidp\<close>, if any.\<close>

definition cw_create :: "cw_state \<Rightarrow> string \<Rightarrow> int \<Rightarrow> cw_status \<times> cw_state \<times> int option" where
  "cw_create g p cmode =
     (let g0 = init_byteswap g
      in if cmode \<noteq> CW_CLOBBER \<and> cmode \<noteq> CW_NOCLOBBER then (CW_ERR_CREATE_MODE, g0, None)
         else
           (case slot_search g0 0 of
              (ix, reads) \<Rightarrow>
                if ix = CW_MAX_FILES then (CW_ERR_MAX_FILES, g0, None)
                else
                  (case create_file g0 p cmode of
                     (Inl err, g1) \<Rightarrow> (err, g1, None)
                   | (Inr h, g1) \<Rightarrow> create_dataset g1 p h ix)))"

text \<open>
  The reads of \<^verbatim>\<open>cw_open\<close> from the header after the magic number (lines 2550-2586),
  on the stream: the fields of the dataset, or the error of the \<^verbatim>\<open>cleanup\<close> path.
\<close>

definition cw_open_header ::
  "int \<Rightarrow> bool \<Rightarrow> stream \<Rightarrow> (cw_status + short \<times> (short \<times> short) \<times> short \<times> short) \<times> stream" where
  "cw_open_header bswap le fp =
     (case cw_get_att bswap le fp CW_O_DATA_ID of
        (None, fp1) \<Rightarrow> (Inl CW_ERR_READ_ATT, fp1)
      | (Some did, fp1) \<Rightarrow>
         (case cw_get_att bswap le fp1 CW_O_ROWS of
            (None, fp2) \<Rightarrow> (Inl CW_ERR_READ_ATT, fp2)
          | (Some rows, fp2) \<Rightarrow>
             (case cw_get_att bswap le fp2 CW_O_COLUMNS of
                (None, fp3) \<Rightarrow> (Inl CW_ERR_READ_ATT, fp3)
              | (Some cols, fp3) \<Rightarrow>
                  if did = CW_DATA_ID_VISIBLE \<or> did = CW_DATA_ID_IR then
                    (case cw_get_att bswap le fp3 CW_O_CHANNEL_PIXEL_SIZE of
                       (None, fp4) \<Rightarrow> (Inl CW_ERR_READ_ATT, fp4)
                     | (Some ps, fp4) \<Rightarrow>
                         if ps \<noteq> 2 then (Inl CW_ERR_UNSUP_PIXEL_SIZE, fp4)
                         else
                           (case cw_get_att bswap le fp4 CW_O_COMPRESSION_TYPE of
                              (None, fp5) \<Rightarrow> (Inl CW_ERR_READ_ATT, fp5)
                            | (Some compression, fp5) \<Rightarrow>
                                (Inr (did, (rows, cols), ps,
                                      if compression = CW_COMPRESSION_TYPE_FLAT then - 1 else 1),
                                 fp5)))
                  else if did = CW_DATA_ID_ANCILLARY then
                    (case cw_get_att bswap le fp3 CW_O_ANCILLARY_PIXEL_SIZE of
                       (None, fp4) \<Rightarrow> (Inl CW_ERR_READ_ATT, fp4)
                     | (Some ps, fp4) \<Rightarrow>
                         if ps \<noteq> 2 then (Inl CW_ERR_UNSUP_PIXEL_SIZE, fp4)
                         else (Inr (did, (rows, cols), ps, - 1), fp4))
                  else if did = CW_DATA_ID_CLOUD then (Inr (did, (rows, cols), 1, - 1), fp3)
                  else (Inl CW_ERR_UNSUP_DATA_ID, fp3))))"

text \<open>
  \<^verbatim>\<open>cw_open\<close> (lines 2479-2601): from the check of the magic number to the end, on
  the stream \<open>h\<close> just opened for the free slot \<open>ix\<close>.
\<close>

definition open_dataset ::
  "cw_state \<Rightarrow> string \<Rightarrow> int \<Rightarrow> nat \<Rightarrow> int \<Rightarrow> cw_status \<times> cw_state \<times> int option" where
  "open_dataset g p omode h ix =
     (case streams g h of
        None \<Rightarrow> (CW_ERR_MAGIC_READ, g, None)
      | Some fp \<Rightarrow>
         (case fread fp 1 1 of
            (got, magic, fp1) \<Rightarrow>
              if got < 1 then (CW_ERR_MAGIC_READ, snd (fclose (set_stream g h fp1) h), None)
              else if hd magic \<noteq> CW_MAGIC_NUM then
                (CW_ERR_MAGIC, snd (fclose (set_stream g h fp1) h), None)
              else if \<not> malloc_ok g sizeof_cw_file_type then
                (CW_ERR_NOMEM, snd (fclose (set_stream g h fp1) h), None)
              else if \<not> malloc_ok g (length p + 1) then
                (CW_ERR_NOMEM, snd (fclose (set_stream g h fp1) h), None)
              else
                (case cw_open_header (cw_byteswap g) (host_le g) fp1 of
                   (Inl err, fp2) \<Rightarrow> (err, snd (fclose (set_stream g h fp2) h), None)
                 | (Inr (did, dims, ps, gra), fp2) \<Rightarrow>
                     (CW_NOERR,
                      cw_files_store (set_stream g h fp2) ix
                        (Some \<lparr>f_fp = h, f_ufp = None, f_path = p,
                                f_defmode = CW_FALSE, f_wmode = word_of_int omode,
                                f_data_id = did, f_graphics = gra,
                                f_dims = dims, f_pixel_size = ps\<rparr>),
                      Some ix))))"

definition cw_open :: "cw_state \<Rightarrow> string \<Rightarrow> int \<Rightarrow> cw_status \<times> cw_state \<times> int option" where
  "cw_open g p omode =
     (let g0 = init_byteswap g
      in if omode \<noteq> CW_NOWRITE \<and> omode \<noteq> CW_WRITE then (CW_ERR_ACCESS_MODE, g0, None)
         else
           (case slot_search g0 0 of
              (ix, reads) \<Rightarrow>
                if ix = CW_MAX_FILES then (CW_ERR_MAX_FILES, g0, None)
                else
                  (case fopen g0 p (if omode = CW_NOWRITE then RB else RPB) of
                     (None, g1) \<Rightarrow> (CW_ERR_ACCESS, g1, None)
                   | (Some h, g1) \<Rightarrow> open_dataset g1 p omode h ix)))"

text \<open>\<^verbatim>\<open>cpyfile\<close> (lines 744-767): the loop after the two \<^verbatim>\<open>rewind\<close>.\<close>

function cpyfile_loop :: "stream \<Rightarrow> stream \<Rightarrow> bool \<times> stream \<times> stream" where
  "cpyfile_loop dst src =
     (case fread src 1 512 of
        (num_read, buf, src1) \<Rightarrow>
          if num_read = 0 then (True, dst, src1)
          else (case fwrite dst buf of
                  (w, dst1) \<Rightarrow>
                    if w < num_read then (False, dst1, src1) else cpyfile_loop dst1 src1))"
  by pat_completeness auto
termination
  by (relation "measure (\<lambda>(dst, src). length (bytes src) - pos src)")
     (auto simp: fread_def Let_def split: if_splits)

definition cpyfile :: "stream \<Rightarrow> stream \<Rightarrow> bool \<times> stream \<times> stream" where
  "cpyfile dst src = cpyfile_loop (dst\<lparr>pos := 0\<rparr>) (src\<lparr>pos := 0\<rparr>)"

text \<open>
  \<^verbatim>\<open>cw_enddef\<close> (lines 2605-2683). "Check compression" (lines 2640-2659): for 1B
  compression the data moves to a temporary file, which becomes both \<open>fp\<close> and \<open>ufp\<close>.
  The result is the error, if any, the state and the dataset.
\<close>

definition enddef_compression ::
  "cw_state \<Rightarrow> int \<Rightarrow> cw_file_type \<Rightarrow> stream \<Rightarrow> cw_status option \<times> cw_state \<times> cw_file_type" where
  "enddef_compression g cwid f fp =
     (if (f_data_id f = CW_DATA_ID_VISIBLE \<or> f_data_id f = CW_DATA_ID_IR)
         \<and> f_pixel_size f = 2 then
        (case cw_get_att (cw_byteswap g) (host_le g) fp CW_O_COMPRESSION_TYPE of
           (None, fp1) \<Rightarrow> (Some CW_ERR_READ_ATT, set_stream g (f_fp f) fp1, f)
         | (Some compression, fp1) \<Rightarrow>
             if compression = CW_COMPRESSION_TYPE_1B then
               (case tmpfile (set_stream g (f_fp f) fp1) of
                  (None, g1) \<Rightarrow> (Some CW_ERR_UFILE, g1, f)
                | (Some u, g1) \<Rightarrow>
                   (case cpyfile \<lparr>bytes = [], pos = 0, readable = True, writable = True\<rparr> fp1 of
                      (ok, ufp1, fp2) \<Rightarrow>
                        (let g2 = set_stream (set_stream g1 (f_fp f) fp2) u ufp1
                         in if \<not> ok then (Some CW_ERR_UFILE, g2, f)
                            else
                              (case fclose g2 (f_fp f) of
                                 (ok2, g3) \<Rightarrow>
                                   if \<not> ok2 then (Some CW_ERR_UFILE, g3, f)
                                   else
                                     (None,
                                      cw_files_store g3 cwid
                                        (Some (f\<lparr>f_ufp := Some u, f_fp := u\<rparr>)),
                                      f\<lparr>f_ufp := Some u, f_fp := u\<rparr>)))))
             else (None, set_stream g (f_fp f) fp1, f))
      else (None, g, f))"

text \<open>
  "Fill in header", "Fill in data" and "End define mode" (lines 2661-2681): the header is
  padded from the end of the file to \<open>headlen\<close> and the pixel region written as
  \<open>rows * columns * pixel_size\<close> zero bytes, each with its own \<^verbatim>\<open>fwrite\<close>.
\<close>

definition enddef_fill :: "cw_state \<Rightarrow> int \<Rightarrow> cw_file_type \<Rightarrow> stream \<Rightarrow> cw_status \<times> cw_state" where
  "enddef_fill g cwid f fp =
     (let headlen = unat ((scast (snd (f_dims f)) :: size_t) * scast (f_pixel_size f));
          fp1 = fp\<lparr>pos := length (bytes fp)\<rparr>
      in case write_zeros (headlen - pos fp1) fp1 of
           (ok, fp2) \<Rightarrow>
             if \<not> ok then (CW_ERR_WRITE_DATA, set_stream g (f_fp f) fp2)
             else
               (case write_zeros
                       (nat (sint (fst (f_dims f))) * nat (sint (snd (f_dims f)))
                        * nat (sint (f_pixel_size f))) fp2 of
                  (ok2, fp3) \<Rightarrow>
                    if \<not> ok2 then (CW_ERR_WRITE_DATA, set_stream g (f_fp f) fp3)
                    else
                      (CW_NOERR,
                       cw_files_store (set_stream g (f_fp f) fp3) cwid
                         (Some (f\<lparr>f_defmode := CW_FALSE\<rparr>)))))"

text \<open>\<open>None\<close> is the use of a pointer that is no dataset or of a stream that is not open.\<close>

definition cw_enddef :: "cw_state \<Rightarrow> int \<Rightarrow> (cw_status \<times> cw_state) option" where
  "cw_enddef g cwid =
     (if cw_files_null g cwid then Some (CW_ERR_DATASET_ID, g)
      else
        (case cw_files_deref g cwid of
           None \<Rightarrow> None
         | Some f \<Rightarrow>
            if f_defmode f = CW_FALSE then Some (CW_ERR_NOT_DEFINE_MODE, g)
            else if fst (f_dims f) = - 1 \<or> snd (f_dims f) = - 1 then
              Some (CW_ERR_DIM_UNDEFINED, g)
            else if f_data_id f = - 1 then Some (CW_ERR_VAR_UNDEFINED, g)
            else
              (case streams g (f_fp f) of
                 None \<Rightarrow> None
               | Some fp \<Rightarrow>
                  (case enddef_compression g cwid f fp of
                     (Some err, g1, f1) \<Rightarrow> Some (err, g1)
                   | (None, g1, f1) \<Rightarrow>
                      (case streams g1 (f_fp f1) of
                         None \<Rightarrow> None
                       | Some fp1 \<Rightarrow> Some (enddef_fill g1 cwid f1 fp1))))))"

text \<open>
  \<^verbatim>\<open>cw_close\<close> (lines 2687-2725). "Check compression" (lines 2706-2716): a dataset
  with an uncompressed working copy that was opened for writing is compressed again.
\<close>

definition close_compression :: "cw_state \<Rightarrow> int \<Rightarrow> cw_file_type \<Rightarrow> (cw_status \<times> cw_state) option" where
  "close_compression g cwid f =
     (if f_ufp f \<noteq> None \<and> sint (f_wmode f) = CW_WRITE then
        (case streams g (f_fp f) of
           None \<Rightarrow> None
         | Some fp \<Rightarrow>
            (case cw_get_att (cw_byteswap g) (host_le g) fp CW_O_COMPRESSION_TYPE of
               (None, fp1) \<Rightarrow> Some (CW_ERR_READ_ATT, set_stream g (f_fp f) fp1)
             | (Some compression, fp1) \<Rightarrow>
                 if compression = CW_COMPRESSION_TYPE_1B then
                   cw_compress (set_stream g (f_fp f) fp1) cwid
                 else Some (CW_NOERR, set_stream g (f_fp f) fp1)))
      else Some (CW_NOERR, g))"

definition cw_close :: "cw_state \<Rightarrow> int \<Rightarrow> (cw_status \<times> cw_state) option" where
  "cw_close g cwid =
     (if cw_files_null g cwid then Some (CW_ERR_DATASET_ID, g)
      else
        (case cw_files_deref g cwid of
           None \<Rightarrow> None
         | Some f \<Rightarrow>
            (case (if f_defmode f = CW_TRUE then cw_enddef g cwid else Some (CW_NOERR, g)) of
               None \<Rightarrow> None
             | Some (ret, g1) \<Rightarrow>
                 if ret \<noteq> CW_NOERR then Some (CW_ERR_ENDDEF_FAILED, g1)
                 else
                   (case cw_files_deref g1 cwid of
                      None \<Rightarrow> None
                    | Some f1 \<Rightarrow>
                       (case close_compression g1 cwid f1 of
                          None \<Rightarrow> None
                        | Some (ret2, g2) \<Rightarrow>
                            if ret2 \<noteq> CW_NOERR then Some (ret2, g2)
                            else
                              (case cw_files_deref g2 cwid of
                                 None \<Rightarrow> None
                               | Some f2 \<Rightarrow>
                                   Some (CW_NOERR,
                                         cw_files_store (snd (fclose g2 (f_fp f2))) cwid None)))))))"

text \<open>The number of registered datasets.\<close>

definition open_count :: "cw_state \<Rightarrow> nat" where
  "open_count g = length (filter (\<lambda>f. f \<noteq> None) (cw_files g))"

text \<open>A state for the examples in which every slot of the table holds a dataset.\<close>

definition ex_full_state :: cw_state where
  "ex_full_state = ex_state\<lparr>cw_files := replicate 100 (Some ex_file)\<rparr>"

subsection \<open>Windows of pixel data (cw_get_vara and cw_put_vara, cwflib.c lines 1733-1912 and 2149-2360)\<close>

text \<open>
  The buffer \<^verbatim>\<open>void *data\<close> with its \<^verbatim>\<open>cw_type\<close>: the two functions are static and
  called only by \<^verbatim>\<open>cw_get_vara_float\<close>, \<^verbatim>\<open>cw_get_vara_uchar\<close>, \<^verbatim>\<open>cw_put_vara_float\<close> and
  \<^verbatim>\<open>cw_put_vara_uchar\<close> (lines 3125-3165), with \<^verbatim>\<open>CW_FLOAT\<close> for an array of \<^verbatim>\<open>float\<close> and
  \<^verbatim>\<open>CW_BYTE\<close> for an array of \<^verbatim>\<open>unsigned char\<close>.
\<close>

datatype cw_data = Floats "real list" | Uchars "uchar list"

text \<open>
  "Check start and extents" (lines 1759-1766 and 2177-2184):
  \<^verbatim>\<open>start[CW_ROWS] > dims[CW_ROWS]-1 || start[CW_COLUMNS] > dims[CW_COLUMNS]-1 ||
  start[CW_ROWS]+count[CW_ROWS]-1 > dims[CW_ROWS]-1 ||
  start[CW_COLUMNS]+count[CW_COLUMNS]-1 > dims[CW_COLUMNS]-1\<close>.
  The left sides are \<^verbatim>\<open>size_t\<close> and computed in \<^verbatim>\<open>size_t\<close>; the right sides are \<^verbatim>\<open>int\<close>
  (\<^verbatim>\<open>dims\<close> is an array of \<^verbatim>\<open>short\<close>) and are converted to \<^verbatim>\<open>size_t\<close> for the comparison.
\<close>

definition index_out_of_range ::
  "short \<times> short \<Rightarrow> size_t \<times> size_t \<Rightarrow> size_t \<times> size_t \<Rightarrow> bool" where
  "index_out_of_range dims start count \<longleftrightarrow>
     fst start > (word_of_int (sint (fst dims) - 1) :: size_t) \<or>
     snd start > (word_of_int (sint (snd dims) - 1) :: size_t) \<or>
     fst start + fst count - 1 > (word_of_int (sint (fst dims) - 1) :: size_t) \<or>
     snd start + snd count - 1 > (word_of_int (sint (snd dims) - 1) :: size_t)"

text \<open>
  "Check file id and mode", "Check start and extents" and "Check compression", the same
  lines in both functions (1752-1792 and 2170-2211). The status \<^verbatim>\<open>CW_NOERR\<close> means that
  the function goes on.
\<close>

definition vara_checks ::
  "cw_state \<Rightarrow> int \<Rightarrow> size_t \<times> size_t \<Rightarrow> size_t \<times> size_t \<Rightarrow> (cw_status \<times> cw_state) option" where
  "vara_checks g cwid start count =
     (if cw_files_null g cwid then Some (CW_ERR_DATASET_ID, g)
      else
        (case cw_files_deref g cwid of
           None \<Rightarrow> None
         | Some f \<Rightarrow>
            if f_defmode f = CW_TRUE then Some (CW_ERR_DEFINE_MODE, g)
            else if index_out_of_range (f_dims f) start count then Some (CW_ERR_VAR_INDEX, g)
            else if f_ufp f = None
                    \<and> (f_data_id f = CW_DATA_ID_VISIBLE \<or> f_data_id f = CW_DATA_ID_IR)
                    \<and> f_pixel_size f = 2 then
              (case streams g (f_fp f) of
                 None \<Rightarrow> None
               | Some fp \<Rightarrow>
                  (case cw_get_att (cw_byteswap g) (host_le g) fp CW_O_COMPRESSION_TYPE of
                     (None, fp1) \<Rightarrow> Some (CW_ERR_READ_ATT, set_stream g (f_fp f) fp1)
                   | (Some compression, fp1) \<Rightarrow>
                       if compression = CW_COMPRESSION_TYPE_NONE
                          \<or> compression = CW_COMPRESSION_TYPE_FLAT then
                         Some (CW_NOERR, set_stream g (f_fp f) fp1)
                       else if compression = CW_COMPRESSION_TYPE_1B then
                         cw_uncompress (set_stream g (f_fp f) fp1) cwid
                       else Some (CW_ERR_UNSUP_COMPRESSION_TYPE, set_stream g (f_fp f) fp1)))
            else Some (CW_NOERR, g)))"

text \<open>
  \<^verbatim>\<open>cw_decode_channel\<close> (lines 1169-1238) with \<^verbatim>\<open>fp != NULL\<close> and \<^verbatim>\<open>ucp == NULL\<close>, as its
  one caller passes. With flat compression \<open>sp\<close> is \<open>usp\<close> read as \<^verbatim>\<open>short\<close>.
\<close>

definition cw_decode_channel ::
  "(nat \<Rightarrow> bool) \<Rightarrow> ushort list \<Rightarrow> size_t \<Rightarrow> short \<Rightarrow> short \<Rightarrow> short \<Rightarrow> short
   \<Rightarrow> cw_status + real list" where
  "cw_decode_channel mok usp len calibration data_id compression channel =
     (if compression \<noteq> CW_COMPRESSION_TYPE_FLAT \<and> \<not> mok (unat (len * 2)) then Inl CW_ERR_NOMEM
      else
        (let sp = (if compression \<noteq> CW_COMPRESSION_TYPE_FLAT then cw_separate_channel_data usp
                   else usp);
             calibration1 =
               (if calibration \<noteq> CW_CALIBRATION_TYPE_RAW
                   \<and> calibration \<noteq> CW_CALIBRATION_TYPE_ALBEDO_TEMPERATURE
                   \<and> (data_id = CW_DATA_ID_VISIBLE \<or> data_id = CW_DATA_ID_IR)
                then CW_CALIBRATION_TYPE_ALBEDO_TEMPERATURE else calibration)
         in if calibration1 = CW_CALIBRATION_TYPE_RAW then Inr (cw_cal_raw sp compression)
            else if calibration1 = CW_CALIBRATION_TYPE_ALBEDO_TEMPERATURE then
              (if data_id = CW_DATA_ID_VISIBLE then Inr (cw_cal_visible sp compression)
               else if data_id = CW_DATA_ID_IR then Inr (cw_cal_ir sp compression channel)
               else Inl CW_ERR_UNSUP_DATA_ID)
            else Inl CW_ERR_UNSUP_CALIBRATION_TYPE))"

text \<open>\<^verbatim>\<open>cw_cast_frombyte\<close> (lines 1307-1346) of the \<open>len\<close> bytes \<open>byte\<close>.\<close>

definition cw_cast_frombyte :: "uchar list \<Rightarrow> short \<Rightarrow> cw_status \<times> cw_data option" where
  "cw_cast_frombyte byte ty =
     (if ty = CW_BYTE then (CW_NOERR, Some (Uchars byte))
      else if ty = CW_FLOAT then (CW_NOERR, Some (Floats (map (\<lambda>b. real (unat b)) byte)))
      else (CW_ERR_VAR_VALUE, None))"

text \<open>
  The view of the buffer \<open>raw\<close> as \<^verbatim>\<open>(unsigned short *) raw\<close> with \<open>len\<close> elements; \<open>None\<close>
  if the buffer is shorter.
\<close>

definition ushort_view :: "bool \<Rightarrow> uchar list \<Rightarrow> size_t \<Rightarrow> ushort list option" where
  "ushort_view le raw len =
     (if length raw < 2 * unat len then None
      else Some (ushorts_of_bytes le (take (2 * unat len) raw)))"

text \<open>
  \<^verbatim>\<open>cw_get_vara\<close>, \<^verbatim>\<open>case CW_DATA\<close>, from "Decode visible and IR" to the end of the
  \<^verbatim>\<open>switch (data_id)\<close> (lines 1816-1855), on the raw bytes just read. The result is the
  status, the stream and what was stored in \<open>data\<close>.
\<close>

definition get_vara_decode ::
  "cw_state \<Rightarrow> cw_file_type \<Rightarrow> stream \<Rightarrow> uchar list \<Rightarrow> size_t \<Rightarrow> short
   \<Rightarrow> (cw_status \<times> stream \<times> cw_data option) option" where
  "get_vara_decode g f fp raw len ty =
     (let bswap = cw_byteswap g; le = host_le g; data_id = f_data_id f
      in if data_id = CW_DATA_ID_VISIBLE \<or> data_id = CW_DATA_ID_IR then
           (if ty \<noteq> CW_FLOAT then Some (CW_ERR_VAR_VALUE, fp, None)
            else
              (case cw_get_att bswap le fp CW_O_CALIBRATION_TYPE of
                 (None, fp1) \<Rightarrow> Some (CW_ERR_READ_ATT, fp1, None)
               | (Some calibration, fp1) \<Rightarrow>
                  (case cw_get_att bswap le fp1 CW_O_COMPRESSION_TYPE of
                     (None, fp2) \<Rightarrow> Some (CW_ERR_READ_ATT, fp2, None)
                   | (Some compression, fp2) \<Rightarrow>
                      (case cw_get_att bswap le fp2 CW_O_CHANNEL_NUMBER of
                         (None, fp3) \<Rightarrow> Some (CW_ERR_READ_ATT, fp3, None)
                       | (Some channel, fp3) \<Rightarrow>
                          (case ushort_view le raw len of
                             None \<Rightarrow> None
                           | Some usp \<Rightarrow>
                              (case cw_decode_channel (malloc_ok g) usp len calibration data_id
                                      compression channel of
                                 Inl err \<Rightarrow> Some (err, fp3, None)
                               | Inr fl \<Rightarrow> Some (CW_NOERR, fp3, Some (Floats fl))))))))
         else if data_id = CW_DATA_ID_ANCILLARY then
           (if ty \<noteq> CW_FLOAT then Some (CW_ERR_VAR_VALUE, fp, None)
            else
              (case cw_get_att bswap le fp CW_O_CHANNEL_NUMBER of
                 (None, fp1) \<Rightarrow> Some (CW_ERR_READ_ATT, fp1, None)
               | (Some channel, fp1) \<Rightarrow>
                  (case cw_get_att bswap le fp1 CW_O_COMPRESSION_TYPE of
                     (None, fp2) \<Rightarrow> Some (CW_ERR_READ_ATT, fp2, None)
                   | (Some compression, fp2) \<Rightarrow>
                      (case ushort_view le raw len of
                         None \<Rightarrow> None
                       | Some usp \<Rightarrow>
                          (case cw_decode_ancillary usp channel compression of
                             Inl err \<Rightarrow> Some (err, fp2, None)
                           | Inr fl \<Rightarrow> Some (CW_NOERR, fp2, Some (Floats fl)))))))
         else if data_id = CW_DATA_ID_CLOUD then
           (if length raw < unat len then None
            else (case cw_cast_frombyte (take (unat len) raw) ty of
                    (ret, d) \<Rightarrow> Some (ret, fp, d)))
         else Some (CW_ERR_UNSUP_DATA_ID, fp, None))"

text \<open>\<^verbatim>\<open>cw_get_vara\<close>, \<^verbatim>\<open>case CW_DATA\<close> (lines 1797-1855).\<close>

definition get_vara_data ::
  "cw_state \<Rightarrow> cw_file_type \<Rightarrow> size_t \<times> size_t \<Rightarrow> size_t \<times> size_t \<Rightarrow> short
   \<Rightarrow> (cw_status \<times> cw_state \<times> cw_data option) option" where
  "get_vara_data g f start count ty =
     (let bswap = cw_byteswap g; le = host_le g; len = fst count * snd count
      in case streams g (f_fp f) of
           None \<Rightarrow> None
         | Some fp \<Rightarrow>
            (case cw_get_att bswap le fp CW_O_VERTICAL_SHIFT of
               (None, fp1) \<Rightarrow> Some (CW_ERR_READ_ATT, set_stream g (f_fp f) fp1, None)
             | (Some shift_r, fp1) \<Rightarrow>
                (case cw_get_att bswap le fp1 CW_O_HORIZONTAL_SHIFT of
                   (None, fp2) \<Rightarrow> Some (CW_ERR_READ_ATT, set_stream g (f_fp f) fp2, None)
                 | (Some shift_c, fp2) \<Rightarrow>
                     if \<not> malloc_ok g (unat (len * scast (f_pixel_size f))) then
                       Some (CW_ERR_NOMEM, set_stream g (f_fp f) fp2, None)
                     else
                       (case cw_get_raw bswap fp2 (f_pixel_size f) (f_dims f) start count
                               (Some (shift_r, shift_c)) of
                          None \<Rightarrow> None
                        | Some (ret, raw, fp3) \<Rightarrow>
                            if ret \<noteq> CW_NOERR then Some (ret, set_stream g (f_fp f) fp3, None)
                            else
                              (case get_vara_decode g f fp3 raw len ty of
                                 None \<Rightarrow> None
                               | Some (ret1, fp4, d) \<Rightarrow>
                                   Some (ret1, set_stream g (f_fp f) fp4, d))))))"

text \<open>\<^verbatim>\<open>cw_get_vara\<close>, \<^verbatim>\<open>case CW_GRAPHICS\<close> (lines 1859-1898).\<close>

definition get_vara_graphics ::
  "cw_state \<Rightarrow> cw_file_type \<Rightarrow> size_t \<times> size_t \<Rightarrow> size_t \<times> size_t \<Rightarrow> short
   \<Rightarrow> (cw_status \<times> cw_state \<times> cw_data option) option" where
  "get_vara_graphics g f start count ty =
     (let len = fst count * snd count
      in if f_graphics f = - 1 then Some (CW_ERR_VAR_ID, g, None)
         else if f_data_id f = CW_DATA_ID_VISIBLE \<or> f_data_id f = CW_DATA_ID_IR then
           (if \<not> malloc_ok g (unat (len * scast (f_pixel_size f))) then
              Some (CW_ERR_NOMEM, g, None)
            else if \<not> malloc_ok g (unat len) then Some (CW_ERR_NOMEM, g, None)
            else
              (case streams g (f_fp f) of
                 None \<Rightarrow> None
               | Some fp \<Rightarrow>
                  (case cw_get_raw (cw_byteswap g) fp (f_pixel_size f) (f_dims f) start count
                          None of
                     None \<Rightarrow> None
                   | Some (ret, raw, fp1) \<Rightarrow>
                       if ret \<noteq> CW_NOERR then Some (ret, set_stream g (f_fp f) fp1, None)
                       else
                         (case ushort_view (host_le g) raw len of
                            None \<Rightarrow> None
                          | Some usp \<Rightarrow>
                             (case cw_cast_frombyte (cw_separate_channel_graphics usp) ty of
                                (ret1, d) \<Rightarrow> Some (ret1, set_stream g (f_fp f) fp1, d))))))
         else Some (CW_ERR_VAR_ID, g, None))"

text \<open>
  \<^verbatim>\<open>cw_get_vara\<close>: the status, the state and what was stored in \<open>data\<close>. \<open>None\<close> is
  undefined behaviour: the use of a pointer that is no dataset or of a stream that is
  not open, or an access outside a buffer.
\<close>

definition cw_get_vara ::
  "cw_state \<Rightarrow> int \<Rightarrow> int \<Rightarrow> size_t \<times> size_t \<Rightarrow> size_t \<times> size_t \<Rightarrow> short
   \<Rightarrow> (cw_status \<times> cw_state \<times> cw_data option) option" where
  "cw_get_vara g cwid varid start count ty =
     (case vara_checks g cwid start count of
        None \<Rightarrow> None
      | Some (ret, g1) \<Rightarrow>
          if ret \<noteq> CW_NOERR then Some (ret, g1, None)
          else
            (case cw_files_deref g1 cwid of
               None \<Rightarrow> None
             | Some f \<Rightarrow>
                 if varid = CW_DATA then get_vara_data g1 f start count ty
                 else if varid = CW_GRAPHICS then get_vara_graphics g1 f start count ty
                 else Some (CW_ERR_VAR_ID, g1, None)))"

text \<open>
  \<^verbatim>\<open>cw_cast_tofloat\<close> (lines 2107-2145) of the first \<open>len\<close> values of \<open>data\<close>; the outer
  \<open>None\<close> is a read outside \<open>data\<close>. A \<^verbatim>\<open>float\<close> array is passed on as it is.
\<close>

definition cw_cast_tofloat ::
  "(nat \<Rightarrow> bool) \<Rightarrow> cw_data \<Rightarrow> size_t \<Rightarrow> (cw_status + real list) option" where
  "cw_cast_tofloat mok d len =
     (case d of
        Uchars u \<Rightarrow>
          if \<not> mok (unat (len * 4)) then Some (Inl CW_ERR_NOMEM)
          else if length u < unat len then None
          else Some (Inr (map (\<lambda>b. real (unat b)) (take (unat len) u)))
      | Floats fl \<Rightarrow> Some (Inr fl))"

text \<open>
  \<^verbatim>\<open>cw_encode_channel\<close> (lines 1988-2055) with \<^verbatim>\<open>fp != NULL\<close> and \<^verbatim>\<open>ucp != NULL\<close>, as its
  one caller passes; \<open>None\<close> is a read outside \<open>fp\<close> or \<open>ucp\<close> or the conversion to \<^verbatim>\<open>short\<close>
  of a value that does not fit.
\<close>

definition cw_encode_channel ::
  "(nat \<Rightarrow> bool) \<Rightarrow> real list \<Rightarrow> uchar list \<Rightarrow> size_t \<Rightarrow> short \<Rightarrow> short
   \<Rightarrow> (cw_status + ushort list) option" where
  "cw_encode_channel mok fp ucp len calibration data_id =
     (if \<not> mok (unat (len * 2)) then Some (Inl CW_ERR_NOMEM)
      else
        (let calibration1 =
               (if calibration \<noteq> CW_CALIBRATION_TYPE_RAW
                   \<and> calibration \<noteq> CW_CALIBRATION_TYPE_ALBEDO_TEMPERATURE
                   \<and> (data_id = CW_DATA_ID_VISIBLE \<or> data_id = CW_DATA_ID_IR)
                then CW_CALIBRATION_TYPE_ALBEDO_TEMPERATURE else calibration);
             combine = (\<lambda>sp. if length ucp < unat len then None
                             else Some (Inr (cw_combine_channel (Some sp) (Some ucp) (unat len))))
         in if calibration1 \<noteq> CW_CALIBRATION_TYPE_RAW
               \<and> calibration1 \<noteq> CW_CALIBRATION_TYPE_ALBEDO_TEMPERATURE then
              Some (Inl CW_ERR_UNSUP_CALIBRATION_TYPE)
            else if calibration1 = CW_CALIBRATION_TYPE_ALBEDO_TEMPERATURE
                    \<and> data_id \<noteq> CW_DATA_ID_VISIBLE \<and> data_id \<noteq> CW_DATA_ID_IR then
              Some (Inl CW_ERR_UNSUP_DATA_ID)
            else if length fp < unat len then None
            else
              (case (if calibration1 = CW_CALIBRATION_TYPE_RAW then
                       cw_uncal_raw (take (unat len) fp)
                     else if data_id = CW_DATA_ID_VISIBLE then
                       cw_uncal_visible (take (unat len) fp)
                     else cw_uncal_ir (take (unat len) fp)) of
                 None \<Rightarrow> None
               | Some sp \<Rightarrow> combine sp)))"

text \<open>
  \<^verbatim>\<open>cw_put_vara\<close>, the \<^verbatim>\<open>switch (varid)\<close> (lines 2221-2340): the status, the buffer \<open>raw\<close>
  and the stream. The buffer comes from \<^verbatim>\<open>malloc (len*pixel_size)\<close>; \<open>None\<close> is an access
  outside a buffer, the writing to the file of bytes of \<open>raw\<close> that were never set, or a
  conversion that is undefined. An ancillary channel is encoded from \<^verbatim>\<open>(float *) data\<close>
  whatever the type of \<open>data\<close> is.
\<close>

definition put_vara_data ::
  "cw_state \<Rightarrow> cw_file_type \<Rightarrow> stream \<Rightarrow> size_t \<times> size_t \<Rightarrow> size_t \<times> size_t \<Rightarrow> cw_data
   \<Rightarrow> (cw_status \<times> uchar list \<times> stream) option" where
  "put_vara_data g f fp start count d =
     (let bswap = cw_byteswap g; le = host_le g; mok = malloc_ok g;
          len = fst count * snd count; data_id = f_data_id f;
          rawlen = unat (len * scast (f_pixel_size f))
      in if \<not> mok rawlen then Some (CW_ERR_NOMEM, [], fp)
         else if data_id = CW_DATA_ID_VISIBLE \<or> data_id = CW_DATA_ID_IR then
           (case cw_cast_tofloat mok d len of
              None \<Rightarrow> None
            | Some (Inl err) \<Rightarrow> Some (err, [], fp)
            | Some (Inr fltp) \<Rightarrow>
               (case cw_get_att bswap le fp CW_O_CALIBRATION_TYPE of
                  (None, fp1) \<Rightarrow> Some (CW_ERR_READ_ATT, [], fp1)
                | (Some calibration, fp1) \<Rightarrow>
                   (case cw_get_raw bswap fp1 (f_pixel_size f) (f_dims f) start count None of
                      None \<Rightarrow> None
                    | Some (ret, raw, fp2) \<Rightarrow>
                        if ret \<noteq> CW_NOERR then Some (ret, raw, fp2)
                        else if \<not> mok (unat len) then Some (CW_NOERR, raw, fp2)
                        else
                          (case ushort_view le raw len of
                             None \<Rightarrow> None
                           | Some usp \<Rightarrow>
                              (case cw_encode_channel mok fltp (cw_separate_channel_graphics usp)
                                      len calibration data_id of
                                 None \<Rightarrow> None
                               | Some (Inl err) \<Rightarrow> Some (err, raw, fp2)
                               | Some (Inr usp1) \<Rightarrow>
                                   Some (CW_NOERR,
                                         bytes_of_ushorts le usp1 @ drop (2 * unat len) raw,
                                         fp2))))))
         else if data_id = CW_DATA_ID_ANCILLARY then
           (case cw_cast_tofloat mok d len of
              None \<Rightarrow> None
            | Some (Inl err) \<Rightarrow> Some (err, [], fp)
            | Some (Inr fltp) \<Rightarrow>
               (case cw_get_att bswap le fp CW_O_CHANNEL_NUMBER of
                  (None, fp1) \<Rightarrow> Some (CW_ERR_READ_ATT, [], fp1)
                | (Some channel, fp1) \<Rightarrow>
                    if \<not> is_angle_channel channel \<and> channel \<noteq> CW_CHANNEL_NUMBER_SCAN_TIME then
                      Some (CW_ERR_UNSUP_CHANNEL_NUMBER, [], fp1)
                    else
                      (case d of
                         Uchars u \<Rightarrow> None
                       | Floats fl \<Rightarrow>
                           if length fl < unat len \<or> rawlen \<noteq> 2 * unat len then None
                           else
                             (case cw_encode_ancillary (take (unat len) fl) channel of
                                None \<Rightarrow> None
                              | Some (Inl err) \<Rightarrow> Some (err, [], fp1)
                              | Some (Inr usp) \<Rightarrow>
                                  Some (CW_NOERR, bytes_of_ushorts le usp, fp1)))))
         else if data_id = CW_DATA_ID_CLOUD then
           (case d of
              Floats fl \<Rightarrow> Some (CW_ERR_VAR_VALUE, [], fp)
            | Uchars u \<Rightarrow>
                if length u < unat len \<or> rawlen \<noteq> unat len then None
                else Some (CW_NOERR, take (unat len) u, fp))
         else Some (CW_ERR_UNSUP_DATA_ID, [], fp))"

definition put_vara_graphics ::
  "cw_state \<Rightarrow> cw_file_type \<Rightarrow> stream \<Rightarrow> size_t \<times> size_t \<Rightarrow> size_t \<times> size_t \<Rightarrow> cw_data
   \<Rightarrow> (cw_status \<times> uchar list \<times> stream) option" where
  "put_vara_graphics g f fp start count d =
     (let len = fst count * snd count
      in case d of
           Floats fl \<Rightarrow> Some (CW_ERR_VAR_VALUE, [], fp)
         | Uchars u \<Rightarrow>
             if f_graphics f = - 1 then Some (CW_ERR_VAR_ID, [], fp)
             else if f_data_id f = CW_DATA_ID_VISIBLE \<or> f_data_id f = CW_DATA_ID_IR then
               (if \<not> malloc_ok g (unat (len * scast (f_pixel_size f))) then
                  Some (CW_ERR_NOMEM, [], fp)
                else if \<not> malloc_ok g (unat (len * 2)) then Some (CW_ERR_NOMEM, [], fp)
                else
                  (case cw_get_raw (cw_byteswap g) fp (f_pixel_size f) (f_dims f) start count
                          None of
                     None \<Rightarrow> None
                   | Some (ret, raw, fp1) \<Rightarrow>
                       if ret \<noteq> CW_NOERR then Some (ret, raw, fp1)
                       else
                         (case ushort_view (host_le g) raw len of
                            None \<Rightarrow> None
                          | Some usp \<Rightarrow>
                              if length u < unat len then None
                              else
                                Some (CW_NOERR,
                                      bytes_of_ushorts (host_le g)
                                        (cw_combine_channel (Some (cw_separate_channel_data usp))
                                           (Some u) (unat len))
                                      @ drop (2 * unat len) raw,
                                      fp1))))
             else Some (CW_ERR_VAR_ID, [], fp))"

text \<open>
  \<^verbatim>\<open>cw_put_vara\<close>. The navigational shifts are read and tested (lines 2212-2219) after
  the checks shared with \<^verbatim>\<open>cw_get_vara\<close> and before the \<^verbatim>\<open>switch (varid)\<close>; the access mode
  of the dataset is not tested.
\<close>

definition cw_put_vara ::
  "cw_state \<Rightarrow> int \<Rightarrow> int \<Rightarrow> size_t \<times> size_t \<Rightarrow> size_t \<times> size_t \<Rightarrow> cw_data
   \<Rightarrow> (cw_status \<times> cw_state) option" where
  "cw_put_vara g cwid varid start count d =
     (case vara_checks g cwid start count of
        None \<Rightarrow> None
      | Some (ret, g1) \<Rightarrow>
          if ret \<noteq> CW_NOERR then Some (ret, g1)
          else
            (case cw_files_deref g1 cwid of
               None \<Rightarrow> None
             | Some f \<Rightarrow>
                (case streams g1 (f_fp f) of
                   None \<Rightarrow> None
                 | Some fp \<Rightarrow>
                    (case cw_get_att (cw_byteswap g1) (host_le g1) fp CW_O_VERTICAL_SHIFT of
                       (None, fp1) \<Rightarrow> Some (CW_ERR_READ_ATT, set_stream g1 (f_fp f) fp1)
                     | (Some shift_r, fp1) \<Rightarrow>
                        (case cw_get_att (cw_byteswap g1) (host_le g1) fp1
                                CW_O_HORIZONTAL_SHIFT of
                           (None, fp2) \<Rightarrow> Some (CW_ERR_READ_ATT, set_stream g1 (f_fp f) fp2)
                         | (Some shift_c, fp2) \<Rightarrow>
                             if shift_r \<noteq> 0 \<or> shift_c \<noteq> 0 then
                               Some (CW_ERR_WRITE_SHIFT, set_stream g1 (f_fp f) fp2)
                             else
                               (case (if varid = CW_DATA then
                                        put_vara_data g1 f fp2 start count d
                                      else if varid = CW_GRAPHICS then
                                        put_vara_graphics g1 f fp2 start count d
                                      else Some (CW_ERR_VAR_ID, [], fp2)) of
                                  None \<Rightarrow> None
                                | Some (ret1, raw, fp3) \<Rightarrow>
                                    if ret1 \<noteq> CW_NOERR then
                                      Some (ret1, set_stream g1 (f_fp f) fp3)
                                    else
                                      (case cw_put_raw (cw_byteswap g1) (malloc_ok g1) fp3 raw
                                              (f_pixel_size f) (f_dims f) start count of
                                         None \<Rightarrow> None
                                       | Some (ret2, fp4) \<Rightarrow>
                                           Some (ret2, set_stream g1 (f_fp f) fp4))))))))"

text \<open>The public functions (lines 3125-3165).\<close>

definition cw_put_vara_float ::
  "cw_state \<Rightarrow> int \<Rightarrow> int \<Rightarrow> size_t \<times> size_t \<Rightarrow> size_t \<times> size_t \<Rightarrow> real list
   \<Rightarrow> (cw_status \<times> cw_state) option" where
  "cw_put_vara_float g cwid varid start count fp = cw_put_vara g cwid varid start count (Floats fp)"

definition cw_put_vara_uchar ::
  "cw_state \<Rightarrow> int \<Rightarrow> int \<Rightarrow> size_t \<times> size_t \<Rightarrow> size_t \<times> size_t \<Rightarrow> uchar list
   \<Rightarrow> (cw_status \<times> cw_state) option" where
  "cw_put_vara_uchar g cwid varid start count ucp =
     cw_put_vara g cwid varid start count (Uchars ucp)"

definition cw_get_vara_float ::
  "cw_state \<Rightarrow> int \<Rightarrow> int \<Rightarrow> size_t \<times> size_t \<Rightarrow> size_t \<times> size_t
   \<Rightarrow> (cw_status \<times> cw_state \<times> cw_data option) option" where
  "cw_get_vara_float g cwid varid start count = cw_get_vara g cwid varid start count CW_FLOAT"

definition cw_get_vara_uchar ::
  "cw_state \<Rightarrow> int \<Rightarrow> int \<Rightarrow> size_t \<times> size_t \<Rightarrow> size_t \<times> size_t
   \<Rightarrow> (cw_status \<times> cw_state \<times> cw_data option) option" where
  "cw_get_vara_uchar g cwid varid start count = cw_get_vara g cwid varid start count CW_BYTE"

text \<open>
  States for the examples: a cloud dataset of 0 rows and 4 columns with one-byte pixels,
  and one of 2 rows and 2 columns whose header holds the vertical shift 1. Both files have
  a header of 136 bytes; the bytes at the offsets 84 to 87 are the two shifts.
\<close>

definition ex_cloud_file :: cw_file_type where
  "ex_cloud_file = \<lparr>f_fp = 0, f_ufp = None, f_path = ''c.cwf'', f_defmode = CW_FALSE,
                    f_wmode = 1, f_data_id = CW_DATA_ID_CLOUD, f_graphics = - 1,
                    f_dims = (0, 4), f_pixel_size = 1\<rparr>"

definition ex_cloud_stream :: stream where
  "ex_cloud_stream = \<lparr>bytes = CW_MAGIC_NUM # map of_nat [1..<84] @ replicate 52 0, pos = 0,
                      readable = True, writable = True\<rparr>"

definition ex_cloud_state :: cw_state where
  "ex_cloud_state = \<lparr>cw_files = Some ex_cloud_file # replicate 99 None, cw_byteswap = 0,
                     streams = (\<lambda>h. if h = 0 then Some ex_cloud_stream else None),
                     stream_path = (\<lambda>h. if h = 0 then Some ''c.cwf'' else None),
                     next_stream = 1,
                     disk = (\<lambda>p. if p = ''c.cwf'' then Some (bytes ex_cloud_stream) else None),
                     beyond = (\<lambda>i. True), host_le = True, malloc_ok = (\<lambda>n. True),
                     tmpfile_ok = True, may_open = (\<lambda>p w. True)\<rparr>"

definition ex_shift_stream :: stream where
  "ex_shift_stream = \<lparr>bytes = CW_MAGIC_NUM # replicate 85 0 @ [1, 0] @ replicate 48 0, pos = 0,
                      readable = True, writable = True\<rparr>"

definition ex_shift_state :: cw_state where
  "ex_shift_state = ex_cloud_state
     \<lparr>cw_files := Some (ex_cloud_file\<lparr>f_dims := (2, 2)\<rparr>) # replicate 99 None,
      streams := (\<lambda>h. if h = 0 then Some ex_shift_stream else None)\<rparr>"

text \<open>The same dataset with the vertical shift -32767 (the bytes \<open>0x01 0x80\<close>) in its header.\<close>

definition ex_wrap_stream :: stream where
  "ex_wrap_stream = \<lparr>bytes = CW_MAGIC_NUM # replicate 85 0 @ [0x01, 0x80] @ replicate 48 0,
                     pos = 0, readable = True, writable = True\<rparr>"

definition ex_wrap_state :: cw_state where
  "ex_wrap_state = ex_shift_state
     \<lparr>streams := (\<lambda>h. if h = 0 then Some ex_wrap_stream else None)\<rparr>"

subsection \<open>Map projections (cwproj.c)\<close>

text \<open>
  The constants of lines 38-44. \<^verbatim>\<open>PI\<close> is the decimal number of the source, which is not
  \<open>\<pi>\<close>. The constants \<^verbatim>\<open>R\<close> and \<^verbatim>\<open>B\<close> are \<open>proj_R\<close> and \<open>proj_B\<close> here, single capital
  letters being variables in the proofs. \<^verbatim>\<open>double\<close> and \<^verbatim>\<open>float\<close> are the reals, so that a
  result that the C code computes as NaN has to be told apart: it is \<open>None\<close>.
\<close>

definition PI :: real where "PI = 3.141592654"
definition proj_R :: real where "proj_R = 6371.2"
definition proj_B :: real where "proj_B = 4.14159203"
definition JMAX :: real where "JMAX = 24385"
definition ICEN :: real where "ICEN = 12193"
definition DTOR :: "real \<Rightarrow> real" where "DTOR a = a * PI / 180"
definition RTOD :: "real \<Rightarrow> real" where "RTOD a = a * 180 / PI"

definition UNMAPPED :: int where "UNMAPPED = 0"
definition MERCATOR :: int where "MERCATOR = 1"
definition POLAR :: int where "POLAR = 2"
definition LINEAR :: int where "LINEAR = 3"

text \<open>
  The macro \<^verbatim>\<open>LONR (a)\<close> (lines 48-53) assigns to \<open>a\<close>; the function gives the new value.
  It adds or subtracts 360 once.
\<close>

definition LONR :: "real \<Rightarrow> real" where
  "LONR a = (if a \<ge> 180 then a - 360 else if a < - 180 then a + 360 else a)"

text \<open>\<^verbatim>\<open>ijxy\<close> (lines 263-272): the pair \<open>(x, y)\<close>.\<close>

definition ijxy :: "real \<Rightarrow> real \<Rightarrow> real \<Rightarrow> short \<Rightarrow> short \<Rightarrow> real \<times> real" where
  "ijxy i j res ioff joff =
     ((i + real_of_int (sint ioff) - 1) * res, (j + real_of_int (sint joff) - 1) * res)"

text \<open>
  \<^verbatim>\<open>cw_polar_ijll\<close> (lines 289-313): the pair \<open>(lat, lon)\<close>. The static \<open>scale\<close> is set at
  the first call to the value below and never changes. At the pole \<open>dist\<close> is 0 and the
  quotient \<^verbatim>\<open>(y-ICEN)/dist\<close> is \<open>0/0\<close>, a NaN.
\<close>

definition cw_polar_ijll ::
  "real \<Rightarrow> real \<Rightarrow> short \<Rightarrow> real \<Rightarrow> real \<Rightarrow> short \<Rightarrow> short \<Rightarrow> (real \<times> real) option" where
  "cw_polar_ijll i j hem plon res ioff joff =
     (case ijxy i j res ioff joff of
        (x, y0) \<Rightarrow>
          (let y = (if hem = - 1 then (JMAX + 1) - y0 else y0);
               scale = (1 + sin (DTOR 60)) * proj_R;
               dist = sqrt ((x - ICEN) ^ 2 + (y - ICEN) ^ 2)
           in if dist = 0 then None
              else
                (let lat = 90 - RTOD (2 * arctan (dist / scale));
                     plon1 = LONR plon;
                     signx = (if x - ICEN < 0 then - 1 else 1 :: real);
                     lon = RTOD (arccos ((y - ICEN) / dist)) * signx + plon1
                 in Some (lat, LONR lon))))"

text \<open>\<^verbatim>\<open>cw_mercator_ijll\<close> (lines 343-361) and \<^verbatim>\<open>cw_linear_ijll\<close> (lines 387-400).\<close>

definition cw_mercator_ijll ::
  "real \<Rightarrow> real \<Rightarrow> short \<Rightarrow> real \<Rightarrow> short \<Rightarrow> short \<Rightarrow> real \<times> real" where
  "cw_mercator_ijll i j hem res ioff joff =
     (case ijxy i j res ioff joff of
        (x, y) \<Rightarrow>
          (let lat = RTOD (2 * (arctan (exp \<bar>y / proj_R - proj_B\<bar>) - PI / 4))
           in (if hem = - 1 then - \<bar>lat\<bar> else \<bar>lat\<bar>, RTOD (x / proj_R))))"

definition cw_linear_ijll :: "real \<Rightarrow> real \<Rightarrow> real \<Rightarrow> short \<Rightarrow> short \<Rightarrow> real \<times> real" where
  "cw_linear_ijll i j res ioff joff = (case ijxy i j res ioff joff of (x, y) \<Rightarrow> (- y, x))"

text \<open>
  The globals of lines 63-65, which \<^verbatim>\<open>cw_init_proj\<close> sets from the header of a dataset,
  and \<^verbatim>\<open>cw_get_ll\<close> (lines 207-231): the new values of \<open>*lat\<close> and \<open>*lon\<close>, which stay as
  they are if no projection has been initialized.
\<close>

record proj_state =
  p_ptype :: int
  p_hem :: short
  p_ioff :: short
  p_joff :: short
  p_res :: real
  p_plon :: real

definition cw_get_ll :: "proj_state \<Rightarrow> real \<Rightarrow> real \<Rightarrow> real \<times> real \<Rightarrow> (real \<times> real) option" where
  "cw_get_ll st i j latlon =
     (if p_ptype st = UNMAPPED then Some (j, i)
      else if p_ptype st = MERCATOR then
        Some (cw_mercator_ijll i j (p_hem st) (p_res st) (p_ioff st) (p_joff st))
      else if p_ptype st = POLAR then
        cw_polar_ijll i j (p_hem st) (p_plon st) (p_res st) (p_ioff st) (p_joff st)
      else if p_ptype st = LINEAR then
        Some (cw_linear_ijll i j (p_res st) (p_ioff st) (p_joff st))
      else Some latlon)"

section \<open>Theorems\<close>

text \<open>
  C2. Claim: for every stored scan-time value \<open>v\<close>, \<^verbatim>\<open>cw_decode_ancillary\<close> with channel
  \<^verbatim>\<open>scan_time\<close> returns hours + minutes/60 with hours = \<open>v div 100\<close> and minutes =
  \<open>v mod 100\<close>. The code subtracts \<open>hours\<close>, not \<open>hours * 100\<close>, from the stored value
  to obtain the minutes: at the stored value 1230 (12:30) it returns
  \<open>12 + 1218/60 = 32.3\<close> hours, where the claim gives \<open>12.5\<close>.
\<close>

theorem C2_scan_time_decode_at_1230:
  "cw_decode_ancillary [1230] CW_CHANNEL_NUMBER_SCAN_TIME CW_COMPRESSION_TYPE_NONE
     = Inr [323 / 10]
   \<and> spec_hhmm_hours 1230 = 25 / 2"
  by (simp add: cw_decode_ancillary_def is_angle_channel_def cw_decode_scan_time_elem_def
      spec_hhmm_hours_def CW_CHANNEL_NUMBER_SCAN_TIME_def CW_CHANNEL_NUMBER_SCAN_ANGLE_def
      CW_CHANNEL_NUMBER_SAT_ZENITH_def CW_CHANNEL_NUMBER_SOL_ZENITH_def
      CW_CHANNEL_NUMBER_REL_AZIMUTH_def signed_divide_int_def)

subsection \<open>Calibration round trip\<close>

lemma roundf_of_int [simp]: "roundf (real_of_int n) = real_of_int n"
proof -
  have "\<lfloor>real_of_int n + 1/2\<rfloor> = n" by linarith
  moreover have "\<lceil>real_of_int n - 1/2\<rceil> = n" by linarith
  ultimately show ?thesis unfolding roundf_def by simp
qed

lemma c_trunc_of_int [simp]: "c_trunc (real_of_int n) = n"
  by (simp add: c_trunc_def)

lemma short_of_float_of_int:
  "- 32768 \<le> n \<Longrightarrow> n \<le> 32767 \<Longrightarrow> short_of_float (real_of_int n) = Some (word_of_int n)"
  by (simp add: short_of_float_def)

lemma ushort_of_float_of_int:
  "0 \<le> n \<Longrightarrow> n \<le> 65535 \<Longrightarrow> ushort_of_float (real_of_int n) = Some (word_of_int n)"
  by (simp add: ushort_of_float_def)

lemma word16_pred_succ: "(word_of_int (sint (c::16 word) - 1) :: 16 word) + 1 = c"
  by simp

lemma raw_nonflat:
  assumes "compression \<noteq> CW_COMPRESSION_TYPE_FLAT" "1 \<le> sint c" "sint c \<le> 1024"
  shows "cw_uncal_raw_elem (cw_cal_raw_elem compression c) = Some c"
proof -
  have f: "cw_cal_raw_elem compression c = real_of_int (sint c - 1)"
    using assms by (simp add: cw_cal_raw_elem_def)
  have nb: "real_of_int (sint c - 1) \<noteq> CW_BADVAL"
    using assms unfolding CW_BADVAL_def by linarith
  have s: "short_of_float (real_of_int (sint c - 1)) = Some (word_of_int (sint c - 1))"
    using assms by (intro short_of_float_of_int) auto
  show ?thesis
    unfolding f cw_uncal_raw_elem_def using nb assms
    by (simp only: roundf_of_int s option.map if_False Let_def word16_pred_succ) auto
qed

lemma raw_bad:
  assumes "compression \<noteq> CW_COMPRESSION_TYPE_FLAT" "\<not> (1 \<le> sint c \<and> sint c \<le> 1024)"
  shows "cw_cal_raw_elem compression c = CW_BADVAL" "cw_uncal_raw_elem CW_BADVAL = Some 0"
  using assms by (auto simp: cw_cal_raw_elem_def cw_uncal_raw_elem_def)

lemma scan_time_roundtrip_at_1230: "cw_encode_scan_time_elem (cw_decode_scan_time_elem 1230) = Some 3218"
  by (simp add: cw_encode_scan_time_elem_def cw_decode_scan_time_elem_def signed_divide_int_def roundf_def short_of_float_def c_trunc_def)


lemma visible_nonflat:
  assumes "compression \<noteq> CW_COMPRESSION_TYPE_FLAT" "1 \<le> sint c" "sint c \<le> 2047"
  shows "cw_uncal_visible_elem (cw_cal_visible_elem compression c) = Some c"
proof -
  define n where "n = sint c - 1"
  have n: "0 \<le> n" "n \<le> 2046" using assms by (auto simp: n_def)
  have f: "cw_cal_visible_elem compression c = real_of_int n / 20.47"
    using assms by (simp add: cw_cal_visible_elem_def n_def)
  have nb: "real_of_int n / 20.47 \<noteq> CW_BADVAL"
  proof -
    have "0 \<le> real_of_int n / 20.47" using n by simp
    thus ?thesis unfolding CW_BADVAL_def by linarith
  qed
  have m: "real_of_int n / 20.47 * 20.47 = real_of_int n" by simp
  have s: "short_of_float (real_of_int n) = Some (word_of_int n)"
    using n by (intro short_of_float_of_int) auto
  have w: "(word_of_int n :: 16 word) + 1 = c" unfolding n_def by simp
  show ?thesis
    unfolding f cw_uncal_visible_elem_def using nb assms(2,3)
    by (simp only: m roundf_of_int s option.map if_False Let_def w) auto
qed

lemma visible_bad:
  assumes "compression \<noteq> CW_COMPRESSION_TYPE_FLAT" "\<not> (1 \<le> sint c \<and> sint c \<le> 2047)"
  shows "cw_cal_visible_elem compression c = CW_BADVAL" "cw_uncal_visible_elem CW_BADVAL = Some 0"
  using assms by (auto simp: cw_cal_visible_elem_def cw_uncal_visible_elem_def)

lemma angle_nonflat:
  assumes "compression \<noteq> CW_COMPRESSION_TYPE_FLAT" "c \<noteq> 0"
  shows "cw_encode_angle_elem (cw_decode_angle_elem compression c) = Some c"
proof -
  define n where "n = uint c - 1"
  have pos: "1 \<le> uint c" using assms(2)
    by (metis uint_0_iff uint_ge_0 linorder_not_less not_less_iff_gr_or_eq zless_imp_add1_zle add_0)
  have ub: "uint c \<le> 65535" using uint_lt2p [of c] by simp
  have n: "0 \<le> n" "n \<le> 65534" using pos ub by (auto simp: n_def)
  have f: "cw_decode_angle_elem compression c = real_of_int n / 128"
    using assms by (simp add: cw_decode_angle_elem_def n_def)
  have nb: "real_of_int n / 128 \<noteq> CW_BADVAL"
  proof -
    have "0 \<le> real_of_int n / 128" using n by simp
    thus ?thesis unfolding CW_BADVAL_def by linarith
  qed
  have m: "real_of_int n / 128 * 128 = real_of_int n" by simp
  have s: "ushort_of_float (real_of_int n) = Some (word_of_int n)"
    using n by (intro ushort_of_float_of_int) auto
  have w: "(word_of_int n :: 16 word) + 1 = c" unfolding n_def by simp
  show ?thesis
    unfolding f cw_encode_angle_elem_def using nb
    by (simp only: m roundf_of_int s option.map if_False w)
qed

lemma angle_bad: "compression \<noteq> CW_COMPRESSION_TYPE_FLAT \<Longrightarrow> cw_decode_angle_elem compression 0 = CW_BADVAL"
  "cw_encode_angle_elem CW_BADVAL = Some 0"
  by (simp_all add: cw_decode_angle_elem_def cw_encode_angle_elem_def)


lemma ir_nonflat:
  assumes "compression \<noteq> CW_COMPRESSION_TYPE_FLAT" "1 \<le> sint c" "sint c \<le> 2047"
  shows "cw_uncal_ir_elem (cw_cal_ir_elem compression channel c) = Some c"
proof -
  consider (a) "sint c = 1" | (b) "1 < sint c" "sint c < 921"
    | (m) "921 \<le> sint c" "sint c \<le> 1721" | (d) "1721 < sint c"
    using assms(2) by linarith
  then show ?thesis
  proof cases
    case a
    then have f: "cw_cal_ir_elem compression channel c = KTOC 178"
      using assms by (simp add: cw_cal_ir_elem_def)
    have "(word_of_int (sint c) :: 16 word) = word_of_int 1" by (simp only: a)
    then have "c = 1" by simp
    then show ?thesis unfolding f cw_uncal_ir_elem_def
      by (simp add: KTOC_def ZEROC_def CW_BADVAL_def)
  next
    case b
    define n where "n = sint c - 1"
    have f: "cw_cal_ir_elem compression channel c = real_of_int n * 0.1 + KTOC 178"
      using assms b by (simp add: cw_cal_ir_elem_def n_def)
    have n: "1 \<le> n" "n \<le> 919" using b by (auto simp: n_def)
    have q: "(real_of_int n * 0.1 + KTOC 178 - KTOC 178) / 0.1 = real_of_int n" by simp
    have s: "short_of_float (real_of_int n) = Some (word_of_int n)"
      using n by (intro short_of_float_of_int) auto
    have w: "(word_of_int n :: 16 word) + 1 = c" unfolding n_def by simp
    have g: "real_of_int n * 0.1 + KTOC 178 \<noteq> CW_BADVAL" "\<not> real_of_int n * 0.1 + KTOC 178 < KTOC 178"
      "real_of_int n * 0.1 + KTOC 178 \<noteq> KTOC 178" "real_of_int n * 0.1 + KTOC 178 > KTOC 178"
      "real_of_int n * 0.1 + KTOC 178 < KTOC 270"
      using n by (simp_all add: KTOC_def ZEROC_def CW_BADVAL_def)
    show ?thesis unfolding f cw_uncal_ir_elem_def using g assms(2,3)
      by (simp only: q roundf_of_int s option.map w) auto
  next
    case m
    define n where "n = sint c - 921"
    have n: "0 \<le> n" "n \<le> 800" using m by (auto simp: n_def)
    have snap: "\<bar>real_of_int n * 0.05 + KTOC 270 - 0\<bar> < 0.01 \<Longrightarrow> real_of_int n * 0.05 + KTOC 270 = 0"
    proof -
      assume "\<bar>real_of_int n * 0.05 + KTOC 270 - 0\<bar> < 0.01"
      then have "\<bar>real_of_int (5 * n - 315)\<bar> < 1" by (simp add: KTOC_def ZEROC_def abs_if split: if_splits)
      then have "\<bar>5 * n - 315\<bar> < 1" by linarith
      then have "n = 63" by linarith
      then show ?thesis by (simp add: KTOC_def ZEROC_def)
    qed
    have f: "cw_cal_ir_elem compression channel c = real_of_int n * 0.05 + KTOC 270"
      using assms m snap by (auto simp add: cw_cal_ir_elem_def n_def Let_def)
    have q: "(real_of_int n * 0.05 + KTOC 270 - KTOC 270) / 0.05 = real_of_int n" by simp
    have s: "short_of_float (real_of_int n) = Some (word_of_int n)"
      using n by (intro short_of_float_of_int) auto
    have w: "(word_of_int n :: 16 word) + 921 = c" unfolding n_def by simp
    have g: "real_of_int n * 0.05 + KTOC 270 \<noteq> CW_BADVAL" "\<not> real_of_int n * 0.05 + KTOC 270 < KTOC 178"
      "real_of_int n * 0.05 + KTOC 270 \<noteq> KTOC 178" "\<not> real_of_int n * 0.05 + KTOC 270 < KTOC 270"
      "real_of_int n * 0.05 + KTOC 270 \<ge> KTOC 270" "real_of_int n * 0.05 + KTOC 270 \<le> KTOC 310"
      using n by (simp_all add: KTOC_def ZEROC_def CW_BADVAL_def)
    show ?thesis unfolding f cw_uncal_ir_elem_def using g assms(2,3)
      by (simp only: q roundf_of_int s option.map w) auto
  next
    case d
    define n where "n = sint c - 1721"
    have n: "1 \<le> n" "n \<le> 326" using d assms by (auto simp: n_def)
    have f: "cw_cal_ir_elem compression channel c = real_of_int n * 0.1 + KTOC 310"
      using assms d by (simp add: cw_cal_ir_elem_def n_def)
    have q: "(real_of_int n * 0.1 + KTOC 310 - KTOC 310) / 0.1 = real_of_int n" by simp
    have s: "short_of_float (real_of_int n) = Some (word_of_int n)"
      using n by (intro short_of_float_of_int) auto
    have w: "(word_of_int n :: 16 word) + 1721 = c" unfolding n_def by simp
    have g: "real_of_int n * 0.1 + KTOC 310 \<noteq> CW_BADVAL" "\<not> real_of_int n * 0.1 + KTOC 310 < KTOC 178"
      "real_of_int n * 0.1 + KTOC 310 \<noteq> KTOC 178" "\<not> real_of_int n * 0.1 + KTOC 310 < KTOC 270"
      "\<not> real_of_int n * 0.1 + KTOC 310 \<le> KTOC 310"
      using n by (simp_all add: KTOC_def ZEROC_def CW_BADVAL_def)
    show ?thesis unfolding f cw_uncal_ir_elem_def using g assms(2,3)
      by (simp only: q roundf_of_int s option.map w) auto
  qed
qed

lemma ir_bad: "compression \<noteq> CW_COMPRESSION_TYPE_FLAT \<Longrightarrow> \<not> (1 \<le> sint c \<and> sint c \<le> 2047) \<Longrightarrow> cw_cal_ir_elem compression channel c = CW_BADVAL"
  "cw_uncal_ir_elem CW_BADVAL = Some 0"
  by (auto simp add: cw_cal_ir_elem_def cw_uncal_ir_elem_def)

text \<open>
  C1. Claim: for every raw 16-bit code in the valid range of a calibration path, decoding
  and then encoding yields the original code, and a code that decodes to the bad value
  encodes to 0. The decoders take the file's compression type, the encoders do not and
  always produce the non-flat coding: with flat compression the raw code 5 is in range,
  decodes to 5.0 and encodes to 6.
\<close>

theorem C1_flat_raw_counterexample:
  "0 \<le> sint (5 :: short) \<and> sint (5 :: short) \<le> 1023
   \<and> cw_cal_raw_elem CW_COMPRESSION_TYPE_FLAT 5 \<noteq> CW_BADVAL
   \<and> cw_uncal_raw_elem (cw_cal_raw_elem CW_COMPRESSION_TYPE_FLAT 5) = Some 6
   \<and> (6 :: short) \<noteq> 5"
  by (simp add: cw_cal_raw_elem_def cw_uncal_raw_elem_def CW_BADVAL_def roundf_def
      short_of_float_def c_trunc_def)

text \<open>
  C1 as amended: with a compression type other than flat, every code in the valid range
  of the raw (1..1024), visible (1..2047) and infrared (1..2047) paths, and every
  non-zero code of an ancillary angle channel, decodes and encodes back to itself; every
  other code decodes to the bad value, which encodes to 0.
\<close>

theorem C1_roundtrip_nonflat:
  assumes "compression \<noteq> CW_COMPRESSION_TYPE_FLAT"
  shows
    "(1 \<le> sint c \<and> sint c \<le> 1024 \<longrightarrow>
        cw_uncal_raw_elem (cw_cal_raw_elem compression c) = Some c)
     \<and> (\<not> (1 \<le> sint c \<and> sint c \<le> 1024) \<longrightarrow>
        cw_cal_raw_elem compression c = CW_BADVAL
        \<and> cw_uncal_raw_elem (cw_cal_raw_elem compression c) = Some 0)
     \<and> (1 \<le> sint c \<and> sint c \<le> 2047 \<longrightarrow>
        cw_uncal_visible_elem (cw_cal_visible_elem compression c) = Some c
        \<and> cw_uncal_ir_elem (cw_cal_ir_elem compression channel c) = Some c)
     \<and> (\<not> (1 \<le> sint c \<and> sint c \<le> 2047) \<longrightarrow>
        cw_cal_visible_elem compression c = CW_BADVAL
        \<and> cw_uncal_visible_elem (cw_cal_visible_elem compression c) = Some 0
        \<and> cw_cal_ir_elem compression channel c = CW_BADVAL
        \<and> cw_uncal_ir_elem (cw_cal_ir_elem compression channel c) = Some 0)
     \<and> (c \<noteq> 0 \<longrightarrow>
        cw_encode_angle_elem (cw_decode_angle_elem compression c) = Some c)
     \<and> (c = 0 \<longrightarrow>
        cw_decode_angle_elem compression c = CW_BADVAL
        \<and> cw_encode_angle_elem (cw_decode_angle_elem compression c) = Some 0)"
  using assms raw_nonflat [of compression c] raw_bad
    visible_nonflat [of compression c] visible_bad
    ir_nonflat [of compression c channel] ir_bad
    angle_nonflat [of compression c] angle_bad
  by simp

theorem C1_roundtrip_nonflat_witness:
  "CW_COMPRESSION_TYPE_NONE \<noteq> CW_COMPRESSION_TYPE_FLAT
   \<and> 1 \<le> sint (700 :: short) \<and> sint (700 :: short) \<le> 1024
   \<and> cw_uncal_raw_elem (cw_cal_raw_elem CW_COMPRESSION_TYPE_NONE 700) = Some 700
   \<and> cw_uncal_visible_elem (cw_cal_visible_elem CW_COMPRESSION_TYPE_NONE 700) = Some 700
   \<and> cw_uncal_ir_elem (cw_cal_ir_elem CW_COMPRESSION_TYPE_NONE 4 700) = Some 700
   \<and> cw_encode_angle_elem (cw_decode_angle_elem CW_COMPRESSION_TYPE_NONE 700) = Some 700
   \<and> \<not> (1 \<le> sint (0 :: short) \<and> sint (0 :: short) \<le> 2047)
   \<and> cw_cal_visible_elem CW_COMPRESSION_TYPE_NONE 0 = CW_BADVAL
   \<and> cw_uncal_ir_elem (cw_cal_ir_elem CW_COMPRESSION_TYPE_NONE 4 0) = Some 0
   \<and> cw_encode_angle_elem (cw_decode_angle_elem CW_COMPRESSION_TYPE_NONE 0) = Some 0"
proof -
  have ne: "CW_COMPRESSION_TYPE_NONE \<noteq> CW_COMPRESSION_TYPE_FLAT"
    by (simp add: CW_COMPRESSION_TYPE_NONE_def CW_COMPRESSION_TYPE_FLAT_def)
  have h: "1 \<le> sint (700 :: short)" "sint (700 :: short) \<le> 1024"
    "sint (700 :: short) \<le> 2047" "(700 :: short) \<noteq> 0"
    "\<not> (1 \<le> sint (0 :: short) \<and> sint (0 :: short) \<le> 2047)"
    by simp_all
  show ?thesis
    using ne h C1_roundtrip_nonflat [OF ne, of 700 4] C1_roundtrip_nonflat [OF ne, of 0 4]
    by blast
qed

subsection \<open>1B compression of the channel data\<close>








lemma fread_stream: "fread fp sz n = (got, d, fp1) \<Longrightarrow> \<exists>p. fp1 = fp\<lparr>pos := p\<rparr>"
  by (auto simp: fread_def Let_def split: if_splits intro: exI [of _ "pos fp"])


lemma fseek_set_stream: "fseek_set fp off = Some fp1 \<Longrightarrow> \<exists>p. fp1 = fp\<lparr>pos := p\<rparr>"
  by (auto simp: fseek_set_def split: if_splits)









subsection \<open>Raw reads of a shifted window\<close>

lemma sint16_word_of_int:
  "sint (word_of_int x :: 16 word) = (x + 32768) mod 65536 - 32768"
  by (simp add: sint_sbintrunc' signed_take_bit_eq_take_bit_shift take_bit_eq_mod)

lemma wrap_id: "- 32768 \<le> x \<Longrightarrow> x \<le> 32767 \<Longrightarrow> (x + 32768) mod 65536 - 32768 = (x::int)"
  by simp

lemma wrap_hi: "32768 \<le> x \<Longrightarrow> x \<le> 98303 \<Longrightarrow> (x + 32768) mod 65536 - 32768 = (x::int) - 65536"
proof -
  assume a: "32768 \<le> x" "x \<le> 98303"
  have "x + 32768 = (x - 32768) + 65536" by simp
  then have "(x + 32768) mod 65536 = (x - 32768) mod 65536"
    by (simp only: mod_add_self2)
  also have "\<dots> = x - 32768" using a by (intro mod_pos_pos_trivial) simp_all
  finally show ?thesis by simp
qed

lemma shift_dim_outside:
  assumes c1: "1 \<le> uint count" and fit: "uint start + uint count \<le> 32768"
    and out: "uint start - sint shift > sint dm - 1
              \<or> uint start - sint shift + uint count - 1 < 0"
  shows "shift_dim dm start count shift = None"
proof -
  define S where "S = uint start"
  define C where "C = uint count"
  define h where "h = sint shift"
  define D where "D = sint dm"
  have hb: "- 32768 \<le> h" "h \<le> 32767"
    using sint_ge [of shift] sint_lt [of shift] by (simp_all add: h_def)
  have Db: "- 32768 \<le> D" "D \<le> 32767"
    using sint_ge [of dm] sint_lt [of dm] by (simp_all add: D_def)
  have Sb: "0 \<le> S" "1 \<le> C" "S + C \<le> 32768" using c1 fit by (simp_all add: S_def C_def)
  have ts: "(ucast start :: 16 word) - shift = word_of_int (S - h)"
    unfolding S_def h_def by simp
  have te: "(word_of_int (S - h) :: 16 word) + ucast count - 1 = word_of_int (S - h + C - 1)"
    unfolding S_def h_def C_def by simp
  have goal: "sint (word_of_int (S - h) :: 16 word) > D - 1 \<or> sint (word_of_int (S - h + C - 1) :: 16 word) < 0"
  proof (cases "S - h \<le> 32767")
    case True
    then have w: "sint (word_of_int (S - h) :: 16 word) = S - h"
      unfolding sint16_word_of_int using hb Sb True by (intro wrap_id) linarith+
    show ?thesis
    proof (cases "S - h > D - 1")
      case True with w show ?thesis by simp
    next
      case False
      with out have neg: "S - h + C - 1 < 0" by (simp add: S_def h_def C_def D_def)
      have "sint (word_of_int (S - h + C - 1) :: 16 word) = S - h + C - 1"
        unfolding sint16_word_of_int using hb Sb neg by (intro wrap_id) linarith+
      with neg show ?thesis by simp
    qed
  next
    case False
    then have lo: "32768 \<le> S - h + C - 1" using Sb by linarith
    have hi: "S - h + C - 1 \<le> 98303" using Sb hb by linarith
    have "sint (word_of_int (S - h + C - 1) :: 16 word) = S - h + C - 1 - 65536"
      unfolding sint16_word_of_int using wrap_hi [OF lo hi] by simp
    then show ?thesis using Sb hb by linarith
  qed
  show ?thesis
    unfolding shift_dim_def Let_def ts te by (simp only: goal [unfolded D_def] if_True)
qed

text \<open>
  A raw read with a navigational shift, of a window of at least one row and one column
  with \<open>start + count\<close> at most 32768 in both dimensions: if the shifted window starts
  past the last row or column, or ends before row or column 0, \<^verbatim>\<open>cw_get_raw\<close> returns
  \<^verbatim>\<open>CW_NOERR\<close>, the whole buffer is zero and the file has not been touched. The
  hypothesis is over the integers, the code computes in \<^verbatim>\<open>short\<close>.
\<close>

lemma shifted_window_outside:
  assumes rows_ok: "1 \<le> uint (fst count)" "uint (fst start) + uint (fst count) \<le> 32768"
    and cols_ok: "1 \<le> uint (snd count)" "uint (snd start) + uint (snd count) \<le> 32768"
    and outside:
      "uint (fst start) - sint (fst shift) > sint (fst dims) - 1
       \<or> uint (fst start) - sint (fst shift) + uint (fst count) - 1 < 0
       \<or> uint (snd start) - sint (snd shift) > sint (snd dims) - 1
       \<or> uint (snd start) - sint (snd shift) + uint (snd count) - 1 < 0"
  shows "cw_get_raw bswap fp pixel_size dims start count (Some shift)
         = Some (CW_NOERR, replicate (unat (fst count * snd count * scast pixel_size)) 0, fp)"
proof (cases "shift_dim (fst dims) (fst start) (fst count) (fst shift)")
  case None
  then show ?thesis by (simp add: cw_get_raw_def)
next
  case (Some r)
  have "\<not> (uint (fst start) - sint (fst shift) > sint (fst dims) - 1
       \<or> uint (fst start) - sint (fst shift) + uint (fst count) - 1 < 0)"
    using shift_dim_outside [OF rows_ok, where shift = "fst shift" and dm = "fst dims"] Some by auto
  with outside have "uint (snd start) - sint (snd shift) > sint (snd dims) - 1
       \<or> uint (snd start) - sint (snd shift) + uint (snd count) - 1 < 0" by blast
  then have "shift_dim (snd dims) (snd start) (snd count) (snd shift) = None"
    by (rule shift_dim_outside [OF cols_ok])
  then show ?thesis using Some by (simp add: cw_get_raw_def split: prod.splits)
qed

lemma shifted_window_outside_example:
  "1 \<le> uint (2 :: size_t) \<and> uint (0 :: size_t) + uint (2 :: size_t) \<le> 32768
   \<and> uint (0 :: size_t) - sint (3 :: short) + uint (2 :: size_t) - 1 < 0
   \<and> cw_get_raw 1 ex_ufp 2 (2, 2) (0, 0) (2, 2) (Some (0, 3))
       = Some (CW_NOERR, [0, 0, 0, 0, 0, 0, 0, 0], ex_ufp)"
proof -
  have "cw_get_raw 1 ex_ufp 2 (2, 2) (0, 0) (2, 2) (Some (0, 3))
         = Some (CW_NOERR, replicate (unat (fst (2 :: size_t, 2 :: size_t) * snd (2 :: size_t, 2 :: size_t) * scast (2 :: short))) 0, ex_ufp)"
    by (rule shifted_window_outside) simp_all
  moreover have "replicate (unat (fst (2 :: size_t, 2 :: size_t) * snd (2 :: size_t, 2 :: size_t)
      * scast (2 :: short))) (0 :: uchar) = [0, 0, 0, 0, 0, 0, 0, 0]"
    by code_simp
  ultimately show ?thesis by simp
qed

text \<open>The evaluation of the read at the window without rows, step by step.\<close>

lemma wrap_rows: "shift_dim 2 1 0 (- 32767) = Some (32768, 0, 2)"
  by code_simp

lemma wrap_cols: "shift_dim 2 0 2 0 = Some (0, 0, 2)"
  by code_simp

lemma wrap_read:
  "cw_get_raw 0 (ex_wrap_stream\<lparr>pos := p\<rparr>) 1 (2, 2) (1, 0) (0, 2) (Some (- 32767, 0)) = None"
proof -
  have fr: "fread (ex_wrap_stream\<lparr>pos := 2\<rparr>) (Suc 0) 2 = (2, [0, 0], ex_wrap_stream\<lparr>pos := 4\<rparr>)"
    by (simp add: fread_def ex_wrap_stream_def Let_def numeral_2_eq_2 CW_MAGIC_NUM_def)
  have bs: "buf_store [] 65536 [0, 0] = None" by (simp add: buf_store_def)
  have rows': "get_raw_rows (Suc (Suc 0)) (Suc 0) 2 65536 2 0 (ex_wrap_stream\<lparr>pos := 2\<rparr>) [] = None"
    using fr bs by simp
  have rows: "get_raw_rows 2 (Suc 0) 2 65536 2 0 (ex_wrap_stream\<lparr>pos := 2\<rparr>) [] = None"
    using rows' by (simp add: numeral_2_eq_2)
  show ?thesis
    unfolding cw_get_raw_def Let_def
    by (simp add: wrap_rows wrap_cols fseek_set_def rows)
qed

lemma wrap_shifts:
  "cw_get_att 0 True ex_wrap_stream CW_O_VERTICAL_SHIFT = (Some (- 32767), ex_wrap_stream\<lparr>pos := 88\<rparr>)"
  "cw_get_att 0 True (ex_wrap_stream\<lparr>pos := 88\<rparr>) CW_O_HORIZONTAL_SHIFT
     = (Some 0, ex_wrap_stream\<lparr>pos := 86\<rparr>)"
  by code_simp+

lemma wrap_checks: "vara_checks ex_wrap_state 0 (1, 0) (0, 2) = Some (CW_NOERR, ex_wrap_state)"
  by (simp add: vara_checks_def cw_files_null_def cw_files_deref_def in_table_def
      CW_MAX_FILES_def ex_wrap_state_def ex_shift_state_def ex_cloud_state_def ex_cloud_file_def
      index_out_of_range_def CW_FALSE_def CW_TRUE_def CW_DATA_ID_CLOUD_def
      CW_DATA_ID_VISIBLE_def CW_DATA_ID_IR_def)

lemma wrap_get_vara: "cw_get_vara_uchar ex_wrap_state 0 CW_DATA (1, 0) (0, 2) = None"
proof -
  have d: "cw_files_deref ex_wrap_state 0 = Some (ex_cloud_file\<lparr>f_dims := (2, 2)\<rparr>)"
    by (simp add: cw_files_deref_def in_table_def CW_MAX_FILES_def ex_wrap_state_def
        ex_shift_state_def ex_cloud_state_def)
  have st: "streams ex_wrap_state 0 = Some ex_wrap_stream"
       "cw_byteswap ex_wrap_state = 0" "host_le ex_wrap_state = True"
    by (simp_all add: ex_wrap_state_def ex_shift_state_def ex_cloud_state_def)
  have f: "f_fp (ex_cloud_file\<lparr>f_dims := (2, 2)\<rparr>) = 0"
          "f_pixel_size (ex_cloud_file\<lparr>f_dims := (2, 2)\<rparr>) = 1"
          "f_dims (ex_cloud_file\<lparr>f_dims := (2, 2)\<rparr>) = (2, 2)"
    by (simp_all add: ex_cloud_file_def)
  have m: "malloc_ok ex_wrap_state n" for n
    by (simp add: ex_wrap_state_def ex_shift_state_def ex_cloud_state_def)
  have "get_vara_data ex_wrap_state (ex_cloud_file\<lparr>f_dims := (2, 2)\<rparr>) (1, 0) (0, 2) CW_BYTE = None"
    unfolding get_vara_data_def Let_def
    by (simp only: f st wrap_shifts wrap_read m option.case prod.case fst_conv snd_conv
          not_True_eq_False if_False)
  then show ?thesis
    by (simp add: cw_get_vara_uchar_def cw_get_vara_def wrap_checks d CW_DATA_def)
qed

text \<open>
  C5. Claim: a raw read with a shift whose shifted window lies entirely outside the grid
  returns \<^verbatim>\<open>CW_NOERR\<close> and a buffer of zeros. \<^verbatim>\<open>cw_get_raw\<close> computes the shifted window
  in \<^verbatim>\<open>short\<close> (lines 957-958). A window without rows passes the test of
  \<^verbatim>\<open>cw_get_vara\<close>; with the vertical shift -32767 and the start row 1 on a grid of 2 rows
  and 2 columns, the shifted start row 32768 is past the last row, but as a \<^verbatim>\<open>short\<close> it
  is -32768 and the shifted end row -32769 is 32767. Neither test of line 959 holds, the
  offset into the buffer of 0 bytes becomes \<open>32768 * 2\<close>, and the read of line 999 stores
  outside the buffer.
\<close>

theorem C5_shift_wraps_in_short:
  "\<not> index_out_of_range (2, 2) (1, 0) (0, 2)
   \<and> uint (1 :: size_t) - sint (- 32767 :: short) > sint (2 :: short) - 1
   \<and> shift_dim 2 1 0 (- 32767) = Some (32768, 0, 2)
   \<and> cw_get_raw 0 ex_wrap_stream 1 (2, 2) (1, 0) (0, 2) (Some (- 32767, 0)) = None
   \<and> fst (cw_get_att (cw_byteswap ex_wrap_state) (host_le ex_wrap_state) ex_wrap_stream
             CW_O_VERTICAL_SHIFT) = Some (- 32767)
   \<and> cw_get_vara_uchar ex_wrap_state 0 CW_DATA (1, 0) (0, 2) = None"
proof -
  have a: "\<not> index_out_of_range (2, 2) (1, 0) (0, 2)
   \<and> uint (1 :: size_t) - sint (- 32767 :: short) > sint (2 :: short) - 1"
    by code_simp
  have b: "cw_get_raw 0 ex_wrap_stream 1 (2, 2) (1, 0) (0, 2) (Some (- 32767, 0)) = None"
    using wrap_read [of "pos ex_wrap_stream"] by simp
  have c: "fst (cw_get_att (cw_byteswap ex_wrap_state) (host_le ex_wrap_state) ex_wrap_stream
             CW_O_VERTICAL_SHIFT) = Some (- 32767)"
    by code_simp
  from a b c wrap_rows wrap_get_vara show ?thesis by blast
qed

subsection \<open>1B decompression: the first byte\<close>








subsection \<open>The table of datasets\<close>

declare slot_search.simps [simp del]

lemma slot_search_range:
  "0 \<le> ix \<Longrightarrow> ix \<le> CW_MAX_FILES \<Longrightarrow>
   ix \<le> fst (slot_search g ix) \<and> fst (slot_search g ix) \<le> CW_MAX_FILES
   \<and> (fst (slot_search g ix) < CW_MAX_FILES \<longrightarrow> cw_files_null g (fst (slot_search g ix)))"
proof (induction g ix rule: slot_search.induct)
  case (1 g ix)
  show ?case
  proof (cases "\<not> cw_files_null g ix \<and> ix < CW_MAX_FILES")
    case True
    then have ih: "ix + 1 \<le> fst (slot_search g (ix + 1)) \<and> fst (slot_search g (ix + 1)) \<le> CW_MAX_FILES
      \<and> (fst (slot_search g (ix + 1)) < CW_MAX_FILES \<longrightarrow> cw_files_null g (fst (slot_search g (ix + 1))))"
      using "1.IH" "1.prems" by simp
    have "fst (slot_search g ix) = fst (slot_search g (ix + 1))"
      using True by (subst slot_search.simps) (simp split: prod.splits)
    with ih show ?thesis by simp
  next
    case False
    then have "slot_search g ix = (ix, [ix])" by (subst slot_search.simps) auto
    with False "1.prems" show ?thesis by auto
  qed
qed

lemma slot_search_full:
  assumes len: "length (cw_files g) = nat CW_MAX_FILES" and full: "None \<notin> set (cw_files g)"
  shows "fst (slot_search g 0) = CW_MAX_FILES"
proof -
  have r: "0 \<le> fst (slot_search g 0) \<and> fst (slot_search g 0) \<le> CW_MAX_FILES
   \<and> (fst (slot_search g 0) < CW_MAX_FILES \<longrightarrow> cw_files_null g (fst (slot_search g 0)))"
    using slot_search_range [of 0 g] by (simp add: CW_MAX_FILES_def)
  show ?thesis
  proof (rule ccontr)
    assume "fst (slot_search g 0) \<noteq> CW_MAX_FILES"
    with r have lt: "fst (slot_search g 0) < CW_MAX_FILES" and nul: "cw_files_null g (fst (slot_search g 0))"
      by auto
    from r lt have "nat (fst (slot_search g 0)) < length (cw_files g)" using len by simp
    then have "cw_files g ! nat (fst (slot_search g 0)) \<in> set (cw_files g)" by simp
    moreover from nul r lt have "cw_files g ! nat (fst (slot_search g 0)) = None"
      by (simp add: cw_files_null_def in_table_def)
    ultimately show False using full by simp
  qed
qed

lemma init_byteswap_files [simp]: "cw_files (init_byteswap g) = cw_files g"
  by (simp add: init_byteswap_def)

lemma cw_create_full:
  assumes len: "length (cw_files g) = nat CW_MAX_FILES" and full: "None \<notin> set (cw_files g)"
  shows "cw_create g p cmode =
           (if cmode \<noteq> CW_CLOBBER \<and> cmode \<noteq> CW_NOCLOBBER then CW_ERR_CREATE_MODE else CW_ERR_MAX_FILES,
            init_byteswap g, None)"
proof -
  have "fst (slot_search (init_byteswap g) 0) = CW_MAX_FILES"
    by (rule slot_search_full) (simp_all add: len full)
  then obtain rd where "slot_search (init_byteswap g) 0 = (CW_MAX_FILES, rd)"
    by (cases "slot_search (init_byteswap g) 0") auto
  then show ?thesis
    unfolding cw_create_def Let_def by simp
qed

lemma cw_open_full:
  assumes len: "length (cw_files g) = nat CW_MAX_FILES" and full: "None \<notin> set (cw_files g)"
  shows "cw_open g p omode =
           (if omode \<noteq> CW_NOWRITE \<and> omode \<noteq> CW_WRITE then CW_ERR_ACCESS_MODE else CW_ERR_MAX_FILES,
            init_byteswap g, None)"
proof -
  have "fst (slot_search (init_byteswap g) 0) = CW_MAX_FILES"
    by (rule slot_search_full) (simp_all add: len full)
  then obtain rd where "slot_search (init_byteswap g) 0 = (CW_MAX_FILES, rd)"
    by (cases "slot_search (init_byteswap g) 0") auto
  then show ?thesis
    unfolding cw_open_def Let_def by simp
qed

lemma files_set_stream [simp]: "cw_files (set_stream g h st) = cw_files g"
  by (simp add: set_stream_def)

lemma files_fclose [simp]: "cw_files (snd (fclose g h)) = cw_files g"
  by (simp add: fclose_def split: option.splits)

lemma files_fopen [simp]: "cw_files (snd (fopen g p m)) = cw_files g"
  by (simp add: fopen_def new_stream_def split: fmode.splits option.splits)

lemma files_tmpfile [simp]: "cw_files (snd (tmpfile g)) = cw_files g"
  by (simp add: tmpfile_def new_stream_def)

lemma files_remove [simp]: "cw_files (remove_file g p) = cw_files g"
  by (simp add: remove_file_def)

lemma length_files_store [simp]: "length (cw_files (cw_files_store g ix f)) = length (cw_files g)"
  by (simp add: cw_files_store_def)

lemma create_file_files [simp]: "cw_files (snd (create_file g p cmode)) = cw_files g"
  unfolding create_file_def
  by (simp add: split_beta split: option.split)

lemma create_cleanup_files [simp]: "cw_files (create_cleanup g h p) = cw_files g"
  by (simp add: create_cleanup_def)

lemma create_dataset_length:
  "length (cw_files (fst (snd (create_dataset g p h ix)))) = length (cw_files g)"
  unfolding create_dataset_def
  by (simp add: split_beta split: option.split)

lemma cw_create_length:
  "length (cw_files (fst (snd (cw_create g p cmode)))) = length (cw_files g)"
  unfolding cw_create_def Let_def
  by (simp add: split_beta create_dataset_length split: sum.split)

lemma open_dataset_length:
  "length (cw_files (fst (snd (open_dataset g p omode h ix)))) = length (cw_files g)"
  unfolding open_dataset_def
  by (simp add: split_beta split: option.split sum.split)

lemma cw_open_length:
  "length (cw_files (fst (snd (cw_open g p omode)))) = length (cw_files g)"
  unfolding cw_open_def Let_def
  by (simp add: split_beta open_dataset_length split: option.split)

lemma cw_compress_length:
  "cw_compress g cwid = Some (r, g') \<Longrightarrow> length (cw_files g') = length (cw_files g)"
  unfolding cw_compress_def Let_def
  by (auto simp add: split_beta split: option.splits if_splits)

lemma enddef_compression_length:
  "length (cw_files (fst (snd (enddef_compression g cwid f fp)))) = length (cw_files g)"
  unfolding enddef_compression_def Let_def
  by (simp add: split_beta split: option.split)

lemma enddef_fill_length:
  "length (cw_files (snd (enddef_fill g cwid f fp))) = length (cw_files g)"
  unfolding enddef_fill_def Let_def
  by (simp add: split_beta)

lemma enddef_fill_len:
  "enddef_fill g cwid f fp = (r, g') \<Longrightarrow> length (cw_files g') = length (cw_files g)"
  using enddef_fill_length [of g cwid f fp] by simp

lemma cw_enddef_length:
  "cw_enddef g cwid = Some (r, g') \<Longrightarrow> length (cw_files g') = length (cw_files g)"
  unfolding cw_enddef_def
  by (auto simp add: split_beta enddef_compression_length dest!: enddef_fill_len
           split: option.splits if_splits)

lemma close_compression_length:
  "close_compression g cwid f = Some (r, g') \<Longrightarrow> length (cw_files g') = length (cw_files g)"
  unfolding close_compression_def
  by (auto simp add: split_beta dest!: cw_compress_length split: option.splits if_splits)

lemma cw_close_length:
  "cw_close g cwid = Some (r, g') \<Longrightarrow> length (cw_files g') = length (cw_files g)"
  unfolding cw_close_def
  by (auto simp add: split_beta dest!: cw_enddef_length close_compression_length
           split: option.splits if_splits)

lemma open_count_le: "open_count g \<le> length (cw_files g)"
  by (simp add: open_count_def)

text \<open>
  C9. Claim: whenever all 100 slots of the table are occupied, \<^verbatim>\<open>cw_create\<close> and
  \<^verbatim>\<open>cw_open\<close> fail with \<^verbatim>\<open>CW_ERR_MAX_FILES\<close>. Both functions check their mode argument
  before they search the table for a free slot (lines 2381-2387 and 2496-2502): with the
  table full and the mode 2, which is neither of the two modes of either function, they
  return \<^verbatim>\<open>CW_ERR_CREATE_MODE\<close> and \<^verbatim>\<open>CW_ERR_ACCESS_MODE\<close>.
\<close>

theorem C9_invalid_mode_counterexample:
  "fst (cw_create ex_full_state ''b.cwf'' 2) = CW_ERR_CREATE_MODE
   \<and> fst (cw_open ex_full_state ''a.cwf'' 2) = CW_ERR_ACCESS_MODE
   \<and> open_count ex_full_state = 100"
  by code_simp

text \<open>
  C9 as amended: on a table of 100 slots, all occupied, \<^verbatim>\<open>cw_create\<close> and \<^verbatim>\<open>cw_open\<close>
  with a valid mode return \<^verbatim>\<open>CW_ERR_MAX_FILES\<close>, change nothing but the byte-swap flag
  and store no dataset id; with any mode they fail and leave the table as it was. The
  table keeps its 100 slots through \<^verbatim>\<open>cw_create\<close>, \<^verbatim>\<open>cw_open\<close>, \<^verbatim>\<open>cw_enddef\<close> and
  \<^verbatim>\<open>cw_close\<close>, so that at most 100 datasets are registered.
\<close>

theorem C9_full_registry:
  assumes len: "length (cw_files g) = nat CW_MAX_FILES"
  shows "(None \<notin> set (cw_files g) \<and> (cmode = CW_CLOBBER \<or> cmode = CW_NOCLOBBER) \<longrightarrow>
            cw_create g p cmode = (CW_ERR_MAX_FILES, init_byteswap g, None))
       \<and> (None \<notin> set (cw_files g) \<and> (omode = CW_NOWRITE \<or> omode = CW_WRITE) \<longrightarrow>
            cw_open g p omode = (CW_ERR_MAX_FILES, init_byteswap g, None))
       \<and> (None \<notin> set (cw_files g) \<longrightarrow>
            fst (cw_create g p cmode) \<noteq> CW_NOERR \<and> fst (cw_open g p omode) \<noteq> CW_NOERR
            \<and> cw_files (fst (snd (cw_create g p cmode))) = cw_files g
            \<and> cw_files (fst (snd (cw_open g p omode))) = cw_files g)
       \<and> length (cw_files (fst (snd (cw_create g p cmode)))) = nat CW_MAX_FILES
       \<and> length (cw_files (fst (snd (cw_open g p omode)))) = nat CW_MAX_FILES
       \<and> (\<forall>r g'. cw_enddef g cwid = Some (r, g') \<longrightarrow> length (cw_files g') = nat CW_MAX_FILES)
       \<and> (\<forall>r g'. cw_close g cwid = Some (r, g') \<longrightarrow> length (cw_files g') = nat CW_MAX_FILES)
       \<and> open_count g \<le> 100"
proof -
  have a: "None \<notin> set (cw_files g) \<Longrightarrow>
           cw_create g p cmode =
             (if cmode \<noteq> CW_CLOBBER \<and> cmode \<noteq> CW_NOCLOBBER then CW_ERR_CREATE_MODE
              else CW_ERR_MAX_FILES, init_byteswap g, None)"
    by (rule cw_create_full [OF len])
  have b: "None \<notin> set (cw_files g) \<Longrightarrow>
           cw_open g p omode =
             (if omode \<noteq> CW_NOWRITE \<and> omode \<noteq> CW_WRITE then CW_ERR_ACCESS_MODE
              else CW_ERR_MAX_FILES, init_byteswap g, None)"
    by (rule cw_open_full [OF len])
  have c: "open_count g \<le> 100"
    using open_count_le [of g] len by (simp add: CW_MAX_FILES_def)
  have d: "length (cw_files (fst (snd (cw_create g p cmode)))) = nat CW_MAX_FILES"
    using cw_create_length [of g p cmode] len by simp
  have e: "length (cw_files (fst (snd (cw_open g p omode)))) = nat CW_MAX_FILES"
    using cw_open_length [of g p omode] len by simp
  have f: "\<forall>r g'. cw_enddef g cwid = Some (r, g') \<longrightarrow> length (cw_files g') = nat CW_MAX_FILES"
    using cw_enddef_length [of g cwid] len by simp
  have h: "\<forall>r g'. cw_close g cwid = Some (r, g') \<longrightarrow> length (cw_files g') = nat CW_MAX_FILES"
    using cw_close_length [of g cwid] len by simp
  from a b have i: "None \<notin> set (cw_files g) \<longrightarrow>
            fst (cw_create g p cmode) \<noteq> CW_NOERR \<and> fst (cw_open g p omode) \<noteq> CW_NOERR
            \<and> cw_files (fst (snd (cw_create g p cmode))) = cw_files g
            \<and> cw_files (fst (snd (cw_open g p omode))) = cw_files g"
    by simp
  from a have a': "None \<notin> set (cw_files g) \<and> (cmode = CW_CLOBBER \<or> cmode = CW_NOCLOBBER) \<longrightarrow>
            cw_create g p cmode = (CW_ERR_MAX_FILES, init_byteswap g, None)"
    by auto
  from b have b': "None \<notin> set (cw_files g) \<and> (omode = CW_NOWRITE \<or> omode = CW_WRITE) \<longrightarrow>
            cw_open g p omode = (CW_ERR_MAX_FILES, init_byteswap g, None)"
    by auto
  from a' b' i d e f h c show ?thesis by blast
qed

theorem C9_full_registry_witness:
  "length (cw_files ex_full_state) = nat CW_MAX_FILES
   \<and> None \<notin> set (cw_files ex_full_state)
   \<and> cw_create ex_full_state ''b.cwf'' CW_CLOBBER
       = (CW_ERR_MAX_FILES, init_byteswap ex_full_state, None)
   \<and> cw_open ex_full_state ''b.cwf'' CW_WRITE
       = (CW_ERR_MAX_FILES, init_byteswap ex_full_state, None)
   \<and> cw_files (fst (snd (cw_create ex_full_state ''b.cwf'' CW_CLOBBER))) = cw_files ex_full_state
   \<and> open_count ex_full_state \<le> 100"
proof -
  have len: "length (cw_files ex_full_state) = nat CW_MAX_FILES"
    by (simp add: ex_full_state_def CW_MAX_FILES_def)
  have full: "None \<notin> set (cw_files ex_full_state)"
    by (simp add: ex_full_state_def)
  from C9_full_registry [OF len, of CW_CLOBBER "''b.cwf''" CW_WRITE 0] len full
  show ?thesis by simp
qed

text \<open>
  C10. Claim: no access to \<^verbatim>\<open>cw_files\<close> leaves its 100 slots. The search of
  \<^verbatim>\<open>cw_create\<close> and \<^verbatim>\<open>cw_open\<close> evaluates \<^verbatim>\<open>cw_files[id] != NULL\<close> before
  \<^verbatim>\<open>id < CW_MAX_FILES\<close>: on a full table its last read is at index 100. \<^verbatim>\<open>cw_close\<close>
  tests \<^verbatim>\<open>cw_files[cwid] == NULL\<close> with no check of \<open>cwid\<close>: called with 100 or -1 it
  returns \<^verbatim>\<open>CW_ERR_DATASET_ID\<close> if the memory beside the table happens to hold a null
  pointer and dereferences what it finds there otherwise.
\<close>

theorem C10_reads_outside_table:
  "\<not> in_table CW_MAX_FILES
   \<and> last (snd (slot_search ex_full_state 0)) = CW_MAX_FILES
   \<and> map_option fst (cw_close ex_state CW_MAX_FILES) = Some CW_ERR_DATASET_ID
   \<and> cw_close (ex_state\<lparr>beyond := \<lambda>ix. False\<rparr>) CW_MAX_FILES = None
   \<and> cw_close (ex_state\<lparr>beyond := \<lambda>ix. False\<rparr>) (- 1) = None"
  by code_simp

subsection \<open>Windows of pixel data\<close>

text \<open>
  On a dataset whose two dimensions are positive, and for a window whose start plus count
  does not exceed \<open>2^32\<close> in either dimension, the test of the window refuses every
  window that leaves the grid, and both functions return \<^verbatim>\<open>CW_ERR_VAR_INDEX\<close> with the
  state as it was.
\<close>

lemma dim_check:
  fixes s c :: size_t and d :: short
  assumes d1: "1 \<le> sint d" and nw: "uint s + uint c \<le> 2 ^ 32"
      and out: "uint s > sint d - 1 \<or> uint s + uint c - 1 > sint d - 1"
  shows "s > (word_of_int (sint d - 1) :: size_t) \<or> s + c - 1 > (word_of_int (sint d - 1) :: size_t)"
proof -
  define D :: size_t where "D = word_of_int (sint d - 1)"
  have dub: "sint d < 2 ^ 15" using sint_lt [of d] by simp
  define n where "n = sint d - 1"
  have nb: "0 \<le> n" "n < 2 ^ 32" using d1 dub unfolding n_def by simp_all
  have "uint (word_of_int n :: size_t) = n mod 2 ^ 32"
    by (simp only: uint_word_of_int) simp
  also have "\<dots> = n" using nb by simp
  finally have uD: "uint D = sint d - 1" unfolding D_def n_def .
  show ?thesis
  proof (cases "uint s > sint d - 1")
    case True
    then have "D < s" using uD by (simp add: word_less_def)
    then show ?thesis unfolding D_def by simp
  next
    case False
    with out have o2: "uint s + uint c - 1 > sint d - 1" by simp
    have s0: "0 \<le> uint s" by simp
    from o2 d1 have pos: "0 \<le> uint s + uint c - 1" by linarith
    have lt: "uint s + uint c - 1 < 2 ^ 32" using nw by linarith
    have "s + c - 1 = word_of_int (uint s + uint c - 1)" by simp
    then have "uint (s + c - 1) = (uint s + uint c - 1) mod 2 ^ 32"
      by (simp only: uint_word_of_int) simp
    also have "\<dots> = uint s + uint c - 1" using pos lt by simp
    finally have "uint (s + c - 1) > uint D" using o2 uD by simp
    then have "D < s + c - 1" by (simp add: word_less_def)
    then show ?thesis unfolding D_def by simp
  qed
qed

lemma index_check_sound:
  assumes "1 \<le> sint (fst dims)" and "1 \<le> sint (snd dims)"
      and "uint (fst start) + uint (fst count) \<le> 2 ^ 32"
      and "uint (snd start) + uint (snd count) \<le> 2 ^ 32"
      and "uint (fst start) > sint (fst dims) - 1 \<or> uint (snd start) > sint (snd dims) - 1
           \<or> uint (fst start) + uint (fst count) - 1 > sint (fst dims) - 1
           \<or> uint (snd start) + uint (snd count) - 1 > sint (snd dims) - 1"
  shows "index_out_of_range dims start count"
proof -
  from assms(5) consider
      "uint (fst start) > sint (fst dims) - 1 \<or> uint (fst start) + uint (fst count) - 1 > sint (fst dims) - 1"
    | "uint (snd start) > sint (snd dims) - 1 \<or> uint (snd start) + uint (snd count) - 1 > sint (snd dims) - 1"
    by blast
  then show ?thesis
  proof cases
    case 1
    from dim_check [OF assms(1) assms(3) 1] show ?thesis
      unfolding index_out_of_range_def by blast
  next
    case 2
    from dim_check [OF assms(2) assms(4) 2] show ?thesis
      unfolding index_out_of_range_def by blast
  qed
qed

lemma vara_index_error:
  assumes "\<not> cw_files_null g cwid" and "cw_files_deref g cwid = Some f"
      and "f_defmode f \<noteq> CW_TRUE"
      and "index_out_of_range (f_dims f) start count"
  shows "vara_checks g cwid start count = Some (CW_ERR_VAR_INDEX, g)"
    and "cw_get_vara g cwid varid start count ty = Some (CW_ERR_VAR_INDEX, g, None)"
    and "cw_put_vara g cwid varid start count d = Some (CW_ERR_VAR_INDEX, g)"
proof -
  show a: "vara_checks g cwid start count = Some (CW_ERR_VAR_INDEX, g)"
    using assms by (simp add: vara_checks_def)
  show "cw_get_vara g cwid varid start count ty = Some (CW_ERR_VAR_INDEX, g, None)"
    by (simp add: cw_get_vara_def a)
  show "cw_put_vara g cwid varid start count d = Some (CW_ERR_VAR_INDEX, g)"
    by (simp add: cw_put_vara_def a)
qed

text \<open>
  C6. Claim: on a dataset not in define mode, a window whose start exceeds the declared
  dimension minus one, or whose start plus count minus one does, is refused with
  \<^verbatim>\<open>CW_ERR_VAR_INDEX\<close> before any pixel is read or written. The test compares a \<^verbatim>\<open>size_t\<close>
  with \<^verbatim>\<open>dims[...]-1\<close> converted to \<^verbatim>\<open>size_t\<close>. For a dataset of 0 rows the right side is
  \<open>-1\<close>, the largest \<^verbatim>\<open>size_t\<close>, and no window is refused: the window of 1 row and 4
  columns at (0, 0) is read with \<^verbatim>\<open>CW_NOERR\<close>, and written with \<^verbatim>\<open>CW_NOERR\<close> into the bytes
  4 to 7 of the file. The sum \<^verbatim>\<open>start + count - 1\<close> wraps: on 3 rows the window of
  \<open>2^32 - 1\<close> rows from row 2 passes the test.
\<close>

theorem C6_zero_rows_window:
  "f_defmode ex_cloud_file \<noteq> CW_TRUE
   \<and> f_dims ex_cloud_file = (0, 4)
   \<and> uint (0 :: size_t) > sint (fst (f_dims ex_cloud_file)) - 1
   \<and> \<not> index_out_of_range (f_dims ex_cloud_file) (0, 0) (1, 4)
   \<and> uint (2 :: size_t) + uint (0xFFFFFFFF :: size_t) - 1 > sint (3 :: short) - 1
   \<and> \<not> index_out_of_range (3, 3) (2, 0) (0xFFFFFFFF, 1)
   \<and> map_option (\<lambda>(r, g, d). (r, d)) (cw_get_vara_uchar ex_cloud_state 0 CW_DATA (0, 0) (1, 4))
       = Some (CW_NOERR, Some (Uchars [0, 0, 0, 0]))
   \<and> map_option (\<lambda>(r, g). (r, map_option (\<lambda>s. take 8 (bytes s)) (streams g 0)))
        (cw_put_vara_uchar ex_cloud_state 0 CW_DATA (0, 0) (1, 4) [9, 9, 9, 9])
       = Some (CW_NOERR, Some [0xd5, 1, 2, 3, 9, 9, 9, 9])
   \<and> map_option (\<lambda>s. take 8 (bytes s)) (streams ex_cloud_state 0)
       = Some [0xd5, 1, 2, 3, 4, 5, 6, 7]"
  by code_simp

lemma cw_get_att_bytes:
  "cw_get_att bswap le fp off = (r, fp1) \<Longrightarrow> bytes fp1 = bytes fp"
  by (auto simp add: cw_get_att_def fseek_set_def fread_def Let_def
           split: if_splits option.splits prod.splits)

text \<open>
  \<^verbatim>\<open>cw_uncompress\<close> only reads the compressed stream: whatever it returns, the stream is
  the one it was given at another position.
\<close>

lemma uncompress_value_stream:
  "uncompress_value i j l cfp = (r, v, cfp') \<Longrightarrow> \<exists>p. cfp' = cfp\<lparr>pos := p\<rparr>"
proof -
  assume a: "uncompress_value i j l cfp = (r, v, cfp')"
  obtain g1 d1 c1 where f1: "fread cfp 1 1 = (g1, d1, c1)" by (cases "fread cfp 1 1")
  obtain g2 d2 c2 where f2: "fread c1 1 1 = (g2, d2, c2)" by (cases "fread c1 1 1")
  from fread_stream [OF f1] obtain p1 where p1: "c1 = cfp\<lparr>pos := p1\<rparr>" by blast
  from fread_stream [OF f2] obtain p2 where p2: "c2 = c1\<lparr>pos := p2\<rparr>" by blast
  have c2: "c2 = cfp\<lparr>pos := p2\<rparr>" using p1 p2 by simp
  from a f1 f2 have "cfp' = c1 \<or> cfp' = c2"
    by (auto simp: uncompress_value_def split: if_splits)
  with p1 c2 show ?thesis by blast
qed

lemma uncompress_cols_stream:
  "uncompress_cols n i j l cfp = (r, vs, l', cfp') \<Longrightarrow> \<exists>p. cfp' = cfp\<lparr>pos := p\<rparr>"
proof (induction n arbitrary: j l cfp r vs l' cfp')
  case 0
  then show ?case by (auto intro: exI [of _ "pos cfp"])
next
  case (Suc n)
  obtain r1 v c1 where uv: "uncompress_value i j l cfp = (r1, v, c1)"
    by (cases "uncompress_value i j l cfp")
  from uncompress_value_stream [OF uv] obtain p1 where p1: "c1 = cfp\<lparr>pos := p1\<rparr>" by blast
  show ?case
  proof (cases "r1 = CW_NOERR")
    case False
    with Suc.prems uv have "cfp' = c1" by simp
    with p1 show ?thesis by blast
  next
    case True
    obtain r2 vs2 l2 c2 where rec: "uncompress_cols n i (Suc j) v c1 = (r2, vs2, l2, c2)"
      by (cases "uncompress_cols n i (Suc j) v c1")
    from Suc.IH [OF rec] obtain p2 where p2: "c2 = c1\<lparr>pos := p2\<rparr>" by blast
    from Suc.prems uv True rec have "cfp' = c2" by simp
    with p1 p2 have "cfp' = cfp\<lparr>pos := p2\<rparr>" by simp
    then show ?thesis by blast
  qed
qed

lemma uncompress_rows_stream:
  "uncompress_rows k i bs mok le dims cols l cfp ufp = Some (r, l', cfp', ufp')
   \<Longrightarrow> \<exists>p. cfp' = cfp\<lparr>pos := p\<rparr>"
proof (induction k arbitrary: i l cfp ufp)
  case 0
  then show ?case by (auto intro: exI [of _ "pos cfp"])
next
  case (Suc k)
  obtain r1 data l1 c1 where uc: "uncompress_cols (unat cols) i 0 l cfp = (r1, data, l1, c1)"
    by (cases "uncompress_cols (unat cols) i 0 l cfp")
  from uncompress_cols_stream [OF uc] obtain p1 where p1: "c1 = cfp\<lparr>pos := p1\<rparr>" by blast
  show ?case
  proof (cases "r1 = CW_NOERR")
    case False
    with Suc.prems uc have "cfp' = c1" by simp
    with p1 show ?thesis by blast
  next
    case True
    from Suc.prems uc True obtain r2 u1 where
      pr: "cw_put_raw bs mok ufp
             (bytes_of_ushorts le (cw_combine_channel (Some data) None (unat cols)))
             2 dims (of_nat i, 0) (1, cols) = Some (r2, u1)"
      by (auto split: option.splits)
    show ?thesis
    proof (cases "r2 = CW_NOERR")
      case False
      with Suc.prems uc True pr have "cfp' = c1" by simp
      with p1 show ?thesis by blast
    next
      case r2: True
      from Suc.prems uc True pr r2 have
        rec: "uncompress_rows k (Suc i) bs mok le dims cols l1 c1 u1 = Some (r, l', cfp', ufp')"
        by simp
      from Suc.IH [OF rec] obtain p2 where "cfp' = c1\<lparr>pos := p2\<rparr>" by blast
      with p1 have "cfp' = cfp\<lparr>pos := p2\<rparr>" by simp
      then show ?thesis by blast
    qed
  qed
qed

lemma graphics_reads_stream:
  "graphics_reads columns j gr bk cfp = (r, gr', bk', cfp') \<Longrightarrow> \<exists>p. cfp' = cfp\<lparr>pos := p\<rparr>"
proof (induction columns j gr bk cfp arbitrary: r gr' bk' cfp' rule: graphics_reads.induct)
  case (1 columns j gr bk cfp)
  show ?case
  proof (cases "j < columns")
    case False
    with "1.prems" have "cfp' = cfp" by (subst (asm) graphics_reads.simps) simp
    then show ?thesis by (auto intro: exI [of _ "pos cfp"])
  next
    case True
    obtain got d c1 where fr: "fread cfp 1 2 = (got, d, c1)" by (cases "fread cfp 1 2")
    from fread_stream [OF fr] obtain p1 where p1: "c1 = cfp\<lparr>pos := p1\<rparr>" by blast
    show ?thesis
    proof (cases "got < 2")
      case g: True
      with "1.prems" True fr have "cfp' = c1" by (subst (asm) graphics_reads.simps) simp
      with p1 show ?thesis by blast
    next
      case g: False
      define m where "m = min (unat (d ! 1) + 1) (columns - j)"
      from "1.prems" True fr g have
        rec: "graphics_reads columns (j + m) (gr @ replicate m (d ! 0)) (d ! 0, d ! 1, m) c1
                = (r, gr', bk', cfp')"
        by (subst (asm) graphics_reads.simps) (simp add: m_def Let_def)
      from "1.IH" [OF True fr [symmetric] refl g m_def rec]
      obtain p2 where "cfp' = c1\<lparr>pos := p2\<rparr>" by blast
      with p1 have "cfp' = cfp\<lparr>pos := p2\<rparr>" by simp
      then show ?thesis by blast
    qed
  qed
qed

lemma uncompress_graphics_rows_stream:
  "uncompress_graphics_rows n i bs mok le dims cols spill lastg bk cfp ufp = Some (r, cfp', ufp')
   \<Longrightarrow> \<exists>p. cfp' = cfp\<lparr>pos := p\<rparr>"
proof (induction n arbitrary: i spill lastg bk cfp ufp)
  case 0
  then show ?case by (auto intro: exI [of _ "pos cfp"])
next
  case (Suc n)
  obtain r1 gr b0 b1 k c1 where
    gr: "graphics_reads (unat cols) spill (replicate spill lastg) bk cfp = (r1, gr, (b0, b1, k), c1)"
    by (cases "graphics_reads (unat cols) spill (replicate spill lastg) bk cfp") auto
  from graphics_reads_stream [OF gr] obtain p1 where p1: "c1 = cfp\<lparr>pos := p1\<rparr>" by blast
  from Suc.prems gr have
    "cfp' = c1 \<or> (\<exists>sp lg u. uncompress_graphics_rows n (Suc i) bs mok le dims cols sp lg (b0, b1, k) c1 u
                      = Some (r, cfp', ufp'))"
    by (auto simp: Let_def split: if_splits option.splits)
  then show ?case
  proof
    assume "cfp' = c1" with p1 show ?thesis by blast
  next
    assume "\<exists>sp lg u. uncompress_graphics_rows n (Suc i) bs mok le dims cols sp lg (b0, b1, k) c1 u
                      = Some (r, cfp', ufp')"
    then obtain sp lg u where
      "uncompress_graphics_rows n (Suc i) bs mok le dims cols sp lg (b0, b1, k) c1 u = Some (r, cfp', ufp')"
      by blast
    from Suc.IH [OF this] obtain p2 where "cfp' = c1\<lparr>pos := p2\<rparr>" by blast
    with p1 have "cfp' = cfp\<lparr>pos := p2\<rparr>" by simp
    then show ?thesis by blast
  qed
qed

lemma cw_uncompress_streams_stream:
  assumes "cw_uncompress_streams bs mok le dims l0 cfp ufp = Some (r, cfp', ufp')"
  shows "\<exists>p. cfp' = cfp\<lparr>pos := p\<rparr>"
proof -
  have id: "\<exists>p. cfp = cfp\<lparr>pos := p\<rparr>" by (auto intro: exI [of _ "pos cfp"])
  show ?thesis
  proof (cases "fseek_set cfp 0")
    case None
    with assms have "cfp' = cfp"
      by (auto simp: cw_uncompress_streams_def Let_def split: if_splits)
    with id show ?thesis by simp
  next
    case (Some c1)
    from fseek_set_stream [OF Some] obtain p1 where p1: "c1 = cfp\<lparr>pos := p1\<rparr>" by blast
    obtain got hd c2 where fr: "fread c1 1 CW_HEAD_COMP = (got, hd, c2)"
      by (cases "fread c1 1 CW_HEAD_COMP")
    from fread_stream [OF fr] obtain p2 where "c2 = c1\<lparr>pos := p2\<rparr>" by blast
    with p1 have p2: "c2 = cfp\<lparr>pos := p2\<rparr>" by simp
    obtain w u1 where fw: "fwrite ufp hd = (w, u1)" by (cases "fwrite ufp hd")
    define cols where "cols = (scast (snd dims) :: size_t)"
    obtain ok u2 where pad: "(if CW_HEAD_COMP < unat (cols * 2)
                               then write_zeros (unat (cols * 2) - CW_HEAD_COMP) u1
                               else (True, u1)) = (ok, u2)"
      by (cases "(if CW_HEAD_COMP < unat (cols * 2)
                               then write_zeros (unat (cols * 2) - CW_HEAD_COMP) u1
                               else (True, u1))")
    show ?thesis
    proof (cases "uncompress_rows (unat (scast (fst dims) :: size_t)) 0 bs mok le dims cols l0 c2 u2")
      case None
      with assms Some fr fw pad have "cfp' = cfp \<or> cfp' = c2"
        unfolding cw_uncompress_streams_def Let_def cols_def [symmetric]
        by (auto split: if_splits)
      with id p2 show ?thesis by blast
    next
      case ur: (Some res)
      obtain r1 l1 c3 u3 where res: "res = (r1, l1, c3, u3)" by (cases res)
      from uncompress_rows_stream [OF ur [unfolded res]] obtain p3 where "c3 = c2\<lparr>pos := p3\<rparr>"
        by blast
      with p2 have p3: "c3 = cfp\<lparr>pos := p3\<rparr>" by simp
      from assms Some fr fw pad ur res have
        "cfp' = cfp \<or> cfp' = c2 \<or> cfp' = c3
         \<or> uncompress_graphics_rows (unat (scast (fst dims) :: size_t)) 0 bs mok le dims cols
              0 0 (0, 0, 0) c3 u3 = Some (r, cfp', ufp')"
        unfolding cw_uncompress_streams_def Let_def cols_def [symmetric]
        by (auto split: if_splits)
      then show ?thesis
      proof (elim disjE)
        assume "cfp' = cfp" with id show ?thesis by simp
      next
        assume "cfp' = c2" with p2 show ?thesis by blast
      next
        assume "cfp' = c3" with p3 show ?thesis by blast
      next
        assume "uncompress_graphics_rows (unat (scast (fst dims) :: size_t)) 0 bs mok le dims cols
              0 0 (0, 0, 0) c3 u3 = Some (r, cfp', ufp')"
        from uncompress_graphics_rows_stream [OF this] obtain p4 where "cfp' = c3\<lparr>pos := p4\<rparr>"
          by blast
        with p3 have "cfp' = cfp\<lparr>pos := p4\<rparr>" by simp
        then show ?thesis by blast
      qed
    qed
  qed
qed

text \<open>
  What \<^verbatim>\<open>cw_uncompress\<close>, and so the checks at the head of \<^verbatim>\<open>cw_get_vara\<close> and
  \<^verbatim>\<open>cw_put_vara\<close>, can change in a state whose next stream handle is free: a stream that
  was open is then closed or holds the bytes it held, and a file is as it was or holds the
  bytes of a stream that was open on it (\<^verbatim>\<open>fclose\<close> has written them back).
\<close>

lemma cw_uncompress_frame:
  assumes run: "cw_uncompress g cwid = Some (r, g')" and fresh: "streams g (next_stream g) = None"
  shows "(\<forall>h st. streams g h = Some st \<longrightarrow>
            streams g' h = None \<or> map_option bytes (streams g' h) = Some (bytes st))
         \<and> (\<forall>p. disk g' p = disk g p
               \<or> (\<exists>h st. streams g h = Some st \<and> stream_path g h = Some p
                     \<and> disk g' p = Some (bytes st)))"
proof -
  from run obtain f where f: "cw_files_deref g cwid = Some f"
    by (auto simp: cw_uncompress_def split: option.splits)
  from run f obtain cfp where cfp: "streams g (f_fp f) = Some cfp"
    by (auto simp: cw_uncompress_def split: option.splits)
  define u where "u = next_stream g"
  have hu: "f_fp f \<noteq> u" using cfp fresh unfolding u_def by auto
  show ?thesis
  proof (cases "tmpfile_ok g")
    case False
    with run f cfp have "g' = g" by (simp add: cw_uncompress_def tmpfile_def)
    then show ?thesis by simp
  next
    case True
    define e where "e = \<lparr>bytes = [], pos = 0, readable = True, writable = True\<rparr>"
    define g1 where "g1 = g\<lparr>streams := (streams g)(u := Some e),
                              stream_path := (stream_path g)(u := None),
                              next_stream := Suc u\<rparr>"
    have tf: "tmpfile g = (Some u, g1)"
      using True by (simp add: tmpfile_def new_stream_def g1_def u_def e_def)
    have su: "streams g1 u = Some e" by (simp add: g1_def)
    from run f cfp tf su obtain ret cfp1 ufp1 where
      us: "cw_uncompress_streams (cw_byteswap g) (malloc_ok g) (host_le g) (f_dims f) 0 cfp e
             = Some (ret, cfp1, ufp1)"
      by (auto simp: cw_uncompress_def split: option.splits)
    from cw_uncompress_streams_stream [OF us] obtain p where c1: "cfp1 = cfp\<lparr>pos := p\<rparr>" by blast
    define g2 where "g2 = set_stream (set_stream g1 (f_fp f) cfp1) u ufp1"
    have s2: "streams g2 = (streams g)(f_fp f := Some cfp1, u := Some ufp1)"
      by (auto simp: g2_def g1_def set_stream_def)
    have d2: "disk g2 = disk g" "stream_path g2 (f_fp f) = stream_path g (f_fp f)"
      using hu by (simp_all add: g2_def g1_def set_stream_def)
    show ?thesis
    proof (cases "ret = CW_NOERR")
      case False
      with run f cfp tf su us have "g' = g2"
        by (simp add: cw_uncompress_def g2_def Let_def)
      then show ?thesis using s2 d2 c1 cfp hu fresh unfolding u_def by auto
    next
      case ok: True
      define g3 where "g3 = snd (fclose g2 (f_fp f))"
      have s3: "streams g3 = (streams g)(f_fp f := None, u := Some ufp1)"
        using hu by (auto simp: g3_def fclose_def s2)
      have d3: "disk g3 = (case stream_path g (f_fp f) of
                             Some q \<Rightarrow> if writable cfp then (disk g)(q := Some (bytes cfp)) else disk g
                           | None \<Rightarrow> disk g)"
        using hu by (simp add: g3_def fclose_def s2 d2 c1 split: option.split)
      from run f cfp tf su us ok have
        g': "g' = cw_files_store g3 cwid (Some (f\<lparr>f_fp := u, f_ufp := Some u\<rparr>))"
        by (simp add: cw_uncompress_def g2_def [symmetric] g3_def Let_def split: prod.splits)
      have s': "streams g' = streams g3" "disk g' = disk g3"
        by (simp_all add: g' cw_files_store_def)
      have A: "\<forall>h st. streams g h = Some st \<longrightarrow>
            streams g' h = None \<or> map_option bytes (streams g' h) = Some (bytes st)"
        using fresh unfolding s' s3 u_def by auto
      have B: "\<forall>q. disk g' q = disk g q
               \<or> (\<exists>h st. streams g h = Some st \<and> stream_path g h = Some q
                     \<and> disk g' q = Some (bytes st))"
      proof
        fix q
        show "disk g' q = disk g q
               \<or> (\<exists>h st. streams g h = Some st \<and> stream_path g h = Some q
                     \<and> disk g' q = Some (bytes st))"
        proof (cases "stream_path g (f_fp f) = Some q \<and> writable cfp")
          case True
          then have "disk g' q = Some (bytes cfp)" unfolding s' d3 by simp
          with True cfp show ?thesis by blast
        next
          case False
          then have "disk g' q = disk g q"
            unfolding s' d3 by (auto split: option.splits)
          then show ?thesis by simp
        qed
      qed
      from A B show ?thesis by blast
    qed
  qed
qed

lemma vara_checks_cases:
  assumes checks: "vara_checks g cwid start count = Some (CW_NOERR, g1)"
      and f0: "cw_files_deref g cwid = Some f0"
  shows "(\<not> (f_ufp f0 = None
              \<and> (f_data_id f0 = CW_DATA_ID_VISIBLE \<or> f_data_id f0 = CW_DATA_ID_IR)
              \<and> f_pixel_size f0 = 2) \<and> g1 = g)
         \<or> (f_ufp f0 = None
              \<and> (f_data_id f0 = CW_DATA_ID_VISIBLE \<or> f_data_id f0 = CW_DATA_ID_IR)
              \<and> f_pixel_size f0 = 2
              \<and> (\<exists>fp0 c fpc. streams g (f_fp f0) = Some fp0
               \<and> cw_get_att (cw_byteswap g) (host_le g) fp0 CW_O_COMPRESSION_TYPE = (Some c, fpc)
               \<and> (c \<noteq> CW_COMPRESSION_TYPE_1B \<and> g1 = set_stream g (f_fp f0) fpc
                    \<or> c = CW_COMPRESSION_TYPE_1B
                       \<and> cw_uncompress (set_stream g (f_fp f0) fpc) cwid = Some (CW_NOERR, g1))))"
proof (cases "f_ufp f0 = None
              \<and> (f_data_id f0 = CW_DATA_ID_VISIBLE \<or> f_data_id f0 = CW_DATA_ID_IR)
              \<and> f_pixel_size f0 = 2")
  case False
  with checks f0 have "g1 = g"
    by (auto simp: vara_checks_def split: if_splits)
  with False show ?thesis by blast
next
  case True
  from checks f0 True obtain fp0 where fp0: "streams g (f_fp f0) = Some fp0"
    by (auto simp: vara_checks_def split: if_splits option.splits)
  obtain a fpc where att: "cw_get_att (cw_byteswap g) (host_le g) fp0 CW_O_COMPRESSION_TYPE = (a, fpc)"
    by (cases "cw_get_att (cw_byteswap g) (host_le g) fp0 CW_O_COMPRESSION_TYPE")
  from checks f0 True fp0 att obtain c where c: "a = Some c"
    by (cases a) (auto simp: vara_checks_def split: if_splits)
  from checks f0 True fp0 att c have
    "c \<noteq> CW_COMPRESSION_TYPE_1B \<and> g1 = set_stream g (f_fp f0) fpc
     \<or> c = CW_COMPRESSION_TYPE_1B
        \<and> cw_uncompress (set_stream g (f_fp f0) fpc) cwid = Some (CW_NOERR, g1)"
    by (auto simp: vara_checks_def CW_COMPRESSION_TYPE_1B_def CW_COMPRESSION_TYPE_NONE_def
          CW_COMPRESSION_TYPE_FLAT_def split: if_splits)
  with fp0 att c True show ?thesis by blast
qed

lemma vara_checks_frame:
  assumes checks: "vara_checks g cwid start count = Some (CW_NOERR, g1)"
      and fresh: "streams g (next_stream g) = None"
      and f0: "cw_files_deref g cwid = Some f0"
  shows "(\<forall>h st. streams g h = Some st \<longrightarrow>
            streams g1 h = None \<or> map_option bytes (streams g1 h) = Some (bytes st))
         \<and> (\<forall>p. disk g1 p = disk g p
               \<or> (\<exists>h st. streams g h = Some st \<and> stream_path g h = Some p
                     \<and> disk g1 p = Some (bytes st)))"
proof -
  from vara_checks_cases [OF checks f0] consider
      (same) "g1 = g"
    | (moved) fp0 c fpc where "streams g (f_fp f0) = Some fp0"
        "cw_get_att (cw_byteswap g) (host_le g) fp0 CW_O_COMPRESSION_TYPE = (Some c, fpc)"
        "g1 = set_stream g (f_fp f0) fpc"
    | (uncompressed) fp0 c fpc where "streams g (f_fp f0) = Some fp0"
        "cw_get_att (cw_byteswap g) (host_le g) fp0 CW_O_COMPRESSION_TYPE = (Some c, fpc)"
        "cw_uncompress (set_stream g (f_fp f0) fpc) cwid = Some (CW_NOERR, g1)"
    by blast
  then show ?thesis
  proof cases
    case same
    then show ?thesis by simp
  next
    case moved
    from cw_get_att_bytes [OF moved(2)] moved(1) moved(3) show ?thesis
      by (auto simp: set_stream_def)
  next
    case uncompressed
    define ga where "ga = set_stream g (f_fp f0) fpc"
    have b: "bytes fpc = bytes fp0" by (rule cw_get_att_bytes [OF uncompressed(2)])
    have ne: "f_fp f0 \<noteq> next_stream g" using uncompressed(1) fresh by auto
    have fa: "streams ga (next_stream ga) = None"
      using fresh ne by (simp add: ga_def set_stream_def)
    note fr = cw_uncompress_frame [OF uncompressed(3) [folded ga_def] fa]
    have sa: "streams ga = (streams g)(f_fp f0 := Some fpc)" "disk ga = disk g"
      "stream_path ga = stream_path g"
      by (simp_all add: ga_def set_stream_def)
    have A: "\<forall>h st. streams g h = Some st \<longrightarrow>
            streams g1 h = None \<or> map_option bytes (streams g1 h) = Some (bytes st)"
    proof (intro allI impI)
      fix h st assume h: "streams g h = Some st"
      show "streams g1 h = None \<or> map_option bytes (streams g1 h) = Some (bytes st)"
      proof (cases "h = f_fp f0")
        case True
        then have "streams ga h = Some fpc" "bytes fpc = bytes st"
          using h uncompressed(1) b by (simp_all add: sa)
        with fr show ?thesis by metis
      next
        case False
        then have "streams ga h = Some st" using h by (simp add: sa)
        with fr show ?thesis by metis
      qed
    qed
    have B: "\<forall>p. disk g1 p = disk g p
               \<or> (\<exists>h st. streams g h = Some st \<and> stream_path g h = Some p
                     \<and> disk g1 p = Some (bytes st))"
    proof
      fix p
      from fr have "disk g1 p = disk ga p
               \<or> (\<exists>h st. streams ga h = Some st \<and> stream_path ga h = Some p
                     \<and> disk g1 p = Some (bytes st))" by blast
      then show "disk g1 p = disk g p
               \<or> (\<exists>h st. streams g h = Some st \<and> stream_path g h = Some p
                     \<and> disk g1 p = Some (bytes st))"
      proof
        assume "disk g1 p = disk ga p" then show ?thesis by (simp add: sa)
      next
        assume "\<exists>h st. streams ga h = Some st \<and> stream_path ga h = Some p
                     \<and> disk g1 p = Some (bytes st)"
        then obtain h st where hs: "streams ga h = Some st" "stream_path ga h = Some p"
          "disk g1 p = Some (bytes st)" by blast
        show ?thesis
        proof (cases "h = f_fp f0")
          case True
          then have "st = fpc" using hs(1) by (simp add: sa)
          then have "disk g1 p = Some (bytes fp0)" using hs(3) b by simp
          with True hs(2) uncompressed(1) show ?thesis by (auto simp: sa)
        next
          case False
          then have "streams g h = Some st" using hs(1) by (simp add: sa)
          with hs show ?thesis by (auto simp: sa)
        qed
      qed
    qed
    from A B show ?thesis by blast
  qed
qed

text \<open>
  C7. Claim: \<^verbatim>\<open>cw_put_vara\<close> refuses every write to a dataset whose header holds a
  non-zero shift with \<^verbatim>\<open>CW_ERR_WRITE_SHIFT\<close>. The shifts are read after the checks of the
  dataset id, the define mode, the window and the compression: on a dataset with the
  vertical shift 1, a window starting at row 5 of 2 is refused with \<^verbatim>\<open>CW_ERR_VAR_INDEX\<close>.
\<close>

theorem C7_index_checked_first_counterexample:
  "fst (cw_get_att (cw_byteswap ex_shift_state) (host_le ex_shift_state) ex_shift_stream
          CW_O_VERTICAL_SHIFT) = Some 1
   \<and> map_option fst (cw_put_vara_uchar ex_shift_state 0 CW_DATA (5, 0) (1, 1) [7])
       = Some CW_ERR_VAR_INDEX"
  by code_simp

text \<open>
  C7 as amended: if the request passes the checks that come first (dataset id, define
  mode, window, compression), leaving the state \<open>g1\<close>, and both shifts can be read from the
  header and one of them is not zero, then \<^verbatim>\<open>cw_put_vara\<close> returns \<^verbatim>\<open>CW_ERR_WRITE_SHIFT\<close>
  for every variable id and data, and no byte of a stream or of a file has been written:
  compared with the state \<open>g\<close> before the call, every stream that was open is closed or
  holds the same bytes, and every file is as it was or holds the bytes of the stream that
  was open on it. Unless the dataset is 1B-compressed and has no uncompressed working copy
  yet, in which case the compression check has uncompressed it into a temporary stream
  first, the table, the files and the bytes of all streams are those of \<open>g\<close>: only the
  position of the stream of the dataset has moved.
\<close>

theorem C7_write_shift:
  assumes checks: "vara_checks g cwid start count = Some (CW_NOERR, g1)"
      and fresh: "streams g (next_stream g) = None"
      and f0: "cw_files_deref g cwid = Some f0"
      and f: "cw_files_deref g1 cwid = Some f"
      and fp: "streams g1 (f_fp f) = Some fp"
      and v: "cw_get_att (cw_byteswap g1) (host_le g1) fp CW_O_VERTICAL_SHIFT = (Some shift_r, fp1)"
      and h: "cw_get_att (cw_byteswap g1) (host_le g1) fp1 CW_O_HORIZONTAL_SHIFT
                = (Some shift_c, fp2)"
      and nz: "shift_r \<noteq> 0 \<or> shift_c \<noteq> 0"
  shows "cw_put_vara g cwid varid start count d
           = Some (CW_ERR_WRITE_SHIFT, set_stream g1 (f_fp f) fp2)
         \<and> (\<forall>h st. streams g h = Some st \<longrightarrow>
               streams (set_stream g1 (f_fp f) fp2) h = None
               \<or> map_option bytes (streams (set_stream g1 (f_fp f) fp2) h) = Some (bytes st))
         \<and> (\<forall>p. disk (set_stream g1 (f_fp f) fp2) p = disk g p
               \<or> (\<exists>h st. streams g h = Some st \<and> stream_path g h = Some p
                     \<and> disk (set_stream g1 (f_fp f) fp2) p = Some (bytes st)))
         \<and> (\<not> (f_ufp f0 = None
                 \<and> (f_data_id f0 = CW_DATA_ID_VISIBLE \<or> f_data_id f0 = CW_DATA_ID_IR)
                 \<and> f_pixel_size f0 = 2
                 \<and> map_option
                      (\<lambda>s. fst (cw_get_att (cw_byteswap g) (host_le g) s CW_O_COMPRESSION_TYPE))
                      (streams g (f_fp f0)) = Some (Some CW_COMPRESSION_TYPE_1B))
              \<longrightarrow> cw_files (set_stream g1 (f_fp f) fp2) = cw_files g
                  \<and> disk (set_stream g1 (f_fp f) fp2) = disk g
                  \<and> (\<forall>h. map_option bytes (streams (set_stream g1 (f_fp f) fp2) h)
                           = map_option bytes (streams g h)))"
proof -
  define G where "G = set_stream g1 (f_fp f) fp2"
  have a: "cw_put_vara g cwid varid start count d = Some (CW_ERR_WRITE_SHIFT, G)"
    using checks f fp v h nz unfolding cw_put_vara_def G_def by auto
  have b: "bytes fp2 = bytes fp"
    using cw_get_att_bytes [OF v] cw_get_att_bytes [OF h] by simp
  have sG: "map_option bytes (streams G k) = map_option bytes (streams g1 k)" for k
    using fp b by (simp add: G_def set_stream_def)
  have nG: "streams G k = None \<longleftrightarrow> streams g1 k = None" for k
    using fp by (simp add: G_def set_stream_def)
  have dG: "disk G = disk g1" "cw_files G = cw_files g1"
    by (simp_all add: G_def set_stream_def)
  note fr = vara_checks_frame [OF checks fresh f0]
  have A: "\<forall>h st. streams g h = Some st \<longrightarrow>
               streams G h = None \<or> map_option bytes (streams G h) = Some (bytes st)"
    using fr by (simp add: sG nG)
  have B: "\<forall>p. disk G p = disk g p
               \<or> (\<exists>h st. streams g h = Some st \<and> stream_path g h = Some p
                     \<and> disk G p = Some (bytes st))"
    using fr by (simp add: dG)
  have C: "\<not> (f_ufp f0 = None
                 \<and> (f_data_id f0 = CW_DATA_ID_VISIBLE \<or> f_data_id f0 = CW_DATA_ID_IR)
                 \<and> f_pixel_size f0 = 2
                 \<and> map_option
                      (\<lambda>s. fst (cw_get_att (cw_byteswap g) (host_le g) s CW_O_COMPRESSION_TYPE))
                      (streams g (f_fp f0)) = Some (Some CW_COMPRESSION_TYPE_1B))
              \<longrightarrow> cw_files G = cw_files g \<and> disk G = disk g
                  \<and> (\<forall>h. map_option bytes (streams G h) = map_option bytes (streams g h))"
  proof
    assume n: "\<not> (f_ufp f0 = None
                 \<and> (f_data_id f0 = CW_DATA_ID_VISIBLE \<or> f_data_id f0 = CW_DATA_ID_IR)
                 \<and> f_pixel_size f0 = 2
                 \<and> map_option
                      (\<lambda>s. fst (cw_get_att (cw_byteswap g) (host_le g) s CW_O_COMPRESSION_TYPE))
                      (streams g (f_fp f0)) = Some (Some CW_COMPRESSION_TYPE_1B))"
    from vara_checks_cases [OF checks f0] n have
      "g1 = g \<or> (\<exists>fp0 c fpc. streams g (f_fp f0) = Some fp0
               \<and> cw_get_att (cw_byteswap g) (host_le g) fp0 CW_O_COMPRESSION_TYPE = (Some c, fpc)
               \<and> g1 = set_stream g (f_fp f0) fpc)"
      by auto
    then show "cw_files G = cw_files g \<and> disk G = disk g
                  \<and> (\<forall>h. map_option bytes (streams G h) = map_option bytes (streams g h))"
    proof
      assume "g1 = g" then show ?thesis by (simp add: dG sG)
    next
      assume "\<exists>fp0 c fpc. streams g (f_fp f0) = Some fp0
               \<and> cw_get_att (cw_byteswap g) (host_le g) fp0 CW_O_COMPRESSION_TYPE = (Some c, fpc)
               \<and> g1 = set_stream g (f_fp f0) fpc"
      then obtain fp0 c fpc where m: "streams g (f_fp f0) = Some fp0"
        "cw_get_att (cw_byteswap g) (host_le g) fp0 CW_O_COMPRESSION_TYPE = (Some c, fpc)"
        "g1 = set_stream g (f_fp f0) fpc" by blast
      from cw_get_att_bytes [OF m(2)] m(1) m(3) show ?thesis
        by (auto simp: dG sG set_stream_def)
    qed
  qed
  from a A B C show ?thesis unfolding G_def by blast
qed

theorem C7_write_shift_witness:
  "cw_put_vara ex_shift_state 0 CW_DATA (0, 0) (1, 1) (Uchars [7])
     = Some (CW_ERR_WRITE_SHIFT, set_stream ex_shift_state 0 (ex_shift_stream\<lparr>pos := 86\<rparr>))
   \<and> cw_files (set_stream ex_shift_state 0 (ex_shift_stream\<lparr>pos := 86\<rparr>))
       = cw_files ex_shift_state
   \<and> disk (set_stream ex_shift_state 0 (ex_shift_stream\<lparr>pos := 86\<rparr>)) = disk ex_shift_state"
proof -
  have h1: "vara_checks ex_shift_state 0 (0, 0) (1, 1) = Some (CW_NOERR, ex_shift_state)"
    by (simp add: vara_checks_def cw_files_null_def cw_files_deref_def in_table_def
        CW_MAX_FILES_def ex_shift_state_def ex_cloud_state_def ex_cloud_file_def
        index_out_of_range_def CW_FALSE_def CW_TRUE_def CW_DATA_ID_CLOUD_def
        CW_DATA_ID_VISIBLE_def CW_DATA_ID_IR_def)
  have h2: "cw_files_deref ex_shift_state 0 = Some (ex_cloud_file\<lparr>f_dims := (2, 2)\<rparr>)"
    by (simp add: cw_files_deref_def in_table_def CW_MAX_FILES_def ex_shift_state_def
        ex_cloud_state_def)
  have h3: "streams ex_shift_state (f_fp (ex_cloud_file\<lparr>f_dims := (2, 2)\<rparr>))
              = Some ex_shift_stream"
    by (simp add: ex_shift_state_def ex_cloud_state_def ex_cloud_file_def)
  have h4: "cw_get_att (cw_byteswap ex_shift_state) (host_le ex_shift_state) ex_shift_stream
              CW_O_VERTICAL_SHIFT = (Some 1, ex_shift_stream\<lparr>pos := 88\<rparr>)"
    by code_simp
  have h5: "cw_get_att (cw_byteswap ex_shift_state) (host_le ex_shift_state)
              (ex_shift_stream\<lparr>pos := 88\<rparr>) CW_O_HORIZONTAL_SHIFT
              = (Some 0, ex_shift_stream\<lparr>pos := 86\<rparr>)"
    by code_simp
  have h6: "(1 :: short) \<noteq> 0 \<or> (0 :: short) \<noteq> 0" by simp
  have fresh: "streams ex_shift_state (next_stream ex_shift_state) = None"
    by (simp add: ex_shift_state_def ex_cloud_state_def)
  have h7: "f_fp (ex_cloud_file\<lparr>f_dims := (2, 2)\<rparr>) = 0"
    by (simp add: ex_cloud_file_def)
  have nd: "f_pixel_size (ex_cloud_file\<lparr>f_dims := (2, 2)\<rparr>) \<noteq> 2"
    by (simp add: ex_cloud_file_def)
  note t = C7_write_shift [OF h1 fresh h2 h2 h3 h4 h5 h6, of CW_DATA "Uchars [7]", unfolded h7]
  from t nd show ?thesis by blast
qed

subsection \<open>Longitudes of the map projections\<close>

lemma arctan_series_bounds:
  fixes x :: real
  assumes x0: "0 \<le> x" and x1: "x \<le> 1"
  shows "(\<Sum>i<2*n. (-1)^i * (1 / real (i * 2 + 1) * x ^ (i * 2 + 1))) \<le> arctan x"
    and "arctan x \<le> (\<Sum>i<2*n+1. (-1)^i * (1 / real (i * 2 + 1) * x ^ (i * 2 + 1)))"
proof -
  let ?a = "\<lambda>n. 1 / real (n * 2 + 1) * x ^ (n * 2 + 1)"
  have ax: "\<bar>x\<bar> \<le> 1" using x0 x1 by simp
  have z: "?a \<longlonglongrightarrow> 0" by (rule zeroseq_arctan_series [OF ax])
  have p: "\<And>n. 0 \<le> ?a n" using x0 by simp
  have m: "\<And>n. ?a (Suc n) \<le> ?a n"
  proof -
    fix n
    show "?a (Suc n) \<le> ?a n"
    proof (rule mult_mono)
      show "1 / real (Suc n * 2 + 1) \<le> 1 / real (n * 2 + 1)"
        by (rule frac_le) simp_all
      show "0 \<le> 1 / real (n * 2 + 1)" by simp
      show "x ^ (Suc n * 2 + 1) \<le> x ^ (n * 2 + 1)"
        by (rule power_decreasing) (simp_all add: x0 x1)
      show "0 \<le> x ^ (Suc n * 2 + 1)" using x0 by simp
    qed
  qed
  have s: "arctan x = (\<Sum>k. (-1)^k * ?a k)" by (rule arctan_series [OF ax])
  show "(\<Sum>i<2*n. (-1)^i * ?a i) \<le> arctan x"
    unfolding s by (rule summable_Leibniz'(2) [OF z p m])
  show "arctan x \<le> (\<Sum>i<2*n+1. (-1)^i * ?a i)"
    unfolding s by (rule summable_Leibniz'(4) [OF z p m])
qed

text \<open>The constant \<^verbatim>\<open>PI\<close> of the source is larger than \<open>\<pi>\<close>, by Machin's formula.\<close>

lemma pi_less_PI: "pi < PI"
proof -
  have u: "arctan (1 / 5) \<le> (\<Sum>i<2*3+1. (-1)^i * (1 / real (i * 2 + 1) * (1 / 5 :: real) ^ (i * 2 + 1)))"
    by (rule arctan_series_bounds(2)) simp_all
  have l: "(\<Sum>i<2*1. (-1)^i * (1 / real (i * 2 + 1) * (1 / 239 :: real) ^ (i * 2 + 1))) \<le> arctan (1 / 239)"
    by (rule arctan_series_bounds(1)) simp_all
  define U :: real where "U = 1/5 - (1/5)^3 / 3 + (1/5)^5 / 5 - (1/5)^7 / 7 + (1/5)^9 / 9
              - (1/5)^11 / 11 + (1/5)^13 / 13"
  define L :: real where "L = 1/239 - (1/239)^3 / 3"
  have u': "arctan (1 / 5) \<le> U"
    using u unfolding U_def by (simp add: numeral_eq_Suc)
  have l': "L \<le> arctan (1 / 239)"
    using l unfolding L_def by (simp add: numeral_eq_Suc)
  have "pi = 16 * arctan (1 / 5) - 4 * arctan (1 / 239)"
    using machin by simp
  also have "\<dots> \<le> 16 * U - 4 * L"
    using u' l' by linarith
  also have "\<dots> < 3.141592654" unfolding U_def L_def by (simp add: power_divide)
  finally show ?thesis by (simp add: PI_def)
qed

lemma RTOD_arccos: 
  assumes "- 1 \<le> c" "c \<le> 1"
  shows "0 \<le> RTOD (arccos c)" "RTOD (arccos c) < 180"
proof -
  have a: "0 \<le> arccos c" "arccos c \<le> pi"
    using arccos_bounded [OF assms] by simp_all
  have P: "0 < PI" by (simp add: PI_def)
  show "0 \<le> RTOD (arccos c)" using a P by (simp add: RTOD_def)
  have "arccos c < PI" using a pi_less_PI by linarith
  then have "arccos c * 180 < 180 * PI" by simp
  then show "RTOD (arccos c) < 180"
    using P by (simp add: RTOD_def pos_divide_less_eq)
qed

lemma LONR_once: "- 540 \<le> a \<Longrightarrow> a < 540 \<Longrightarrow> - 180 \<le> LONR a \<and> LONR a < 180"
  by (simp add: LONR_def)

lemma LONR_sum:
  "- 180 < s \<Longrightarrow> s < 180 \<Longrightarrow> - 180 \<le> p \<Longrightarrow> p < 180 \<Longrightarrow> - 180 \<le> LONR (s + p) \<and> LONR (s + p) < 180"
  by (simp add: LONR_def)

lemma quotient_in_unit:
  fixes a b :: real
  assumes "sqrt (a ^ 2 + b ^ 2) \<noteq> 0"
  shows "- 1 \<le> b / sqrt (a ^ 2 + b ^ 2)" "b / sqrt (a ^ 2 + b ^ 2) \<le> 1"
proof -
  define d where "d = sqrt (a ^ 2 + b ^ 2)"
  have d0: "0 < d" using assms unfolding d_def by (simp add: less_le)
  have "\<bar>b\<bar> = sqrt (b ^ 2)" by simp
  also have "\<dots> \<le> d" unfolding d_def by (rule real_sqrt_le_mono) simp
  finally have b: "\<bar>b\<bar> \<le> d" .
  then have "- d \<le> b" "b \<le> d" by linarith+
  then show "- 1 \<le> b / sqrt (a ^ 2 + b ^ 2)" "b / sqrt (a ^ 2 + b ^ 2) \<le> 1"
    using d0 unfolding d_def [symmetric] by (simp_all add: pos_le_divide_eq pos_divide_le_eq)
qed

text \<open>
  C3. Claim: for every initialized projection type and every pixel coordinate, the
  longitude that the conversion produces lies in [-180, 180). Only \<^verbatim>\<open>cw_polar_ijll\<close>
  applies \<^verbatim>\<open>LONR\<close>. \<^verbatim>\<open>cw_linear_ijll\<close> returns \<open>x\<close> and \<^verbatim>\<open>cw_mercator_ijll\<close> returns
  \<^verbatim>\<open>RTOD (x/R)\<close> as they are: with resolution 1 and no offsets, the linear longitude of the
  pixel column 201 is 200 and the Mercator longitude of the pixel column 25001 is more
  than 180.
\<close>

theorem C3_linear_mercator_counterexample:
  "cw_get_ll \<lparr>p_ptype = LINEAR, p_hem = 1, p_ioff = 0, p_joff = 0, p_res = 1, p_plon = 0\<rparr>
     201 1 (0, 0) = Some (0, 200)
   \<and> \<not> (200 :: real) < 180
   \<and> map_option snd
        (cw_get_ll \<lparr>p_ptype = MERCATOR, p_hem = 1, p_ioff = 0, p_joff = 0, p_res = 1, p_plon = 0\<rparr>
           25001 1 (0, 0)) = Some (RTOD (25000 / proj_R))
   \<and> \<not> RTOD (25000 / proj_R) < 180"
  by (simp add: cw_get_ll_def cw_linear_ijll_def cw_mercator_ijll_def ijxy_def Let_def
      LINEAR_def MERCATOR_def UNMAPPED_def POLAR_def RTOD_def proj_R_def PI_def)

text \<open>
  C3 as amended: \<^verbatim>\<open>cw_polar_ijll\<close>, and \<^verbatim>\<open>cw_get_ll\<close> for the polar stereographic
  projection, produce a longitude in [-180, 180) for every pixel that is not the pole of
  the grid, provided that the prime longitude lies in [-540, 540), where one application
  of \<^verbatim>\<open>LONR\<close> normalizes it.
\<close>

theorem C3_polar_longitude:
  assumes "- 540 \<le> plon" and "plon < 540" and "ijxy i j res ioff joff \<noteq> (ICEN, ICEN)"
  shows "cw_polar_ijll i j hem plon res ioff joff \<noteq> None
         \<and> - 180 \<le> snd (the (cw_polar_ijll i j hem plon res ioff joff))
         \<and> snd (the (cw_polar_ijll i j hem plon res ioff joff)) < 180
         \<and> cw_get_ll \<lparr>p_ptype = POLAR, p_hem = hem, p_ioff = ioff, p_joff = joff,
                       p_res = res, p_plon = plon\<rparr> i j latlon
             = cw_polar_ijll i j hem plon res ioff joff"
proof -
  obtain x y0 where xy: "ijxy i j res ioff joff = (x, y0)"
    by (cases "ijxy i j res ioff joff") auto
  define y where "y = (if hem = - 1 then (JMAX + 1) - y0 else y0)"
  define dist where "dist = sqrt ((x - ICEN) ^ 2 + (y - ICEN) ^ 2)"
  have ne: "x \<noteq> ICEN \<or> y0 \<noteq> ICEN" using assms(3) xy by simp
  have yy: "(y - ICEN) ^ 2 = (y0 - ICEN) ^ 2"
    unfolding y_def by (simp add: JMAX_def ICEN_def power2_eq_square algebra_simps)
  have "(x - ICEN) ^ 2 + (y - ICEN) ^ 2 \<noteq> 0"
    unfolding yy using ne by (simp add: sum_power2_eq_zero_iff)
  then have d0: "dist \<noteq> 0" unfolding dist_def by simp
  define c where "c = (y - ICEN) / dist"
  have cb: "- 1 \<le> c" "c \<le> 1"
    using quotient_in_unit [of "x - ICEN" "y - ICEN"] d0 unfolding c_def dist_def by simp_all
  define signx :: real where "signx = (if x - ICEN < 0 then - 1 else 1)"
  define s where "s = RTOD (arccos c) * signx"
  have sb: "- 180 < s" "s < 180"
    using RTOD_arccos [OF cb] unfolding s_def signx_def by (simp_all split: if_splits)
  have pb: "- 180 \<le> LONR plon" "LONR plon < 180"
    using LONR_once [OF assms(1) assms(2)] by simp_all
  have val: "cw_polar_ijll i j hem plon res ioff joff
               = Some (90 - RTOD (2 * arctan (dist / ((1 + sin (DTOR 60)) * proj_R))),
                       LONR (s + LONR plon))"
    using d0 unfolding cw_polar_ijll_def xy s_def signx_def c_def dist_def y_def
    by (simp add: Let_def)
  have g: "cw_get_ll \<lparr>p_ptype = POLAR, p_hem = hem, p_ioff = ioff, p_joff = joff,
                       p_res = res, p_plon = plon\<rparr> i j latlon
             = cw_polar_ijll i j hem plon res ioff joff"
    by (simp add: cw_get_ll_def POLAR_def UNMAPPED_def MERCATOR_def)
  show ?thesis
    using LONR_sum [OF sb pb] g unfolding val by simp
qed

theorem C3_polar_longitude_witness:
  "cw_polar_ijll 1 1 1 (- 132.5) 1.47 0 0 \<noteq> None
   \<and> - 180 \<le> snd (the (cw_polar_ijll 1 1 1 (- 132.5) 1.47 0 0))
   \<and> snd (the (cw_polar_ijll 1 1 1 (- 132.5) 1.47 0 0)) < 180"
proof -
  have h1: "- 540 \<le> (- 132.5 :: real)" by simp
  have h2: "(- 132.5 :: real) < 540" by simp
  have h3: "ijxy 1 1 1.47 0 0 \<noteq> (ICEN, ICEN)" by (simp add: ijxy_def ICEN_def)
  from C3_polar_longitude [OF h1 h2 h3, of 1 "(0, 0)"] show ?thesis by simp
qed

end
